theory Spec2Isabelle
  imports Complex_Main "HOL-Library.Log_Nat" "HOL-Library.Sublist"
begin

section \<open>Python floats\<close>

text \<open>
  A Python float is an IEEE-754 binary64 value.  Finite values are kept as the rational
  number they denote, next to the two infinities and NaN.  The two zeros are identified:
  the program never divides by a zero, and Python's comparisons and \<^verbatim>\<open>==\<close> on dictionaries
  do not tell them apart.  The sign of a computed zero shows in one place only, the text that
  \<^verbatim>\<open>get_pvout_annual\<close> makes of a rounded value; the negative zero that rounding a negative
  value yields is handled there (\<open>rounded_text\<close>), and a negative zero in the answer of
  the service itself is outside the values modelled.
\<close>

datatype pyfloat = Fl rat | PInf | NInf | NaN

text \<open>Rounding a rational to the nearest integer, ties to the even one.\<close>

definition rhe :: "rat \<Rightarrow> int" where
  "rhe x = (let f = \<lfloor>x\<rfloor>; d = x - of_int f in
     if d < 1 / 2 then f else if 1 / 2 < d then f + 1 else if even f then f else f + 1)"

text \<open>The binary exponent of a rational other than zero: \<open>2 powi e \<le> \<bar>x\<bar> < 2 powi (e + 1)\<close>.\<close>

definition ilog2 :: "rat \<Rightarrow> int" where
  "ilog2 x = (case quotient_of \<bar>x\<bar> of (p, q) \<Rightarrow>
     let d = bitlen p - bitlen q in if 2 powi d \<le> \<bar>x\<bar> then d else d - 1)"

text \<open>
  Rounding to binary64, nearest with ties to even: 53 significant bits, the smallest
  subnormal is \<open>2 powi - 1074\<close>, and a result of magnitude \<open>2 powi 1024\<close> or more is
  an infinity.
\<close>

definition fl :: "rat \<Rightarrow> pyfloat" where
  "fl x = (if x = 0 then Fl 0 else
     let u = max (ilog2 x - 52) (- 1074);
         r = of_int (rhe (x / 2 powi u)) * 2 powi u
     in if 2 powi 1024 \<le> r then PInf else if r \<le> - (2 powi 1024) then NInf else Fl r)"

fun fmul :: "pyfloat \<Rightarrow> pyfloat \<Rightarrow> pyfloat" where
  "fmul (Fl a) (Fl b) = fl (a * b)"
| "fmul NaN y = NaN"
| "fmul x NaN = NaN"
| "fmul (Fl a) PInf = (if a = 0 then NaN else if 0 < a then PInf else NInf)"
| "fmul (Fl a) NInf = (if a = 0 then NaN else if 0 < a then NInf else PInf)"
| "fmul PInf (Fl b) = (if b = 0 then NaN else if 0 < b then PInf else NInf)"
| "fmul NInf (Fl b) = (if b = 0 then NaN else if 0 < b then NInf else PInf)"
| "fmul PInf PInf = PInf"
| "fmul PInf NInf = NInf"
| "fmul NInf PInf = NInf"
| "fmul NInf NInf = PInf"

text \<open>The IEEE quotient by a divisor other than zero.\<close>

fun fquot :: "pyfloat \<Rightarrow> pyfloat \<Rightarrow> pyfloat" where
  "fquot (Fl a) (Fl b) = fl (a / b)"
| "fquot NaN y = NaN"
| "fquot x NaN = NaN"
| "fquot (Fl a) PInf = Fl 0"
| "fquot (Fl a) NInf = Fl 0"
| "fquot PInf (Fl b) = (if 0 < b then PInf else NInf)"
| "fquot NInf (Fl b) = (if 0 < b then NInf else PInf)"
| "fquot PInf PInf = NaN"
| "fquot PInf NInf = NaN"
| "fquot NInf PInf = NaN"
| "fquot NInf NInf = NaN"

text \<open>Comparisons: every comparison with NaN is false, except \<open>!=\<close>.\<close>

fun flt :: "pyfloat \<Rightarrow> pyfloat \<Rightarrow> bool" where
  "flt (Fl a) (Fl b) = (a < b)"
| "flt NaN y = False"
| "flt x NaN = False"
| "flt x NInf = False"
| "flt PInf y = False"
| "flt NInf y = True"
| "flt (Fl a) PInf = True"

definition fgt :: "pyfloat \<Rightarrow> pyfloat \<Rightarrow> bool" where
  "fgt x y = flt y x"

definition feq :: "pyfloat \<Rightarrow> pyfloat \<Rightarrow> bool" where
  "feq x y = (x \<noteq> NaN \<and> y \<noteq> NaN \<and> x = y)"

definition fne :: "pyfloat \<Rightarrow> pyfloat \<Rightarrow> bool" where
  "fne x y = (\<not> feq x y)"

definition fle :: "pyfloat \<Rightarrow> pyfloat \<Rightarrow> bool" where
  "fle x y = (flt x y \<or> feq x y)"

definition fge :: "pyfloat \<Rightarrow> pyfloat \<Rightarrow> bool" where
  "fge x y = fle y x"

text \<open>
  \<^verbatim>\<open>round(x, n)\<close> with \<open>n\<close> given returns a float: the decimal with \<open>n\<close> fractional digits
  nearest to the exact value of \<open>x\<close> (ties to even), read back as a float.  Infinities
  and NaN round to themselves.
\<close>

definition py_round :: "pyfloat \<Rightarrow> nat \<Rightarrow> pyfloat" where
  "py_round x n = (case x of Fl a \<Rightarrow> fl (of_int (rhe (a * 10 ^ n)) / 10 ^ n) | _ \<Rightarrow> x)"

section \<open>Python values, exceptions and control flow\<close>

datatype pyval =
    PyNone
  | PyBool bool
  | PyInt int
  | PyFloat pyfloat
  | PyStr string
  | PyList "pyval list"
  | PyDict "(string \<times> pyval) list"

type_synonym dict = "(string \<times> pyval) list"

definition dict_get :: "dict \<Rightarrow> string \<Rightarrow> pyval option" where
  "dict_get d k = map_of d k"

definition keys :: "dict \<Rightarrow> string list" where
  "keys d = map fst d"

text \<open>
  The exceptions the two functions can meet, each with the value it complains about.
  \<open>RequestException\<close> stands for the whole family of \<^verbatim>\<open>requests.exceptions\<close>;
  \<open>OtherException\<close> for any other subclass of \<^verbatim>\<open>Exception\<close> the HTTP library may raise.
\<close>

datatype exn =
    TypeError pyval
  | ValueError pyval
  | OverflowError pyval
  | ZeroDivisionError
  | KeyError string
  | RequestException string
  | OtherException string

text \<open>
  What a block of statements does: it raises, it executes a \<^verbatim>\<open>return\<close>, or it goes
  on with a value.
\<close>

datatype 'a flow = Raised exn | Returned dict | Normal 'a

fun flow_bind :: "'a flow \<Rightarrow> ('a \<Rightarrow> 'b flow) \<Rightarrow> 'b flow" where
  "flow_bind (Raised e) f = Raised e"
| "flow_bind (Returned d) f = Returned d"
| "flow_bind (Normal x) f = f x"

text \<open>
  The parts of the interpreter that the program's text does not fix are parameters:
  how \<^verbatim>\<open>float\<close> reads a string (\<open>None\<close>: it raises ValueError), the text of an exception
  (\<^verbatim>\<open>str(e)\<close>), and the text of a value (\<^verbatim>\<open>str(v)\<close>, also used by f-strings).
\<close>

record builtins =
  str_to_float :: "string \<Rightarrow> pyfloat option"
  exn_str :: "exn \<Rightarrow> string"
  py_str :: "pyval \<Rightarrow> string"

fun truthy :: "pyval \<Rightarrow> bool" where
  "truthy PyNone = False"
| "truthy (PyBool b) = b"
| "truthy (PyInt i) = (i \<noteq> 0)"
| "truthy (PyFloat x) = (x \<noteq> Fl 0)"
| "truthy (PyStr s) = (s \<noteq> [])"
| "truthy (PyList xs) = (xs \<noteq> [])"
| "truthy (PyDict kvs) = (kvs \<noteq> [])"

text \<open>An int becomes the nearest float; one too large for a float raises.\<close>

definition int_to_float :: "int \<Rightarrow> pyfloat flow" where
  "int_to_float i = (case fl (of_int i) of Fl r \<Rightarrow> Normal (Fl r) | _ \<Rightarrow> Raised (OverflowError (PyInt i)))"

fun to_float :: "builtins \<Rightarrow> pyval \<Rightarrow> pyfloat flow" where
  "to_float B (PyFloat x) = Normal x"
| "to_float B (PyInt i) = int_to_float i"
| "to_float B (PyBool b) = Normal (Fl (if b then 1 else 0))"
| "to_float B (PyStr s) =
     (case str_to_float B s of None \<Rightarrow> Raised (ValueError (PyStr s)) | Some x \<Rightarrow> Normal x)"
| "to_float B v = Raised (TypeError v)"

text \<open>Python's \<^verbatim>\<open>/\<close> on floats raises on a zero divisor.\<close>

definition fdiv :: "pyfloat \<Rightarrow> pyfloat \<Rightarrow> pyfloat flow" where
  "fdiv x y = (if feq y (Fl 0) then Raised ZeroDivisionError else Normal (fquot x y))"

fun math_ceil :: "pyfloat \<Rightarrow> int flow" where
  "math_ceil (Fl a) = Normal \<lceil>a\<rceil>"
| "math_ceil NaN = Raised (ValueError (PyFloat NaN))"
| "math_ceil x = Raised (OverflowError (PyFloat x))"

fun subscript :: "pyval \<Rightarrow> string \<Rightarrow> pyval flow" where
  "subscript (PyDict kvs) k = (case map_of kvs k of None \<Rightarrow> Raised (KeyError k) | Some v \<Rightarrow> Normal v)"
| "subscript v k = Raised (TypeError v)"

section \<open>calculator.py\<close>

subsection \<open>Constants\<close>

definition DEFAULT_TARIFF :: pyfloat where
  "DEFAULT_TARIFF = fl (169953 / 100)"

definition COST_PER_KWP :: int where
  "COST_PER_KWP = 12390000"

definition LOSS_FACTOR :: pyfloat where
  "LOSS_FACTOR = fl (85 / 100)"

definition PANEL_WATT_PEAK :: int where
  "PANEL_WATT_PEAK = 650"

definition PANEL_AREA_SQM :: pyfloat where
  "PANEL_AREA_SQM = fl (271 / 100)"

subsection \<open>\<^verbatim>\<open>get_pvout_annual\<close>\<close>

definition pvgis_url :: "builtins \<Rightarrow> pyval \<Rightarrow> pyval \<Rightarrow> pyval \<Rightarrow> pyval \<Rightarrow> pyval \<Rightarrow> string" where
  "pvgis_url B latitude longitude loss slope azimuth =
     ''https://re.jrc.ec.europa.eu/api/PVcalc?''
     @ ''lat='' @ py_str B latitude @ ''&lon='' @ py_str B longitude
     @ ''&peakpower=1&loss='' @ py_str B loss
     @ ''&slope='' @ py_str B slope @ ''&azimuth='' @ py_str B azimuth @ ''&outputformat=json''"

definition replace_dot :: "string \<Rightarrow> string" where
  "replace_dot s = map (\<lambda>c. if c = CHR ''.'' then CHR '','' else c) s"

definition is_request_exception :: "exn \<Rightarrow> bool" where
  "is_request_exception e = (case e of RequestException s \<Rightarrow> True | _ \<Rightarrow> False)"

text \<open>
  The lookup of \<^verbatim>\<open>data["outputs"]["totals"]["fixed"]["E_y"]\<close> inside its own
  \<^verbatim>\<open>try\<close>: any exception returns the "missing" error.
\<close>

definition extract_E_y :: "pyval \<Rightarrow> pyval flow" where
  "extract_E_y data =
     (case flow_bind (subscript data ''outputs'') (\<lambda>outputs.
           flow_bind (subscript outputs ''totals'') (\<lambda>totals.
           flow_bind (subscript totals ''fixed'') (\<lambda>fixed.
           subscript fixed ''E_y''))) of
        Raised e \<Rightarrow> Returned [(''error'', PyStr ''PVGIS response missing E_y value.'')]
      | r \<Rightarrow> r)"

text \<open>
  The network is a parameter: \<open>http url\<close> is what \<^verbatim>\<open>requests.get(url, timeout=12)\<close>,
  \<^verbatim>\<open>raise_for_status()\<close> and \<^verbatim>\<open>r.json()\<close> together do, either an exception (\<open>Inl\<close>) or the
  decoded body (\<open>Inr\<close>).  The source's defaults are \<^verbatim>\<open>loss=14, slope=0, azimuth=0\<close>.
\<close>

definition request :: "(string \<Rightarrow> exn + pyval) \<Rightarrow> string \<Rightarrow> pyval flow" where
  "request http url = (case http url of Inl e \<Rightarrow> Raised e | Inr data \<Rightarrow> Normal data)"

text \<open>
  \<^verbatim>\<open>str(round(v, 1))\<close>.  A negative value that rounds to zero gives the negative zero,
  whose text is the text of the zero after a minus sign.
\<close>

definition rounded_text :: "builtins \<Rightarrow> pyfloat \<Rightarrow> string" where
  "rounded_text B v =
     (if flt v (Fl 0) \<and> py_round v 1 = Fl 0 then CHR ''-'' # py_str B (PyFloat (Fl 0))
      else py_str B (PyFloat (py_round v 1)))"

definition get_pvout_annual ::
  "builtins \<Rightarrow> (string \<Rightarrow> exn + pyval) \<Rightarrow> pyval \<Rightarrow> pyval \<Rightarrow> pyval \<Rightarrow> pyval \<Rightarrow> pyval \<Rightarrow> dict" where
  "get_pvout_annual B http latitude longitude loss slope azimuth =
     (case flow_bind (request http (pvgis_url B latitude longitude loss slope azimuth)) (\<lambda>data.
           flow_bind (extract_E_y data) (\<lambda>pvout_value.
           flow_bind (to_float B pvout_value) (\<lambda>numeric.
           flow_bind (to_float B pvout_value) (\<lambda>v.
           Returned
             [(''pvout_numeric'', PyFloat numeric),
              (''pvout_formatted'', PyStr (replace_dot (rounded_text B v)))])))) of
        Raised e \<Rightarrow>
          if is_request_exception e
          then [(''error'', PyStr (''PVGIS request error: '' @ exn_str B e))]
          else [(''error'', PyStr (''Unexpected error while fetching PVOUT: '' @ exn_str B e))]
      | Returned d \<Rightarrow> d
      | Normal d \<Rightarrow> d)"

subsection \<open>\<^verbatim>\<open>calculate_solar_economics\<close>\<close>

text \<open>The local variables of the function, as they stand when the result is built.\<close>

record locals =
  tdl :: pyfloat
  kebutuhan_energi_bulanan :: pyfloat
  penghematan_desimal :: pyfloat
  target_produksi_bulanan :: pyfloat
  pvout_monthly_effective :: pyfloat
  kapasitas_kwp :: pyfloat
  total_investasi :: pyfloat
  penghematan_tahunan_uang :: pyfloat
  bep_tahun :: pyfloat
  jumlah_panel :: int
  estimasi_area :: pyfloat
  produksi_kwh_bulanan :: pyfloat

text \<open>
  Line 64:
  \<^verbatim>\<open>tdl = float(tarif_listrik) if tarif_listrik and float(tarif_listrik) > 0 else DEFAULT_TARIFF\<close>
\<close>

definition resolve_tdl :: "builtins \<Rightarrow> pyval \<Rightarrow> pyfloat flow" where
  "resolve_tdl B tarif_listrik =
     (if truthy tarif_listrik
      then flow_bind (to_float B tarif_listrik) (\<lambda>t.
             if fgt t (Fl 0) then to_float B tarif_listrik else Normal DEFAULT_TARIFF)
      else Normal DEFAULT_TARIFF)"

text \<open>Lines 64 to 81: the body of the \<^verbatim>\<open>try\<close> up to the final \<^verbatim>\<open>return\<close>.\<close>

definition compute_locals :: "builtins \<Rightarrow> pyval \<Rightarrow> pyval \<Rightarrow> pyval \<Rightarrow> pyval \<Rightarrow> locals flow" where
  "compute_locals B pvout_annual tagihan_listrik tarif_listrik penghematan_persen =
     flow_bind (resolve_tdl B tarif_listrik) (\<lambda>tdl'.
     flow_bind (if fne tdl' (Fl 0)
                then flow_bind (to_float B tagihan_listrik) (\<lambda>tagihan. fdiv tagihan tdl')
                else Normal (Fl 0)) (\<lambda>kebutuhan.
     flow_bind (flow_bind (to_float B penghematan_persen) (\<lambda>persen. fdiv persen (Fl 100))) (\<lambda>desimal.
     let target = fmul kebutuhan desimal in
     flow_bind (flow_bind (to_float B pvout_annual) (\<lambda>pvout.
                flow_bind (fdiv pvout (Fl 12)) (\<lambda>monthly.
                Normal (fmul monthly LOSS_FACTOR)))) (\<lambda>effective.
     if feq effective (Fl 0)
     then Returned [(''error'', PyStr ''PVOut tahunan tidak valid (0) atau LOSS_FACTOR=0.'')]
     else
     flow_bind (fdiv target effective) (\<lambda>kapasitas.
     flow_bind (flow_bind (int_to_float COST_PER_KWP) (\<lambda>cost. Normal (fmul kapasitas cost))) (\<lambda>investasi.
     let penghematan = fmul (fmul target (Fl 12)) tdl' in
     flow_bind (if fgt penghematan (Fl 0) then fdiv investasi penghematan else Normal PInf) (\<lambda>bep.
     flow_bind (if fgt kapasitas (Fl 0)
                then flow_bind (int_to_float PANEL_WATT_PEAK) (\<lambda>wp.
                     flow_bind (fdiv (fmul kapasitas (Fl 1000)) wp) math_ceil)
                else Normal 0) (\<lambda>panel.
     flow_bind (flow_bind (int_to_float panel) (\<lambda>n. Normal (fmul n PANEL_AREA_SQM))) (\<lambda>area.
     Normal \<lparr>tdl = tdl',
             kebutuhan_energi_bulanan = kebutuhan,
             penghematan_desimal = desimal,
             target_produksi_bulanan = target,
             pvout_monthly_effective = effective,
             kapasitas_kwp = kapasitas,
             total_investasi = investasi,
             penghematan_tahunan_uang = penghematan,
             bep_tahun = bep,
             jumlah_panel = panel,
             estimasi_area = area,
             produksi_kwh_bulanan = target\<rparr>)))))))))"

text \<open>Lines 83 to 97: the returned dictionary.  \<^verbatim>\<open>float\<close> of a float is that float.\<close>

definition success_dict :: "builtins \<Rightarrow> pyval \<Rightarrow> locals \<Rightarrow> dict flow" where
  "success_dict B pvout_annual L =
     flow_bind (to_float B pvout_annual) (\<lambda>pvout.
     Returned
       [(''status'', PyStr ''success''),
        (''TDL_Used'', PyFloat (py_round (tdl L) 2)),
        (''PVOut_Annual'', PyFloat (py_round pvout 1)),
        (''PVOUT_Bulanan_Efektif'', PyFloat (py_round (pvout_monthly_effective L) 4)),
        (''Kebutuhan_kWh_Bulanan'', PyFloat (py_round (kebutuhan_energi_bulanan L) 2)),
        (''Kapasitas_kWp'', PyFloat (py_round (kapasitas_kwp L) 2)),
        (''Produksi_kWh_Bulanan'', PyFloat (py_round (produksi_kwh_bulanan L) 4)),
        (''Total_Investasi'', PyFloat (py_round (total_investasi L) 0)),
        (''Penghematan_Tahunan_Rp'', PyFloat (py_round (penghematan_tahunan_uang L) 0)),
        (''BEP_Tahun'',
           if fne (bep_tahun L) PInf then PyFloat (py_round (bep_tahun L) 1) else PyStr ''Inf''),
        (''Jumlah_Panel'', PyInt (jumlah_panel L)),
        (''Estimasi_Area_m2'', PyFloat (py_round (estimasi_area L) 2)),
        (''LOSS_FACTOR'', PyFloat LOSS_FACTOR)])"

definition calculate_solar_economics :: "builtins \<Rightarrow> pyval \<Rightarrow> pyval \<Rightarrow> pyval \<Rightarrow> pyval \<Rightarrow> dict" where
  "calculate_solar_economics B pvout_annual tagihan_listrik tarif_listrik penghematan_persen =
     (case flow_bind
             (compute_locals B pvout_annual tagihan_listrik tarif_listrik penghematan_persen)
             (success_dict B pvout_annual) of
        Raised e \<Rightarrow> [(''error'', PyStr (''Kesalahan perhitungan finansial: '' @ exn_str B e))]
      | Returned d \<Rightarrow> d
      | Normal d \<Rightarrow> d)"

subsection \<open>Names used in the statements\<close>

text \<open>The keys of a success result, in the order of the dictionary literal.\<close>

definition success_keys :: "string list" where
  "success_keys =
     [''status'', ''TDL_Used'', ''PVOut_Annual'', ''PVOUT_Bulanan_Efektif'',
      ''Kebutuhan_kWh_Bulanan'', ''Kapasitas_kWp'', ''Produksi_kWh_Bulanan'', ''Total_Investasi'',
      ''Penghematan_Tahunan_Rp'', ''BEP_Tahun'', ''Jumlah_Panel'', ''Estimasi_Area_m2'',
      ''LOSS_FACTOR'']"

text \<open>The value at a path of keys in a decoded JSON body, if the path is there.\<close>

fun json_path :: "pyval \<Rightarrow> string list \<Rightarrow> pyval option" where
  "json_path v [] = Some v"
| "json_path (PyDict kvs) (k # ks) = (case map_of kvs k of None \<Rightarrow> None | Some v \<Rightarrow> json_path v ks)"
| "json_path v (k # ks) = None"

text \<open>
  One fixed choice of the interpreter's parameters, for running the model on concrete
  arguments: \<^verbatim>\<open>float\<close> accepts no string, an exception of the HTTP library prints the
  text it carries, and every other text is empty.  The theorems hold for every choice.
\<close>

definition bare_builtins :: builtins where
  "bare_builtins =
     \<lparr>str_to_float = (\<lambda>s. None),
      exn_str = (\<lambda>e. case e of RequestException s \<Rightarrow> s | OtherException s \<Rightarrow> s | _ \<Rightarrow> []),
      py_str = (\<lambda>v. [])\<rparr>"

text \<open>Two simulated transports: a host that cannot be reached, and a body without totals.\<close>

definition unreachable_host :: "string \<Rightarrow> exn + pyval" where
  "unreachable_host url = Inl (RequestException ''Connection refused'')"

definition body_without_totals :: "string \<Rightarrow> exn + pyval" where
  "body_without_totals url = Inr (PyDict [(''inputs'', PyDict []), (''outputs'', PyDict [])])"

text \<open>The smallest positive float, \<^verbatim>\<open>5e-324\<close>.\<close>

definition min_subnormal :: rat where
  "min_subnormal = 1 / 2 ^ 1074"

text \<open>A finite float between two powers of two.\<close>

definition in_range :: "int \<Rightarrow> int \<Rightarrow> pyfloat \<Rightarrow> bool" where
  "in_range a b x = (case x of Fl r \<Rightarrow> 2 powi a \<le> r \<and> r \<le> 2 powi b | _ \<Rightarrow> False)"

section \<open>Facts about the float model\<close>

lemma rhe_near: "\<bar>x - of_int m\<bar> < 1 / 2 \<Longrightarrow> rhe x = m"
proof -
  assume a: "\<bar>x - of_int m\<bar> < 1 / 2"
  show ?thesis
  proof (cases "of_int m \<le> x")
    case True
    with a have fl: "\<lfloor>x\<rfloor> = m" by (intro floor_unique) auto
    with a True show ?thesis by (simp add: rhe_def Let_def)
  next
    case False
    with a have fl: "\<lfloor>x\<rfloor> = m - 1" by (intro floor_unique) auto
    with a False show ?thesis by (auto simp add: rhe_def Let_def)
  qed
qed

lemma rhe_bounds: "\<bar>of_int (rhe x) - x\<bar> \<le> 1 / 2"
proof -
  have f: "of_int \<lfloor>x\<rfloor> \<le> x" "x < of_int \<lfloor>x\<rfloor> + 1" by linarith+
  consider "x - of_int \<lfloor>x\<rfloor> < 1 / 2" | "1 / 2 < x - of_int \<lfloor>x\<rfloor>" | "x - of_int \<lfloor>x\<rfloor> = 1 / 2"
    by linarith
  then show ?thesis
  proof cases
    case 1
    then have "rhe x = \<lfloor>x\<rfloor>" by (simp add: rhe_def Let_def)
    with f 1 show ?thesis by simp
  next
    case 2
    then have "rhe x = \<lfloor>x\<rfloor> + 1" by (simp add: rhe_def Let_def)
    with f 2 show ?thesis by simp
  next
    case 3
    then have "rhe x = \<lfloor>x\<rfloor> \<or> rhe x = \<lfloor>x\<rfloor> + 1" by (simp add: rhe_def Let_def)
    with f 3 show ?thesis by auto
  qed
qed

lemma rhe_nonneg: "0 \<le> x \<Longrightarrow> 0 \<le> rhe x"
  unfolding rhe_def Let_def by auto

lemma rhe_nonpos: "x \<le> 0 \<Longrightarrow> rhe x \<le> 0"
  using rhe_bounds[of x] by linarith

lemma bitlen_powi_bounds:
  assumes "0 < p"
  shows "2 powi (bitlen p - 1) \<le> (of_int p :: rat)" "(of_int p :: rat) < 2 powi (bitlen p)"
proof -
  from bitlen_bounds[OF assms] have a: "2 ^ nat (bitlen p - 1) \<le> p" and b: "p < 2 ^ nat (bitlen p)"
    by auto
  have ge1: "1 \<le> bitlen p" using assms by (auto simp: bitlen_alt_def)
  have "(of_int (2 ^ nat (bitlen p - 1)) :: rat) \<le> of_int p" using a by (simp only: of_int_le_iff)
  then show "2 powi (bitlen p - 1) \<le> (of_int p :: rat)"
    using ge1 by (simp add: power_int_nonneg_exp)
  have "(of_int p :: rat) < of_int (2 ^ nat (bitlen p))" using b by (simp only: of_int_less_iff)
  then show "(of_int p :: rat) < 2 powi (bitlen p)"
    using ge1 by (simp add: power_int_nonneg_exp)
qed

lemma ilog2_bounds:
  assumes "x \<noteq> 0"
  shows "2 powi (ilog2 x) \<le> \<bar>x\<bar>" "\<bar>x\<bar> < 2 powi (ilog2 x + 1)"
proof -
  obtain p q where pq: "quotient_of \<bar>x\<bar> = (p, q)" by (cases "quotient_of \<bar>x\<bar>")
  then have q: "0 < q" and x: "\<bar>x\<bar> = of_int p / of_int q"
    using quotient_of_denom_pos quotient_of_div by auto
  have "0 < \<bar>x\<bar>" using assms by simp
  then have p: "0 < p" using q by (simp add: x zero_less_divide_iff)
  define d where "d = bitlen p - bitlen q"
  note bp = bitlen_powi_bounds[OF p] and bq = bitlen_powi_bounds[OF q]
  have qpos: "(0::rat) < of_int q" using q by simp
  have lo: "2 powi (d - 1) < \<bar>x\<bar>"
  proof -
    have "2 powi (d - 1) * (of_int q :: rat) < 2 powi (d - 1) * 2 powi (bitlen q)"
      using bq(2) by simp
    also have "\<dots> = 2 powi (bitlen p - 1)" by (simp add: d_def power_int_add[symmetric])
    also have "\<dots> \<le> of_int p" by (rule bp(1))
    finally show ?thesis using qpos by (simp add: x pos_less_divide_eq)
  qed
  have hi: "\<bar>x\<bar> < 2 powi (d + 1)"
  proof -
    have "(of_int p :: rat) < 2 powi (bitlen p)" by (rule bp(2))
    also have "\<dots> = 2 powi (d + 1) * 2 powi (bitlen q - 1)" by (simp add: d_def power_int_add[symmetric])
    also have "\<dots> \<le> 2 powi (d + 1) * of_int q" using bq(1) by simp
    finally show ?thesis using qpos by (simp add: x pos_divide_less_eq)
  qed
  have il: "ilog2 x = (if 2 powi d \<le> \<bar>x\<bar> then d else d - 1)"
    by (simp add: ilog2_def pq d_def Let_def)
  show "2 powi (ilog2 x) \<le> \<bar>x\<bar>" using lo by (auto simp: il)
  show "\<bar>x\<bar> < 2 powi (ilog2 x + 1)" using hi by (auto simp: il)
qed

lemma powi2_less_cancel: "(2::rat) powi a < 2 powi b \<Longrightarrow> a < b"
proof (rule ccontr)
  assume l: "(2::rat) powi a < 2 powi b" and "\<not> a < b"
  then have "b \<le> a" by simp
  then have "(2::rat) powi b \<le> 2 powi a" by (intro power_int_increasing) auto
  with l show False by simp
qed

lemma ilog2_unique:
  assumes "2 powi e \<le> \<bar>x\<bar>" "\<bar>x\<bar> < 2 powi (e + 1)"
  shows "ilog2 x = e"
proof -
  have "(0::rat) < 2 powi e" by simp
  with assms(1) have "0 < \<bar>x\<bar>" by linarith
  then have nz: "x \<noteq> 0" by auto
  note b = ilog2_bounds[OF nz]
  have "(2::rat) powi (ilog2 x) < 2 powi (e + 1)" using b(1) assms(2) by linarith
  then have 1: "ilog2 x < e + 1" by (rule powi2_less_cancel)
  have "(2::rat) powi e < 2 powi (ilog2 x + 1)" using b(2) assms(1) by linarith
  then have 2: "e < ilog2 x + 1" by (rule powi2_less_cancel)
  from 1 2 show ?thesis by linarith
qed


lemma fl_normal:
  assumes e: "- 1022 \<le> e" "e \<le> 1022"
    and b: "2 powi e \<le> \<bar>x\<bar>" "\<bar>x\<bar> < 2 powi (e + 1)"
    and r: "rhe (x / 2 powi (e - 52)) = m"
  shows "fl x = Fl (of_int m * 2 powi (e - 52))"
proof -
  have "(0::rat) < 2 powi e" by simp
  with b(1) have "0 < \<bar>x\<bar>" by linarith
  then have nz: "x \<noteq> 0" by auto
  have il: "ilog2 x = e" using b by (rule ilog2_unique)
  have u: "max (ilog2 x - 52) (- 1074) = e - 52" using e by (simp add: il)
  have m: "\<bar>of_int m - x / 2 powi (e - 52)\<bar> \<le> 1 / 2"
    using rhe_bounds[of "x / 2 powi (e - 52)"] by (simp add: r)
  have pos: "(0::rat) < 2 powi (e - 52)" by simp
  have "\<bar>x / 2 powi (e - 52)\<bar> < 2 powi (e + 1) / 2 powi (e - 52)"
    using b(2) pos by (simp add: divide_strict_right_mono)
  also have "\<dots> = 2 powi 53" by (simp add: power_int_diff[symmetric])
  finally have "\<bar>x / 2 powi (e - 52)\<bar> < 2 ^ 53" by simp
  with m have "\<bar>(of_int m :: rat)\<bar> < 2 ^ 53 + 1" by linarith
  then have "\<bar>(of_int m :: rat)\<bar> < of_int (2 ^ 53 + 1)" by simp
  then have "\<bar>m\<bar> < 2 ^ 53 + 1" unfolding of_int_abs[symmetric] of_int_less_iff .
  then have "\<bar>m\<bar> \<le> 2 ^ 53" by simp
  then have "\<bar>(of_int m :: rat)\<bar> \<le> of_int (2 ^ 53)" unfolding of_int_abs[symmetric] of_int_le_iff .
  then have "\<bar>(of_int m :: rat)\<bar> \<le> 2 powi 53" by simp
  then have "\<bar>(of_int m :: rat)\<bar> * 2 powi (e - 52) \<le> 2 powi 53 * 2 powi (e - 52)"
    using pos by (simp del: power_int_numeral)
  also have "\<dots> = 2 powi (e + 1)"
    using power_int_add[of "2::rat" 53 "e - 52"] by (simp add: add.commute del: power_int_numeral)
  also have "\<dots> < 2 powi 1024" using e by (intro power_int_strict_increasing) auto
  finally have "\<bar>of_int m * 2 powi (e - 52)\<bar> < (2::rat) powi 1024"
    using pos by (simp add: abs_mult del: power_int_numeral)
  then have "\<not> 2 powi 1024 \<le> of_int m * (2::rat) powi (e - 52)"
    "\<not> of_int m * (2::rat) powi (e - 52) \<le> - (2 powi 1024)" by linarith+
  then show ?thesis using nz by (simp add: fl_def u r Let_def del: power_int_numeral)
qed

lemma rhe_half: "x = of_int f + 1 / 2 \<Longrightarrow> rhe x = (if even f then f else f + 1)"
proof -
  assume x: "x = of_int f + 1 / 2"
  then have "\<lfloor>x\<rfloor> = f" by (intro floor_unique) auto
  then show ?thesis using x by (simp add: rhe_def Let_def)
qed

text \<open>
  Evaluating \<open>fl\<close> at a given rational: the caller names the binary exponent and the
  53-bit integer, and the side conditions are numeral arithmetic.
\<close>

lemma fl_near:
  assumes "- 1022 \<le> e" and "e \<le> 1022" and "2 powi e \<le> \<bar>x\<bar>" and "\<bar>x\<bar> < 2 powi (e + 1)"
    and "\<bar>x / 2 powi (e - 52) - of_int m\<bar> < 1 / 2"
    and "of_int m * 2 powi (e - 52) = r"
  shows "fl x = Fl r"
  using fl_normal[OF assms(1-4) rhe_near[OF assms(5)]] assms(6) by simp

lemma fl_tie:
  assumes "- 1022 \<le> e" and "e \<le> 1022" and "2 powi e \<le> \<bar>x\<bar>" and "\<bar>x\<bar> < 2 powi (e + 1)"
    and "x / 2 powi (e - 52) = of_int f + 1 / 2"
    and "of_int (if even f then f else f + 1) * 2 powi (e - 52) = r"
  shows "fl x = Fl r"
  using fl_normal[OF assms(1-4) rhe_half[OF assms(5)]] assms(6) by simp

lemma fl_tiny:
  assumes "\<bar>x\<bar> < 2 powi (- 1075)"
  shows "fl x = Fl 0"
proof (cases "x = 0")
  case True
  then show ?thesis by (simp add: fl_def)
next
  case False
  from ilog2_bounds(1)[OF False] assms have "(2::rat) powi (ilog2 x) < 2 powi (- 1075)"
    by linarith
  then have "ilog2 x < - 1075" by (rule powi2_less_cancel)
  then have u: "max (ilog2 x - 52) (- 1074) = - 1074" by simp
  have "\<bar>x / 2 powi (- 1074)\<bar> = \<bar>x\<bar> * 2 powi 1074"
    by (simp add: power_int_minus abs_mult divide_inverse del: power_int_numeral power_int_numeral_neg_numeral)
  also have "\<dots> < 2 powi (- 1075) * 2 powi 1074"
    using assms by (simp del: power_int_numeral power_int_numeral_neg_numeral)
  also have "\<dots> = 1 / 2"
    by (simp add: power_int_add[symmetric] del: power_int_numeral power_int_numeral_neg_numeral)
  finally have "\<bar>x / 2 powi (- 1074) - of_int 0\<bar> < 1 / 2" by simp
  then have "rhe (x / 2 powi (- 1074)) = 0" by (rule rhe_near)
  moreover have "(0::rat) < 2 powi 1024" by (rule zero_less_power_int) simp
  ultimately show ?thesis using False
    by (simp add: fl_def u Let_def not_le del: power_int_numeral power_int_numeral_neg_numeral)
qed

lemma fl_sign_cases:
  "fl x = PInf \<and> 0 < x \<or> fl x = NInf \<and> x < 0 \<or> (\<exists>r. fl x = Fl r \<and> (0 \<le> x \<longrightarrow> 0 \<le> r) \<and> (x \<le> 0 \<longrightarrow> r \<le> 0))"
proof (cases "x = 0")
  case True
  then show ?thesis by (simp add: fl_def)
next
  case False
  define u where "u = max (ilog2 x - 52) (- 1074)"
  define r where "r = (of_int (rhe (x / 2 powi u)) :: rat) * 2 powi u"
  have pos: "(0::rat) < 2 powi u" by simp
  have f: "fl x = (if 2 powi 1024 \<le> r then PInf else if r \<le> - (2 powi 1024) then NInf else Fl r)"
    using False by (simp add: fl_def Let_def u_def r_def del: power_int_numeral)
  have p1024: "(0::rat) < 2 powi 1024" by (rule zero_less_power_int) simp
  have nn: "0 \<le> r" if "0 \<le> x"
  proof -
    from that pos have "0 \<le> x / 2 powi u" by simp
    then have "0 \<le> rhe (x / 2 powi u)" by (rule rhe_nonneg)
    then show ?thesis using pos by (simp add: r_def)
  qed
  have np: "r \<le> 0" if "x \<le> 0"
  proof -
    from that pos have "x / 2 powi u \<le> 0" by (simp add: divide_le_0_iff)
    then have "rhe (x / 2 powi u) \<le> 0" by (rule rhe_nonpos)
    then show ?thesis using pos by (simp add: r_def mult_le_0_iff)
  qed
  show ?thesis
  proof (cases "0 \<le> x")
    case True
    with False have "0 < x" by simp
    moreover from nn[OF True] p1024 have "\<not> r \<le> - (2 powi 1024)" by linarith
    ultimately show ?thesis using f nn np by (auto simp del: power_int_numeral)
  next
    case F: False
    then have "x < 0" by simp
    moreover from np[of] F p1024 have "\<not> 2 powi 1024 \<le> r" by linarith
    ultimately show ?thesis using f nn np by (auto simp del: power_int_numeral)
  qed
qed

text \<open>Rounding is symmetric about zero.\<close>

lemma rhe_uminus: "rhe (- x) = - rhe x"
proof -
  define f where "f = \<lfloor>x\<rfloor>"
  define d where "d = x - of_int f"
  have x: "x = of_int f + d" by (simp add: d_def)
  have r: "rhe x = (if d < 1 / 2 then f else if 1 / 2 < d then f + 1 else if even f then f else f + 1)"
    by (simp add: rhe_def Let_def f_def d_def)
  have d01: "0 \<le> d" "d < 1" unfolding d_def f_def by linarith+
  consider "d < 1 / 2" | "1 / 2 < d" | "d = 1 / 2" by linarith
  then show ?thesis
  proof cases
    case 1
    then have "\<bar>- x - of_int (- f)\<bar> < 1 / 2" using d01 by (simp add: x)
    then have "rhe (- x) = - f" by (rule rhe_near)
    with 1 r show ?thesis by simp
  next
    case 2
    then have "\<bar>- x - of_int (- (f + 1))\<bar> < 1 / 2" using d01 by (simp add: x)
    then have "rhe (- x) = - (f + 1)" by (rule rhe_near)
    with 2 r show ?thesis by simp
  next
    case 3
    then have "- x = of_int (- f - 1) + 1 / 2" by (simp add: x)
    from rhe_half[OF this] have "rhe (- x) = (if even (- f - 1) then - f - 1 else - f)" by simp
    with 3 r show ?thesis by auto
  qed
qed

lemma ilog2_uminus: "ilog2 (- x) = ilog2 x"
  by (simp add: ilog2_def)

lemma fl_uminus: "fl x = Fl r \<Longrightarrow> fl (- x) = Fl (- r)"
proof (cases "x = 0")
  case True
  assume "fl x = Fl r"
  with True show ?thesis by (simp add: fl_def)
next
  case False
  assume a: "fl x = Fl r"
  define u where "u = max (ilog2 x - 52) (- 1074)"
  define s where "s = (of_int (rhe (x / 2 powi u)) :: rat) * 2 powi u"
  have "fl x = (if 2 powi 1024 \<le> s then PInf else if s \<le> - (2 powi 1024) then NInf else Fl s)"
    using False by (simp add: fl_def Let_def u_def s_def del: power_int_numeral)
  with a have s: "\<not> 2 powi 1024 \<le> s" "\<not> s \<le> - (2 powi 1024)" "r = s"
    by (auto split: if_splits)
  have "(of_int (rhe (- x / 2 powi u)) :: rat) * 2 powi u = - s"
    using rhe_uminus[of "x / 2 powi u"] by (simp add: s_def)
  then have "fl (- x) = (if 2 powi 1024 \<le> - s then PInf else if - s \<le> - (2 powi 1024) then NInf else Fl (- s))"
    using False by (simp add: fl_def Let_def ilog2_uminus u_def[symmetric] del: power_int_numeral)
  with s show ?thesis by (simp del: power_int_numeral)
qed

lemma rhe_pos_iff: "0 < rhe y \<longleftrightarrow> 1 / 2 < y"
proof
  assume "0 < rhe y"
  then have "1 \<le> rhe y" by simp
  then have "(of_int 1 :: rat) \<le> of_int (rhe y)" unfolding of_int_le_iff .
  moreover from rhe_bounds[of y] have "(of_int (rhe y) :: rat) \<le> y + 1 / 2" by linarith
  ultimately have "1 / 2 \<le> y" by linarith
  moreover have "y \<noteq> 1 / 2"
  proof
    assume "y = 1 / 2"
    then have "y = of_int 0 + 1 / 2" by simp
    from rhe_half[OF this] have "rhe y = 0" by simp
    with \<open>0 < rhe y\<close> show False by simp
  qed
  ultimately show "1 / 2 < y" by simp
next
  assume "1 / 2 < y"
  moreover from rhe_bounds[of y] have "y - 1 / 2 \<le> (of_int (rhe y) :: rat)" by linarith
  ultimately have "(of_int 0 :: rat) < of_int (rhe y)" by simp
  then show "0 < rhe y" unfolding of_int_less_iff .
qed

section \<open>Facts about the model of the program\<close>

lemma fl_int_exact:
  assumes "\<bar>i\<bar> < 2 ^ 53"
  shows "fl (of_int i) = Fl (of_int i)"
proof (cases "i = 0")
  case True
  then show ?thesis by (simp add: fl_def)
next
  case False
  define x :: rat where "x = of_int i"
  have nz: "x \<noteq> 0" using False by (simp add: x_def)
  define e where "e = ilog2 x"
  note b = ilog2_bounds[OF nz, folded e_def]
  have "1 \<le> \<bar>i\<bar>" using False by simp
  then have "(1::rat) \<le> \<bar>x\<bar>" unfolding x_def of_int_abs[symmetric] by (metis of_int_1 of_int_le_iff)
  with b(2) have "(2::rat) powi 0 < 2 powi (e + 1)" by simp
  then have e0: "0 \<le> e" using powi2_less_cancel by fastforce
  have "\<bar>x\<bar> < of_int (2 ^ 53)" using assms unfolding x_def of_int_abs[symmetric] of_int_less_iff .
  then have "\<bar>x\<bar> < 2 powi 53" by simp
  with b(1) have "(2::rat) powi e < 2 powi 53" by linarith
  then have e52: "e \<le> 52" using powi2_less_cancel by fastforce
  have u: "max (ilog2 x - 52) (- 1074) = e - 52" using e0 by (simp add: e_def)
  have "x / 2 powi (e - 52) = x * 2 powi (52 - e)"
    using power_int_minus[of "2::rat" "e - 52"] by (simp add: divide_inverse)
  also have "\<dots> = of_int (i * 2 ^ nat (52 - e))"
    using e52 by (simp add: x_def power_int_nonneg_exp)
  finally have q: "x / 2 powi (e - 52) = of_int (i * 2 ^ nat (52 - e))" .
  have "rhe (x / 2 powi (e - 52)) = i * 2 ^ nat (52 - e)"
    unfolding q by (rule rhe_near) simp
  then have r: "of_int (rhe (x / 2 powi (e - 52))) * 2 powi (e - 52) = x"
    using q by (metis nonzero_eq_divide_eq power_int_not_zero zero_neq_numeral)
  have "\<bar>x\<bar> < 2 powi 53" by fact
  also have "(2::rat) powi 53 < 2 powi 1024" by (intro power_int_strict_increasing) auto
  finally have "\<bar>x\<bar> < 2 powi 1024" .
  then have "\<not> 2 powi 1024 \<le> x" "\<not> x \<le> - (2 powi 1024)" by linarith+
  then show ?thesis using nz
    unfolding x_def[symmetric] by (simp add: fl_def u r Let_def del: power_int_numeral)
qed

lemma fquot_eval: "fl (a / b) = y \<Longrightarrow> fquot (Fl a) (Fl b) = y"
  by simp

lemma fmul_eval: "fl (a * b) = y \<Longrightarrow> fmul (Fl a) (Fl b) = y"
  by simp

lemma py_round_eval: "rhe (a * 10 ^ n) = m \<Longrightarrow> fl (of_int m / 10 ^ n) = y \<Longrightarrow> py_round (Fl a) n = y"
  by (simp add: py_round_def)

lemma fl_zero: "fl 0 = Fl 0"
  by (simp add: fl_def)

lemma DEFAULT_TARIFF_value: "DEFAULT_TARIFF = Fl (7474611987016581 / 4398046511104)"
  unfolding DEFAULT_TARIFF_def
  by (rule fl_near[where e = "10" and m = "7474611987016581"]) simp_all

lemma LOSS_FACTOR_value: "LOSS_FACTOR = Fl (7656119366529843 / 9007199254740992)"
  unfolding LOSS_FACTOR_def
  by (rule fl_near[where e = "-1" and m = "7656119366529843"]) simp_all

lemma PANEL_AREA_SQM_value: "PANEL_AREA_SQM = Fl (3051188747543511 / 1125899906842624)"
  unfolding PANEL_AREA_SQM_def
  by (rule fl_near[where e = "1" and m = "6102377495087022"]) simp_all


lemma int_to_float_small: "\<bar>i\<bar> < 2 ^ 53 \<Longrightarrow> int_to_float i = Normal (Fl (of_int i))"
  by (simp add: int_to_float_def fl_int_exact)

lemma flow_bind_Normal_iff:
  "flow_bind m f = Normal y \<longleftrightarrow> (\<exists>x. m = Normal x \<and> f x = Normal y)"
  by (cases m) auto

lemma flow_bind_Returned_iff:
  "flow_bind m f = Returned d \<longleftrightarrow> m = Returned d \<or> (\<exists>x. m = Normal x \<and> f x = Returned d)"
  by (cases m) auto

lemma fgt_zero_cases: "fgt t (Fl 0) \<longleftrightarrow> t = PInf \<or> (\<exists>a. t = Fl a \<and> 0 < a)"
  by (cases t) (auto simp: fgt_def)

lemma fgt_zero_fne: "fgt t (Fl 0) \<Longrightarrow> fne t (Fl 0)"
  by (auto simp: fgt_zero_cases fne_def feq_def)

lemma DEFAULT_TARIFF_positive: "fgt DEFAULT_TARIFF (Fl 0)"
  by (simp add: DEFAULT_TARIFF_value fgt_def)

lemma to_float_not_Returned: "to_float B v \<noteq> Returned d"
  by (cases v) (auto simp: int_to_float_def split: pyfloat.splits option.splits)

lemma resolve_tdl_cases:
  "resolve_tdl B tarif_listrik = Normal t \<Longrightarrow>
     fgt t (Fl 0) \<and> (t = DEFAULT_TARIFF \<or> truthy tarif_listrik \<and> to_float B tarif_listrik = Normal t)"
  by (auto simp: resolve_tdl_def flow_bind_Normal_iff DEFAULT_TARIFF_positive split: if_splits)

lemma int_to_float_COST: "int_to_float COST_PER_KWP = Normal (Fl 12390000)"
  by (simp add: COST_PER_KWP_def int_to_float_small)

lemma int_to_float_WATT: "int_to_float PANEL_WATT_PEAK = Normal (Fl 650)"
  by (simp add: PANEL_WATT_PEAK_def int_to_float_small)

lemma math_ceil_Normal_iff: "math_ceil x = Normal n \<longleftrightarrow> (\<exists>a. x = Fl a \<and> n = \<lceil>a\<rceil>)"
  by (cases x) auto

lemma compute_locals_Normal:
  assumes "compute_locals B pvout_annual tagihan_listrik tarif_listrik penghematan_persen = Normal L"
  shows "\<exists>tagihan persen pvout n.
     resolve_tdl B tarif_listrik = Normal (tdl L) \<and>
     to_float B tagihan_listrik = Normal tagihan \<and>
     kebutuhan_energi_bulanan L = fquot tagihan (tdl L) \<and>
     to_float B penghematan_persen = Normal persen \<and>
     penghematan_desimal L = fquot persen (Fl 100) \<and>
     target_produksi_bulanan L = fmul (kebutuhan_energi_bulanan L) (penghematan_desimal L) \<and>
     to_float B pvout_annual = Normal pvout \<and>
     pvout_monthly_effective L = fmul (fquot pvout (Fl 12)) LOSS_FACTOR \<and>
     \<not> feq (pvout_monthly_effective L) (Fl 0) \<and>
     kapasitas_kwp L = fquot (target_produksi_bulanan L) (pvout_monthly_effective L) \<and>
     total_investasi L = fmul (kapasitas_kwp L) (Fl 12390000) \<and>
     penghematan_tahunan_uang L = fmul (fmul (target_produksi_bulanan L) (Fl 12)) (tdl L) \<and>
     bep_tahun L = (if fgt (penghematan_tahunan_uang L) (Fl 0)
                    then fquot (total_investasi L) (penghematan_tahunan_uang L) else PInf) \<and>
     (if fgt (kapasitas_kwp L) (Fl 0)
      then math_ceil (fquot (fmul (kapasitas_kwp L) (Fl 1000)) (Fl 650)) = Normal (jumlah_panel L)
      else jumlah_panel L = 0) \<and>
     int_to_float (jumlah_panel L) = Normal n \<and>
     estimasi_area L = fmul n PANEL_AREA_SQM \<and>
     produksi_kwh_bulanan L = target_produksi_bulanan L"
proof -
  from assms obtain t where t: "resolve_tdl B tarif_listrik = Normal t"
    by (auto simp: compute_locals_def flow_bind_Normal_iff)
  from resolve_tdl_cases[OF t] have tne: "fne t (Fl 0)" "\<not> feq t (Fl 0)"
    using fgt_zero_fne by (auto simp: fne_def)
  have z: "\<not> feq (Fl 12) (Fl 0)" "\<not> feq (Fl 100) (Fl 0)" "\<not> feq (Fl 650) (Fl 0)"
    by (simp_all add: feq_def)
  from assms show ?thesis
    unfolding compute_locals_def t flow_bind.simps Let_def
    by (simp add: tne z flow_bind_Normal_iff fdiv_def int_to_float_COST int_to_float_WATT
          split: if_splits) (auto simp: fne_def)
qed

lemma int_to_float_not_Returned: "int_to_float i \<noteq> Returned d"
  by (simp add: int_to_float_def split: pyfloat.splits)

lemma fdiv_not_Returned: "fdiv x y \<noteq> Returned d"
  by (simp add: fdiv_def)

lemma math_ceil_not_Returned: "math_ceil x \<noteq> Returned d"
  by (cases x) auto

lemma resolve_tdl_not_Returned: "resolve_tdl B v \<noteq> Returned d"
  by (auto simp: resolve_tdl_def flow_bind_Returned_iff to_float_not_Returned)

lemma compute_locals_Returned:
  assumes "compute_locals B pvout_annual tagihan_listrik tarif_listrik penghematan_persen = Returned d"
  shows "d = [(''error'', PyStr ''PVOut tahunan tidak valid (0) atau LOSS_FACTOR=0.'')]"
  using assms unfolding compute_locals_def Let_def
  by (auto simp: flow_bind_Returned_iff to_float_not_Returned int_to_float_not_Returned
        fdiv_not_Returned math_ceil_not_Returned resolve_tdl_not_Returned split: if_splits)

lemma calculate_Normal:
  assumes "compute_locals B pvout_annual tagihan_listrik tarif_listrik penghematan_persen = Normal L"
  shows "\<exists>pvout. to_float B pvout_annual = Normal pvout \<and>
     calculate_solar_economics B pvout_annual tagihan_listrik tarif_listrik penghematan_persen =
       [(''status'', PyStr ''success''),
        (''TDL_Used'', PyFloat (py_round (tdl L) 2)),
        (''PVOut_Annual'', PyFloat (py_round pvout 1)),
        (''PVOUT_Bulanan_Efektif'', PyFloat (py_round (pvout_monthly_effective L) 4)),
        (''Kebutuhan_kWh_Bulanan'', PyFloat (py_round (kebutuhan_energi_bulanan L) 2)),
        (''Kapasitas_kWp'', PyFloat (py_round (kapasitas_kwp L) 2)),
        (''Produksi_kWh_Bulanan'', PyFloat (py_round (produksi_kwh_bulanan L) 4)),
        (''Total_Investasi'', PyFloat (py_round (total_investasi L) 0)),
        (''Penghematan_Tahunan_Rp'', PyFloat (py_round (penghematan_tahunan_uang L) 0)),
        (''BEP_Tahun'',
           if fne (bep_tahun L) PInf then PyFloat (py_round (bep_tahun L) 1) else PyStr ''Inf''),
        (''Jumlah_Panel'', PyInt (jumlah_panel L)),
        (''Estimasi_Area_m2'', PyFloat (py_round (estimasi_area L) 2)),
        (''LOSS_FACTOR'', PyFloat LOSS_FACTOR)]"
proof -
  from compute_locals_Normal[OF assms] obtain pvout where "to_float B pvout_annual = Normal pvout"
    by blast
  then show ?thesis
    by (simp add: calculate_solar_economics_def assms success_dict_def)
qed

lemma calculate_Returned:
  assumes "compute_locals B pvout_annual tagihan_listrik tarif_listrik penghematan_persen = Returned d"
  shows "calculate_solar_economics B pvout_annual tagihan_listrik tarif_listrik penghematan_persen =
       [(''error'', PyStr ''PVOut tahunan tidak valid (0) atau LOSS_FACTOR=0.'')]"
  using compute_locals_Returned[OF assms] assms by (simp add: calculate_solar_economics_def)

lemma calculate_Raised:
  assumes "compute_locals B pvout_annual tagihan_listrik tarif_listrik penghematan_persen = Raised e"
  shows "calculate_solar_economics B pvout_annual tagihan_listrik tarif_listrik penghematan_persen =
       [(''error'', PyStr (''Kesalahan perhitungan finansial: '' @ exn_str B e))]"
  using assms by (simp add: calculate_solar_economics_def)

lemma calculate_success_iff:
  "dict_get (calculate_solar_economics B pvout_annual tagihan_listrik tarif_listrik penghematan_persen)
      ''status'' = Some (PyStr ''success'') \<longleftrightarrow>
   (\<exists>L. compute_locals B pvout_annual tagihan_listrik tarif_listrik penghematan_persen = Normal L)"
proof (cases "compute_locals B pvout_annual tagihan_listrik tarif_listrik penghematan_persen")
  case (Raised e)
  then show ?thesis using calculate_Raised[OF Raised] by (simp add: dict_get_def)
next
  case (Returned d)
  then show ?thesis using calculate_Returned[OF Returned] by (simp add: dict_get_def)
next
  case (Normal L)
  then show ?thesis using calculate_Normal[OF Normal] by (auto simp: dict_get_def)
qed

section \<open>Ranges, signs and rounding errors\<close>

lemma in_rangeD: "in_range a b x \<Longrightarrow> \<exists>r. x = Fl r \<and> 2 powi a \<le> r \<and> r \<le> 2 powi b \<and> 0 < r"
proof -
  assume "in_range a b x"
  then obtain r where r: "x = Fl r" "2 powi a \<le> r" "r \<le> 2 powi b"
    by (cases x) (auto simp: in_range_def)
  have "(0::rat) < 2 powi a" by simp
  with r(2) have "0 < r" by linarith
  with r show ?thesis by blast
qed

lemma rhe_le_int: "x \<le> of_int n \<Longrightarrow> rhe x \<le> n"
proof -
  assume "x \<le> of_int n"
  with rhe_bounds[of x] have "(of_int (rhe x) :: rat) \<le> of_int n + 1 / 2" by linarith
  then have "(of_int (rhe x) :: rat) < of_int (n + 1)" by simp
  then have "rhe x < n + 1" unfolding of_int_less_iff .
  then show ?thesis by simp
qed

lemma rhe_ge_int: "of_int n \<le> x \<Longrightarrow> n \<le> rhe x"
proof -
  assume "of_int n \<le> x"
  with rhe_bounds[of x] have "(of_int n :: rat) - 1 / 2 \<le> of_int (rhe x)" by linarith
  then have "(of_int (n - 1) :: rat) < of_int (rhe x)" by simp
  then have "n - 1 < rhe x" unfolding of_int_less_iff .
  then show ?thesis by simp
qed

lemma powi2_le_cancel: "(2::rat) powi a \<le> 2 powi b \<Longrightarrow> a \<le> b"
proof (rule ccontr)
  assume l: "(2::rat) powi a \<le> 2 powi b" and "\<not> a \<le> b"
  then have "b < a" by simp
  then have "(2::rat) powi b < 2 powi a" by (intro power_int_strict_increasing) auto
  with l show False by simp
qed

lemma powi2_nonneg_of_int: "0 \<le> k \<Longrightarrow> (2::rat) powi k = of_int (2 ^ nat k)"
  by (simp add: power_int_nonneg_exp)

lemma fl_range:
  assumes a: "- 1074 \<le> a" and b: "b \<le> 1023"
    and lo: "2 powi a \<le> x" and hi: "x \<le> 2 powi b"
  shows "in_range a b (fl x)"
proof -
  have xpos: "0 < x" using lo zero_less_power_int[of "2::rat" a] by linarith
  then have nz: "x \<noteq> 0" and ax: "\<bar>x\<bar> = x" by auto
  define e where "e = ilog2 x"
  note eb = ilog2_bounds[OF nz, folded e_def, unfolded ax]
  have ae: "a \<le> e"
  proof -
    from lo eb(2) have "(2::rat) powi a < 2 powi (e + 1)" by linarith
    then have "a < e + 1" by (rule powi2_less_cancel)
    then show ?thesis by simp
  qed
  have eb': "e \<le> b"
  proof -
    from hi eb(1) have "(2::rat) powi e \<le> 2 powi b" by linarith
    then show ?thesis by (rule powi2_le_cancel)
  qed
  define u where "u = max (e - 52) (- 1074)"
  define y where "y = x / 2 powi u"
  define r where "r = (of_int (rhe y) :: rat) * 2 powi u"
  have upos: "(0::rat) < 2 powi u" by simp
  have ub: "u \<le> b" using eb' ae a by (simp add: u_def)
  define l where "l = (if u \<le> a then a else e)"
  have ul: "u \<le> l" and al: "a \<le> l" and lx: "2 powi l \<le> x"
    using ae a lo eb(1) by (auto simp: l_def u_def)
  have split: "2 powi k = 2 powi (k - u) * (2::rat) powi u" for k
    using power_int_add[of "2::rat" "k - u" u] by simp
  have hi_r: "r \<le> 2 powi b"
  proof -
    have "y \<le> 2 powi (b - u)"
      using hi upos unfolding y_def by (subst (asm) split[of b]) (simp add: pos_divide_le_eq)
    also have "\<dots> = of_int (2 ^ nat (b - u))" using ub by (simp add: powi2_nonneg_of_int)
    finally have "rhe y \<le> 2 ^ nat (b - u)" by (rule rhe_le_int)
    then have "(of_int (rhe y) :: rat) \<le> of_int (2 ^ nat (b - u))" unfolding of_int_le_iff .
    also have "\<dots> = 2 powi (b - u)" using ub by (simp add: powi2_nonneg_of_int)
    finally have "r \<le> 2 powi (b - u) * 2 powi u" using upos unfolding r_def by simp
    then show ?thesis by (simp add: split[symmetric])
  qed
  have lo_r: "2 powi a \<le> r"
  proof -
    have "(2::rat) powi (l - u) = of_int (2 ^ nat (l - u))" using ul by (simp add: powi2_nonneg_of_int)
    moreover have "2 powi (l - u) \<le> y"
      using lx upos unfolding y_def by (subst (asm) split[of l]) (simp add: pos_le_divide_eq)
    ultimately have "of_int (2 ^ nat (l - u)) \<le> y" by simp
    then have "2 ^ nat (l - u) \<le> rhe y" by (rule rhe_ge_int)
    then have "(of_int (2 ^ nat (l - u)) :: rat) \<le> of_int (rhe y)" unfolding of_int_le_iff .
    then have "2 powi (l - u) \<le> (of_int (rhe y) :: rat)" using ul by (simp add: powi2_nonneg_of_int)
    then have "2 powi (l - u) * 2 powi u \<le> r" using upos unfolding r_def by simp
    then have "2 powi l \<le> r" by (simp add: split[symmetric])
    moreover have "(2::rat) powi a \<le> 2 powi l" using al by (intro power_int_increasing) auto
    ultimately show ?thesis by linarith
  qed
  have "(2::rat) powi b < 2 powi 1024" using b by (intro power_int_strict_increasing) auto
  with hi_r have fin1: "\<not> 2 powi 1024 \<le> r" by linarith
  have "(0::rat) < 2 powi a" "(0::rat) < 2 powi 1024" by simp_all
  with lo_r have fin2: "\<not> r \<le> - (2 powi 1024)" by linarith
  have "fl x = Fl r"
    using nz fin1 fin2
    by (simp add: fl_def Let_def e_def[symmetric] u_def[symmetric] y_def[symmetric] r_def[symmetric]
          del: power_int_numeral)
  with lo_r hi_r show ?thesis by (simp add: in_range_def)
qed

lemma fmul_range:
  assumes "in_range a b x" "in_range c d y" "- 1074 \<le> a + c" "b + d \<le> 1023"
  shows "in_range (a + c) (b + d) (fmul x y)"
proof -
  from in_rangeD[OF assms(1)] obtain r where r: "x = Fl r" "2 powi a \<le> r" "r \<le> 2 powi b" "0 < r"
    by blast
  from in_rangeD[OF assms(2)] obtain s where s: "y = Fl s" "2 powi c \<le> s" "s \<le> 2 powi d" "0 < s"
    by blast
  have "2 powi a * 2 powi c \<le> r * s"
    using r s by (intro mult_mono) auto
  then have lo: "2 powi (a + c) \<le> r * s" by (simp add: power_int_add)
  have "r * s \<le> 2 powi b * 2 powi d"
    using r s by (intro mult_mono) auto
  then have hi: "r * s \<le> 2 powi (b + d)" by (simp add: power_int_add)
  from fl_range[OF assms(3,4) lo hi] show ?thesis by (simp add: r s)
qed

lemma fquot_range:
  assumes "in_range a b x" "in_range c d y" "- 1074 \<le> a - d" "b - c \<le> 1023"
  shows "in_range (a - d) (b - c) (fquot x y)"
proof -
  from in_rangeD[OF assms(1)] obtain r where r: "x = Fl r" "2 powi a \<le> r" "r \<le> 2 powi b" "0 < r"
    by blast
  from in_rangeD[OF assms(2)] obtain s where s: "y = Fl s" "2 powi c \<le> s" "s \<le> 2 powi d" "0 < s"
    by blast
  have pc: "(0::rat) < 2 powi c" and pd: "(0::rat) < 2 powi d" by simp_all
  have "2 powi a / 2 powi d \<le> r / s"
    using r s pd by (intro frac_le) auto
  then have lo: "2 powi (a - d) \<le> r / s" by (simp add: power_int_diff)
  have "r / s \<le> 2 powi b / 2 powi c"
    using r s pc by (intro frac_le) auto
  then have hi: "r / s \<le> 2 powi (b - c)" by (simp add: power_int_diff)
  from fl_range[OF assms(3,4) lo hi] show ?thesis by (simp add: r s)
qed

lemma in_range_mono: "in_range a b x \<Longrightarrow> a' \<le> a \<Longrightarrow> b \<le> b' \<Longrightarrow> in_range a' b' x"
proof -
  assume x: "in_range a b x" and a: "a' \<le> a" and b: "b \<le> b'"
  from in_rangeD[OF x] obtain r where r: "x = Fl r" "2 powi a \<le> r" "r \<le> 2 powi b" by blast
  have "(2::rat) powi a' \<le> 2 powi a" "(2::rat) powi b \<le> 2 powi b'"
    using a b by (auto intro!: power_int_increasing)
  with r show ?thesis by (simp add: in_range_def)
qed

lemma in_range_positive:
  assumes "in_range a b x"
  shows "fgt x (Fl 0)" "fne x (Fl 0)" "\<not> feq x (Fl 0)" "x \<noteq> Fl 0"
  using in_rangeD[OF assms] by (auto simp: fgt_def fne_def feq_def)

lemma in_range_numeral:
  "in_range 3 4 (Fl 12)" "in_range 6 7 (Fl 100)" "in_range 23 24 (Fl 12390000)"
  "in_range 9 10 (Fl 1000)" "in_range 9 10 (Fl 650)" "in_range (- 1) 0 LOSS_FACTOR"
  by (simp_all add: in_range_def LOSS_FACTOR_value)

lemma ceiling_range:
  assumes "in_range a b (Fl q)" "0 \<le> b" "b < 1023"
  shows "\<exists>r. int_to_float \<lceil>q\<rceil> = Normal (Fl r)"
proof -
  from in_rangeD[OF assms(1)] have q: "0 < q" "q \<le> 2 powi b" by auto
  then have "1 \<le> \<lceil>q\<rceil>" by simp
  then have "(of_int 1 :: rat) \<le> of_int \<lceil>q\<rceil>" unfolding of_int_le_iff .
  then have lo: "2 powi 0 \<le> (of_int \<lceil>q\<rceil> :: rat)" by simp
  have "(of_int \<lceil>q\<rceil> :: rat) \<le> q + 1" by linarith
  also have "\<dots> \<le> 2 powi b + 2 powi b"
  proof -
    have "(1::rat) \<le> 2 powi b" using assms(2) by (intro one_le_power_int) auto
    with q(2) show ?thesis by linarith
  qed
  also have "\<dots> = 2 powi (b + 1)" by (simp add: power_int_add)
  finally have hi: "(of_int \<lceil>q\<rceil> :: rat) \<le> 2 powi (b + 1)" .
  from fl_range[OF _ _ lo hi] assms(3) have "in_range 0 (b + 1) (fl (of_int \<lceil>q\<rceil>))" by simp
  from in_rangeD[OF this] show ?thesis by (auto simp: int_to_float_def)
qed

lemma compute_locals_in_range:
  assumes pv: "in_range (- 100) 100 pvout" and tg: "in_range (- 100) 100 tagihan"
    and tr: "in_range (- 100) 100 tarif" and ps: "in_range (- 100) 7 persen"
  shows "\<exists>L. compute_locals B (PyFloat pvout) (PyFloat tagihan) (PyFloat tarif) (PyFloat persen) = Normal L \<and>
    in_range (- 404) 306 (kapasitas_kwp L) \<and> in_range (- 686) 735 (bep_tahun L)"
proof -
  note n = in_range_numeral
  let ?keb = "fquot tagihan tarif"
  let ?des = "fquot persen (Fl 100)"
  let ?target = "fmul ?keb ?des"
  let ?eff = "fmul (fquot pvout (Fl 12)) LOSS_FACTOR"
  let ?kap = "fquot ?target ?eff"
  let ?inv = "fmul ?kap (Fl 12390000)"
  let ?peng = "fmul (fmul ?target (Fl 12)) tarif"
  let ?bep = "fquot ?inv ?peng"
  let ?kq = "fquot (fmul ?kap (Fl 1000)) (Fl 650)"
  have keb: "in_range (- 200) 200 ?keb" using fquot_range[OF tg tr] by simp
  have des: "in_range (- 107) 1 ?des" using fquot_range[OF ps n(2)] by simp
  have target: "in_range (- 307) 201 ?target" using fmul_range[OF keb des] by simp
  have monthly: "in_range (- 104) 97 (fquot pvout (Fl 12))" using fquot_range[OF pv n(1)] by simp
  have eff: "in_range (- 105) 97 ?eff" using fmul_range[OF monthly n(6)] by simp
  have kap: "in_range (- 404) 306 ?kap" using fquot_range[OF target eff] by simp
  have inv: "in_range (- 381) 330 ?inv" using fmul_range[OF kap n(3)] by simp
  have t12: "in_range (- 304) 205 (fmul ?target (Fl 12))" using fmul_range[OF target n(1)] by simp
  have peng: "in_range (- 404) 305 ?peng" using fmul_range[OF t12 tr] by simp
  have bep: "in_range (- 686) 734 ?bep" using fquot_range[OF inv peng] by simp
  have k1000: "in_range (- 395) 316 (fmul ?kap (Fl 1000))" using fmul_range[OF kap n(4)] by simp
  have kq: "in_range (- 405) 307 ?kq" using fquot_range[OF k1000 n(5)] by simp
  from in_rangeD[OF kq] obtain q where q: "?kq = Fl q" by blast
  from ceiling_range[of "- 405" 307 q] kq q obtain r where r: "int_to_float \<lceil>q\<rceil> = Normal (Fl r)"
    by auto
  note pos = in_range_positive
  have "compute_locals B (PyFloat pvout) (PyFloat tagihan) (PyFloat tarif) (PyFloat persen) =
    Normal \<lparr>tdl = tarif, kebutuhan_energi_bulanan = ?keb, penghematan_desimal = ?des,
      target_produksi_bulanan = ?target, pvout_monthly_effective = ?eff, kapasitas_kwp = ?kap,
      total_investasi = ?inv, penghematan_tahunan_uang = ?peng, bep_tahun = ?bep,
      jumlah_panel = \<lceil>q\<rceil>, estimasi_area = fmul (Fl r) PANEL_AREA_SQM,
      produksi_kwh_bulanan = ?target\<rparr>"
    unfolding compute_locals_def resolve_tdl_def Let_def
    by (simp add: pos[OF tr] pos[OF n(1)] pos[OF n(2)] pos[OF n(5)] pos[OF eff] pos[OF peng] pos[OF kap]
          fdiv_def int_to_float_COST int_to_float_WATT q r)
  moreover have "in_range (- 686) 735 ?bep" using bep by (rule in_range_mono) simp_all
  ultimately show ?thesis using kap by auto
qed

lemma fl_rel_error:
  assumes a: "- 1022 \<le> a" and b: "b \<le> 1023"
    and lo: "2 powi a \<le> x" and hi: "x \<le> 2 powi b"
  shows "\<exists>v. fl x = Fl v \<and> \<bar>v - x\<bar> \<le> x * 2 powi (- 53)"
proof -
  have xpos: "0 < x" using lo zero_less_power_int[of "2::rat" a] by linarith
  then have nz: "x \<noteq> 0" and ax: "\<bar>x\<bar> = x" by auto
  define e where "e = ilog2 x"
  note eb = ilog2_bounds[OF nz, folded e_def, unfolded ax]
  have ae: "a \<le> e"
  proof -
    from lo eb(2) have "(2::rat) powi a < 2 powi (e + 1)" by linarith
    then have "a < e + 1" by (rule powi2_less_cancel)
    then show ?thesis by simp
  qed
  have u: "max (e - 52) (- 1074) = e - 52" using ae a by simp
  define y where "y = x / 2 powi (e - 52)"
  define r where "r = (of_int (rhe y) :: rat) * 2 powi (e - 52)"
  have upos: "(0::rat) < 2 powi (e - 52)" by simp
  from fl_range[OF _ b lo hi] a have "in_range a b (fl x)" by simp
  from in_rangeD[OF this] obtain v where v: "fl x = Fl v" by blast
  have "fl x = (if 2 powi 1024 \<le> r then PInf else if r \<le> - (2 powi 1024) then NInf else Fl r)"
    using nz by (simp add: fl_def Let_def e_def[symmetric] u y_def[symmetric] r_def[symmetric]
          del: power_int_numeral)
  with v have vr: "v = r" by (auto split: if_splits)
  have x: "x = y * 2 powi (e - 52)" using upos by (simp add: y_def)
  have "\<bar>r - x\<bar> = \<bar>of_int (rhe y) - y\<bar> * 2 powi (e - 52)"
    unfolding r_def by (subst x) (simp add: left_diff_distrib[symmetric] abs_mult)
  also have "\<dots> \<le> 1 / 2 * 2 powi (e - 52)"
    using rhe_bounds[of y] upos by (intro mult_right_mono) auto
  also have "\<dots> = 2 powi e * 2 powi (- 53)"
  proof -
    have "(2::rat) powi (e - 52) = 2 powi e * 2 powi (- 52)"
      using power_int_add[of "2::rat" e "- 52"] by simp
    moreover have "(1::rat) / 2 * 2 powi (- 52) = 2 powi (- 53)"
      by simp
    ultimately show ?thesis by (simp del: power_int_numeral power_int_numeral_neg_numeral)
  qed
  also have "\<dots> \<le> x * 2 powi (- 53)"
    using eb(1) by (intro mult_right_mono) auto
  finally show ?thesis using v vr by blast
qed

lemma area_exact:
  assumes "0 \<le> n" "n < 2 ^ 42"
  shows "py_round (fmul (Fl (of_int n)) PANEL_AREA_SQM) 2 = fl (of_int n * 271 / 100)"
proof (cases "n = 0")
  case True
  then show ?thesis by (simp add: PANEL_AREA_SQM_value py_round_def fl_zero rhe_def)
next
  case False
  with assms have n1: "1 \<le> n" by simp
  define c :: rat where "c = 3051188747543511 / 1125899906842624"
  define x :: rat where "x = of_int n * c"
  have nr: "(1::rat) \<le> of_int n" using n1 by simp
  have "(of_int n :: rat) < of_int (2 ^ 42)" using assms(2) unfolding of_int_less_iff .
  then have nh: "(of_int n :: rat) < 2 ^ 42" by simp
  have c2: "2 \<le> c" "c \<le> 4" by (simp_all add: c_def)
  have "2 * 1 \<le> c * (of_int n :: rat)" using c2 nr by (intro mult_mono) auto
  then have lo: "2 powi 1 \<le> x" by (simp add: x_def mult.commute)
  have "(of_int n :: rat) * c \<le> 2 ^ 42 * 4" using c2 nh nr by (intro mult_mono) auto
  then have hi: "x \<le> 2 powi 44" by (simp add: x_def)
  from fl_rel_error[OF _ _ lo hi] obtain v where v: "fl x = Fl v" "\<bar>v - x\<bar> \<le> x * 2 powi (- 53)"
    by auto
  have xn: "x \<le> 4 * of_int n" using c2 nr by (simp add: x_def)
  have delta: "x * 100 - 271 * of_int n = - (of_int n) / 2 ^ 48"
    by (simp add: x_def c_def field_simps)
  have "\<bar>v * 100 - of_int (271 * n)\<bar> \<le> \<bar>v - x\<bar> * 100 + \<bar>x * 100 - 271 * of_int n\<bar>"
    by (simp add: abs_if) linarith?
  also have "\<dots> \<le> 4 * of_int n * 2 powi (- 53) * 100 + of_int n / 2 ^ 48"
  proof -
    have "x * 2 powi (- 53) \<le> 4 * of_int n * 2 powi (- 53)"
      using xn by (intro mult_right_mono) auto
    with v(2) have "\<bar>v - x\<bar> \<le> 4 * of_int n * 2 powi (- 53)" by linarith
    moreover have "\<bar>x * 100 - 271 * of_int n\<bar> = of_int n / 2 ^ 48"
      using nr by (simp add: delta)
    ultimately show ?thesis by simp
  qed
  also have "\<dots> < 1 / 2" using nh by simp
  finally have "rhe (v * 10 ^ 2) = 271 * n" by (intro rhe_near) simp
  then have "py_round (Fl v) 2 = fl (of_int (271 * n) / 10 ^ 2)" by (simp add: py_round_def)
  moreover have "fmul (Fl (of_int n)) PANEL_AREA_SQM = Fl v"
    using v(1) by (simp add: PANEL_AREA_SQM_value x_def c_def)
  ultimately show ?thesis by (simp add: mult.commute)
qed

lemma fl_nonneg: "0 \<le> x \<Longrightarrow> \<not> flt (fl x) (Fl 0)"
  using fl_sign_cases[of x] by auto

lemma fl_nonpos: "x \<le> 0 \<Longrightarrow> \<not> fgt (fl x) (Fl 0)"
  using fl_sign_cases[of x] by (auto simp: fgt_def)

lemma fquot_pos_pos: "fgt x (Fl 0) \<Longrightarrow> fgt y (Fl 0) \<Longrightarrow> \<not> flt (fquot x y) (Fl 0)"
  by (cases x; cases y) (auto simp: fgt_def intro!: fl_nonneg)

lemma fmul_nn_nn: "\<not> flt x (Fl 0) \<Longrightarrow> \<not> flt y (Fl 0) \<Longrightarrow> \<not> flt (fmul x y) (Fl 0)"
  by (cases x; cases y) (auto simp: not_less intro!: fl_nonneg)

lemma fquot_np_pos: "\<not> fgt x (Fl 0) \<Longrightarrow> fgt y (Fl 0) \<Longrightarrow> \<not> fgt (fquot x y) (Fl 0)"
  by (cases x; cases y) (auto simp: fgt_def not_less divide_le_0_iff intro!: fl_nonpos[unfolded fgt_def])

lemma fmul_np_nn: "\<not> fgt x (Fl 0) \<Longrightarrow> \<not> flt y (Fl 0) \<Longrightarrow> \<not> fgt (fmul x y) (Fl 0)"
  by (cases x; cases y) (auto simp: fgt_def not_less mult_le_0_iff intro!: fl_nonpos[unfolded fgt_def])

lemma fquot_nn_np: "\<not> flt x (Fl 0) \<Longrightarrow> \<not> fgt y (Fl 0) \<Longrightarrow> \<not> fgt (fquot x y) (Fl 0)"
  by (cases x; cases y) (auto simp: fgt_def not_less divide_le_0_iff intro!: fl_nonpos[unfolded fgt_def])

lemma py_round_np: "\<not> fgt x (Fl 0) \<Longrightarrow> \<not> fgt (py_round x n) (Fl 0)"
proof (cases x)
  case (Fl a)
  assume "\<not> fgt x (Fl 0)"
  with Fl have "a \<le> 0" by (simp add: fgt_def)
  then have "a * 10 ^ n \<le> 0" by (simp add: mult_le_0_iff)
  then have "rhe (a * 10 ^ n) \<le> 0" by (rule rhe_nonpos)
  then have "(of_int (rhe (a * 10 ^ n)) :: rat) / 10 ^ n \<le> 0" by (simp add: divide_le_0_iff)
  then show ?thesis using Fl by (simp add: py_round_def fl_nonpos)
qed (auto simp: py_round_def)

lemma fgt_not_flt: "fgt x (Fl 0) \<Longrightarrow> \<not> flt x (Fl 0)"
  by (cases x) (auto simp: fgt_def)

lemma flt_not_fgt: "flt x (Fl 0) \<Longrightarrow> \<not> fgt x (Fl 0)"
  by (cases x) (auto simp: fgt_def)

lemma fgt_zero_props: "fgt x (Fl 0) \<Longrightarrow> x \<noteq> Fl 0 \<and> \<not> feq x (Fl 0) \<and> fne x (Fl 0)"
  by (cases x) (auto simp: fgt_def feq_def fne_def)

lemma LOSS_FACTOR_positive: "fgt LOSS_FACTOR (Fl 0)"
  by (simp add: LOSS_FACTOR_value fgt_def)

lemma compute_locals_negative:
  assumes pv: "flt pvout (Fl 0)" and tg: "fgt tagihan (Fl 0)" and tr: "fgt tarif (Fl 0)"
    and ps: "fgt persen (Fl 0)"
    and nz: "\<not> feq (fmul (fquot pvout (Fl 12)) LOSS_FACTOR) (Fl 0)"
  shows "\<exists>L. compute_locals B (PyFloat pvout) (PyFloat tagihan) (PyFloat tarif) (PyFloat persen) = Normal L \<and>
     \<not> fgt (kapasitas_kwp L) (Fl 0) \<and> jumlah_panel L = 0 \<and>
     (if fgt (penghematan_tahunan_uang L) (Fl 0) then \<not> fgt (bep_tahun L) (Fl 0)
      else bep_tahun L = PInf)"
proof -
  let ?keb = "fquot tagihan tarif"
  let ?des = "fquot persen (Fl 100)"
  let ?target = "fmul ?keb ?des"
  let ?eff = "fmul (fquot pvout (Fl 12)) LOSS_FACTOR"
  let ?kap = "fquot ?target ?eff"
  let ?inv = "fmul ?kap (Fl 12390000)"
  let ?peng = "fmul (fmul ?target (Fl 12)) tarif"
  let ?bep = "if fgt ?peng (Fl 0) then fquot ?inv ?peng else PInf"
  have c: "fgt (Fl 100) (Fl 0)" "fgt (Fl 12) (Fl 0)" "\<not> flt (Fl 12390000) (Fl 0)" "\<not> flt (Fl 12) (Fl 0)"
    by (simp_all add: fgt_def)
  have target: "\<not> flt ?target (Fl 0)"
    by (intro fmul_nn_nn fquot_pos_pos tg tr ps c)
  have eff: "\<not> fgt ?eff (Fl 0)"
    by (intro fmul_np_nn fquot_np_pos flt_not_fgt[OF pv] c fgt_not_flt[OF LOSS_FACTOR_positive])
  have kap: "\<not> fgt ?kap (Fl 0)" using target eff by (rule fquot_nn_np)
  have inv: "\<not> fgt ?inv (Fl 0)" using kap c(3) by (rule fmul_np_nn)
  have bep: "fgt ?peng (Fl 0) \<Longrightarrow> \<not> fgt (fquot ?inv ?peng) (Fl 0)"
    using inv by (rule fquot_np_pos)
  have "compute_locals B (PyFloat pvout) (PyFloat tagihan) (PyFloat tarif) (PyFloat persen) =
    Normal \<lparr>tdl = tarif, kebutuhan_energi_bulanan = ?keb, penghematan_desimal = ?des,
      target_produksi_bulanan = ?target, pvout_monthly_effective = ?eff, kapasitas_kwp = ?kap,
      total_investasi = ?inv, penghematan_tahunan_uang = ?peng, bep_tahun = ?bep,
      jumlah_panel = 0, estimasi_area = fmul (Fl 0) PANEL_AREA_SQM,
      produksi_kwh_bulanan = ?target\<rparr>"
    unfolding compute_locals_def resolve_tdl_def Let_def
    using fgt_zero_props[OF tr] fgt_zero_props[OF c(1)] fgt_zero_props[OF c(2)] tr nz kap
      fgt_zero_props[of ?peng]
    by (simp add: fdiv_def int_to_float_COST int_to_float_small)
  then show ?thesis using kap bep by (auto simp: fgt_def)
qed

text \<open>A negated yield: the magnitudes of the run with the yield itself, with the signs changed.\<close>

lemma fquot_uminus_left: "fquot (Fl a) y = Fl q \<Longrightarrow> fquot (Fl (- a)) y = Fl (- q)"
  using fl_uminus[of "a / b" q for b] by (cases y) auto

lemma fquot_uminus_right: "fquot x (Fl b) = Fl q \<Longrightarrow> fquot x (Fl (- b)) = Fl (- q)"
  using fl_uminus[of "a / b" q for a] by (cases x) (auto split: if_splits)

lemma fmul_uminus_left: "fmul (Fl a) y = Fl q \<Longrightarrow> fmul (Fl (- a)) y = Fl (- q)"
  using fl_uminus[of "a * b" q for b] by (cases y) (auto split: if_splits)

lemma py_round_uminus: "py_round (Fl a) n = Fl c \<Longrightarrow> py_round (Fl (- a)) n = Fl (- c)"
  using fl_uminus[of "of_int (rhe (a * 10 ^ n)) / 10 ^ n" c] rhe_uminus[of "a * 10 ^ n"]
  by (simp add: py_round_def)

lemma py_round_sign:
  assumes k: "in_range a b (Fl k)" and b: "0 \<le> b" "b < 1023" and n: "n \<le> 2"
  shows "\<exists>c. py_round (Fl k) n = Fl c \<and> 0 \<le> c \<and> (0 < c \<longleftrightarrow> 1 / 2 < k * 10 ^ n)"
proof -
  from in_rangeD[OF k] have kp: "0 < k" "k \<le> 2 powi b" by auto
  define m where "m = rhe (k * 10 ^ n)"
  have pr: "py_round (Fl k) n = fl (of_int m / 10 ^ n)" by (simp add: py_round_def m_def)
  have m0: "0 \<le> m" unfolding m_def using kp by (intro rhe_nonneg) simp
  have mi: "0 < m \<longleftrightarrow> 1 / 2 < k * 10 ^ n" unfolding m_def by (rule rhe_pos_iff)
  have t1: "(1::rat) \<le> 10 ^ n" by simp
  have "(10::rat) ^ n \<le> 10 ^ 2" using n by (intro power_increasing) auto
  then have t2: "(10::rat) ^ n \<le> 100" by simp
  show ?thesis
  proof (cases "m = 0")
    case True
    with mi show ?thesis by (simp add: pr fl_zero)
  next
    case False
    with m0 have m1: "1 \<le> m" by simp
    then have mr: "(of_int 1 :: rat) \<le> of_int m" unfolding of_int_le_iff .
    have "(1::rat) / 100 \<le> 1 / 10 ^ n" using t2 by (intro divide_left_mono) auto
    also have "\<dots> \<le> of_int m / 10 ^ n" using mr by (intro divide_right_mono) auto
    finally have "(1::rat) / 100 \<le> of_int m / 10 ^ n" .
    moreover have "(2::rat) powi (- 7) \<le> 1 / 100" by simp
    ultimately have lo: "2 powi (- 7) \<le> (of_int m :: rat) / 10 ^ n" by linarith
    have "(of_int m :: rat) \<le> k * 10 ^ n + 1 / 2"
      using rhe_bounds[of "k * 10 ^ n"] unfolding m_def by linarith
    then have "(of_int m :: rat) / 10 ^ n \<le> (k * 10 ^ n + 1 / 2) / 10 ^ n"
      by (intro divide_right_mono) auto
    also have "\<dots> = k + 1 / 2 / 10 ^ n" by (simp add: add_divide_distrib)
    also have "\<dots> \<le> k + 1"
    proof -
      have "(0::rat) < 10 ^ n" by simp
      moreover have "(1::rat) \<le> 2 * 10 ^ n" using t1 by linarith
      ultimately have "(1::rat) / 2 / 10 ^ n \<le> 1" by (simp add: field_simps)
      then show ?thesis by linarith
    qed
    also have "\<dots> \<le> 2 powi b + 2 powi b"
    proof -
      have "(1::rat) \<le> 2 powi b" using b(1) by (intro one_le_power_int) auto
      with kp(2) show ?thesis by linarith
    qed
    also have "\<dots> = 2 powi (b + 1)" by (simp add: power_int_add)
    finally have hi: "(of_int m :: rat) / 10 ^ n \<le> 2 powi (b + 1)" .
    from fl_range[OF _ _ lo hi] b(2) have "in_range (- 7) (b + 1) (fl (of_int m / 10 ^ n))" by simp
    from in_rangeD[OF this] obtain c where "fl (of_int m / 10 ^ n) = Fl c" "0 < c" by blast
    with m1 mi show ?thesis by (auto simp: pr)
  qed
qed

lemma compute_locals_mirror:
  assumes pv: "in_range (- 100) 100 (Fl p)" and tg: "in_range (- 100) 100 tagihan"
    and tr: "in_range (- 100) 100 tarif" and ps: "in_range (- 100) 7 persen"
  shows "\<exists>L k b. compute_locals B (PyFloat (Fl (- p))) (PyFloat tagihan) (PyFloat tarif) (PyFloat persen) =
      Normal L \<and>
    kapasitas_kwp L = Fl (- k) \<and> in_range (- 404) 306 (Fl k) \<and>
    bep_tahun L = Fl (- b) \<and> in_range (- 686) 735 (Fl b) \<and> jumlah_panel L = 0"
proof -
  note n = in_range_numeral
  let ?keb = "fquot tagihan tarif"
  let ?des = "fquot persen (Fl 100)"
  let ?target = "fmul ?keb ?des"
  let ?peng = "fmul (fmul ?target (Fl 12)) tarif"
  have keb: "in_range (- 200) 200 ?keb" using fquot_range[OF tg tr] by simp
  have des: "in_range (- 107) 1 ?des" using fquot_range[OF ps n(2)] by simp
  have target: "in_range (- 307) 201 ?target" using fmul_range[OF keb des] by simp
  have monthly: "in_range (- 104) 97 (fquot (Fl p) (Fl 12))" using fquot_range[OF pv n(1)] by simp
  from in_rangeD[OF monthly] obtain m where m: "fquot (Fl p) (Fl 12) = Fl m" by blast
  have eff: "in_range (- 105) 97 (fmul (Fl m) LOSS_FACTOR)"
    using fmul_range[OF monthly n(6)] by (simp add: m del: fquot.simps fmul.simps)
  from in_rangeD[OF eff] obtain e where e: "fmul (Fl m) LOSS_FACTOR = Fl e" "0 < e" by blast
  have kap: "in_range (- 404) 306 (fquot ?target (Fl e))"
    using fquot_range[OF target eff] by (simp add: e del: fquot.simps fmul.simps)
  from in_rangeD[OF kap] obtain k where k: "fquot ?target (Fl e) = Fl k" "0 < k" by blast
  have inv: "in_range (- 381) 330 (fmul (Fl k) (Fl 12390000))"
    using fmul_range[OF kap n(3)] by (simp add: k del: fquot.simps fmul.simps)
  from in_rangeD[OF inv] obtain i where i: "fmul (Fl k) (Fl 12390000) = Fl i" by blast
  have t12: "in_range (- 304) 205 (fmul ?target (Fl 12))" using fmul_range[OF target n(1)] by simp
  have peng: "in_range (- 404) 305 ?peng" using fmul_range[OF t12 tr] by simp
  have bep: "in_range (- 686) 734 (fquot (Fl i) ?peng)"
    using fquot_range[OF inv peng] by (simp add: i del: fquot.simps fmul.simps)
  from in_rangeD[OF bep] obtain b where b: "fquot (Fl i) ?peng = Fl b" by blast
  have m': "fquot (Fl (- p)) (Fl 12) = Fl (- m)" using m by (rule fquot_uminus_left)
  have e': "fmul (Fl (- m)) LOSS_FACTOR = Fl (- e)" using e(1) by (rule fmul_uminus_left)
  have k': "fquot ?target (Fl (- e)) = Fl (- k)" using k(1) by (rule fquot_uminus_right)
  have i': "fmul (Fl (- k)) (Fl 12390000) = Fl (- i)" using i by (rule fmul_uminus_left)
  have b': "fquot (Fl (- i)) ?peng = Fl (- b)" using b by (rule fquot_uminus_left)
  note pos = in_range_positive
  have "compute_locals B (PyFloat (Fl (- p))) (PyFloat tagihan) (PyFloat tarif) (PyFloat persen) =
    Normal \<lparr>tdl = tarif, kebutuhan_energi_bulanan = ?keb, penghematan_desimal = ?des,
      target_produksi_bulanan = ?target, pvout_monthly_effective = Fl (- e), kapasitas_kwp = Fl (- k),
      total_investasi = Fl (- i), penghematan_tahunan_uang = ?peng, bep_tahun = Fl (- b),
      jumlah_panel = 0, estimasi_area = fmul (Fl 0) PANEL_AREA_SQM,
      produksi_kwh_bulanan = ?target\<rparr>"
  proof -
    have z: "\<not> feq (Fl (- e)) (Fl 0)" "\<not> fgt (Fl (- k)) (Fl 0)"
      using e(2) k(2) by (simp_all add: feq_def fgt_def)
    show ?thesis
      unfolding compute_locals_def resolve_tdl_def Let_def
      by (simp add: pos[OF tr] pos[OF n(1)] pos[OF n(2)] pos[OF peng] m' e' k' i' b' z
            fdiv_def int_to_float_COST int_to_float_small del: fquot.simps fmul.simps)
  qed
  moreover have "in_range (- 686) 735 (Fl b)" using bep unfolding b by (rule in_range_mono) simp_all
  moreover have "in_range (- 404) 306 (Fl k)" using kap unfolding k(1) .
  ultimately show ?thesis by auto
qed

section \<open>Concrete runs\<close>

text \<open>The example of the specification: 1500 kWh/kWp, a bill of 1000000, tariff 1500, 100 percent.\<close>

lemma ex1_kebutuhan: "fquot (Fl 1000000) (Fl 1500) = Fl (5864062014805333 / 8796093022208)"
  by (rule fquot_eval, rule fl_near[where e = "9" and m = "5864062014805333"]) simp_all

lemma ex1_desimal: "fquot (Fl 100) (Fl 100) = Fl 1"
  by (rule fquot_eval, rule fl_near[where e = "0" and m = "4503599627370496"]) simp_all

lemma ex1_target: "fmul (Fl (5864062014805333 / 8796093022208)) (Fl 1) = Fl (5864062014805333 / 8796093022208)"
  by (rule fmul_eval, rule fl_near[where e = "9" and m = "5864062014805333"]) simp_all

lemma ex1_monthly: "fquot (Fl 1500) (Fl 12) = Fl 125"
  by (rule fquot_eval, rule fl_near[where e = "6" and m = "8796093022208000"]) simp_all

lemma ex1_effective: "fmul (Fl 125) (Fl (7656119366529843 / 9007199254740992)) = Fl (425 / 4)"
  by (rule fmul_eval, rule fl_near[where e = "6" and m = "7476679068876800"]) simp_all

lemma ex1_kapasitas: "fquot (Fl (5864062014805333 / 8796093022208)) (Fl (425 / 4)) = Fl (7064470003718425 / 1125899906842624)"
  by (rule fquot_eval, rule fl_near[where e = "2" and m = "7064470003718425"]) simp_all

lemma ex1_investasi: "fmul (Fl (7064470003718425 / 1125899906842624)) (Fl 12390000) = Fl (2608561019482353 / 33554432)"
  by (rule fmul_eval, rule fl_near[where e = "26" and m = "5217122038964706"]) simp_all

lemma ex1_target12: "fmul (Fl (5864062014805333 / 8796093022208)) (Fl 12) = Fl 8000"
  by (rule fmul_eval, rule fl_tie[where e = "12" and f = "8796093022207999"]) simp_all

lemma ex1_penghematan: "fmul (Fl 8000) (Fl 1500) = Fl 12000000"
  by (rule fmul_eval, rule fl_near[where e = "23" and m = "6442450944000000"]) simp_all

lemma ex1_bep: "fquot (Fl (2608561019482353 / 33554432)) (Fl 12000000) = Fl (3647032639419637 / 562949953421312)"
  by (rule fquot_eval, rule fl_near[where e = "2" and m = "7294065278839274"]) simp_all

lemma ex1_kap1000: "fmul (Fl (7064470003718425 / 1125899906842624)) (Fl 1000) = Fl (3449448244003137 / 549755813888)"
  by (rule fmul_eval, rule fl_near[where e = "12" and m = "6898896488006274"]) simp_all

lemma ex1_kapwp: "fquot (Fl (3449448244003137 / 549755813888)) (Fl 650) = Fl (5434207695168019 / 562949953421312)"
  by (rule fquot_eval, rule fl_near[where e = "3" and m = "5434207695168019"]) simp_all

lemma ex1_ceil: "\<lceil>(5434207695168019 / 562949953421312) :: rat\<rceil> = 10"
  by (rule ceiling_unique) simp_all

lemma ex1_area: "fmul (Fl 10) (Fl (3051188747543511 / 1125899906842624)) = Fl (3813985934429389 / 140737488355328)"
  by (rule fmul_eval, rule fl_tie[where e = "4" and f = "7627971868858777"]) simp_all

lemma ex1_r_tdl: "py_round (Fl 1500) 2 = Fl 1500"
  by (rule py_round_eval[where m = "150000"], rule rhe_near, simp, rule fl_near[where e = "10" and m = "6597069766656000"]) simp_all

lemma ex1_r_pvout: "py_round (Fl 1500) 1 = Fl 1500"
  by (rule py_round_eval[where m = "15000"], rule rhe_near, simp, rule fl_near[where e = "10" and m = "6597069766656000"]) simp_all

lemma ex1_r_effective: "py_round (Fl (425 / 4)) 4 = Fl (425 / 4)"
  by (rule py_round_eval[where m = "1062500"], rule rhe_near, simp, rule fl_near[where e = "6" and m = "7476679068876800"]) simp_all

lemma ex1_r_kebutuhan: "py_round (Fl (5864062014805333 / 8796093022208)) 2 = Fl (5864091335115407 / 8796093022208)"
  by (rule py_round_eval[where m = "66667"], rule rhe_near, simp, rule fl_near[where e = "9" and m = "5864091335115407"]) simp_all

lemma ex1_r_kapasitas: "py_round (Fl (7064470003718425 / 1125899906842624)) 2 = Fl (1764848103975813 / 281474976710656)"
  by (rule py_round_eval[where m = "627"], rule rhe_near, simp, rule fl_near[where e = "2" and m = "7059392415903252"]) simp_all

lemma ex1_r_produksi: "py_round (Fl (5864062014805333 / 8796093022208)) 4 = Fl (2932031154004217 / 4398046511104)"
  by (rule py_round_eval[where m = "6666667"], rule rhe_near, simp, rule fl_near[where e = "9" and m = "5864062308008434"]) simp_all

lemma ex1_r_investasi: "py_round (Fl (2608561019482353 / 33554432)) 0 = Fl 77741176"
  by (rule py_round_eval[where m = "77741176"], rule rhe_near, simp, rule fl_near[where e = "26" and m = "5217122007384064"]) simp_all

lemma ex1_r_penghematan: "py_round (Fl 12000000) 0 = Fl 12000000"
  by (rule py_round_eval[where m = "12000000"], rule rhe_near, simp, rule fl_near[where e = "23" and m = "6442450944000000"]) simp_all

lemma ex1_r_bep: "py_round (Fl (3647032639419637 / 562949953421312)) 1 = Fl (13 / 2)"
  by (rule py_round_eval[where m = "65"], rule rhe_near, simp, rule fl_near[where e = "2" and m = "7318349394477056"]) simp_all

lemma ex1_r_area: "py_round (Fl (3813985934429389 / 140737488355328)) 2 = Fl (3813985934429389 / 140737488355328)"
  by (rule py_round_eval[where m = "2710"], rule rhe_near, simp, rule fl_near[where e = "4" and m = "7627971868858778"]) simp_all

lemma ex1_locals:
  "compute_locals B (PyFloat (Fl 1500)) (PyFloat (Fl 1000000)) (PyFloat (Fl 1500)) (PyFloat (Fl 100)) =
     Normal \<lparr>tdl = Fl 1500, kebutuhan_energi_bulanan = Fl (5864062014805333 / 8796093022208), penghematan_desimal = Fl 1,
       target_produksi_bulanan = Fl (5864062014805333 / 8796093022208), pvout_monthly_effective = Fl (425 / 4),
       kapasitas_kwp = Fl (7064470003718425 / 1125899906842624), total_investasi = Fl (2608561019482353 / 33554432),
       penghematan_tahunan_uang = Fl 12000000, bep_tahun = Fl (3647032639419637 / 562949953421312),
       jumlah_panel = 10, estimasi_area = Fl (3813985934429389 / 140737488355328),
       produksi_kwh_bulanan = Fl (5864062014805333 / 8796093022208)\<rparr>"
  by (simp add: compute_locals_def resolve_tdl_def fdiv_def feq_def fgt_def fne_def Let_def
        LOSS_FACTOR_value PANEL_AREA_SQM_value DEFAULT_TARIFF_value int_to_float_COST
        int_to_float_WATT
        int_to_float_small ex1_kebutuhan ex1_desimal ex1_target ex1_monthly ex1_effective ex1_kapasitas ex1_investasi ex1_target12 ex1_penghematan ex1_area ex1_bep ex1_kap1000 ex1_kapwp ex1_ceil
        del: fquot.simps fmul.simps)

lemma ex1_result:
  "calculate_solar_economics B (PyFloat (Fl 1500)) (PyFloat (Fl 1000000)) (PyFloat (Fl 1500)) (PyFloat (Fl 100)) =
     [(''status'', PyStr ''success''),
      (''TDL_Used'', PyFloat (Fl 1500)),
      (''PVOut_Annual'', PyFloat (Fl 1500)),
      (''PVOUT_Bulanan_Efektif'', PyFloat (Fl (425 / 4))),
      (''Kebutuhan_kWh_Bulanan'', PyFloat (Fl (5864091335115407 / 8796093022208))),
      (''Kapasitas_kWp'', PyFloat (Fl (1764848103975813 / 281474976710656))),
      (''Produksi_kWh_Bulanan'', PyFloat (Fl (2932031154004217 / 4398046511104))),
      (''Total_Investasi'', PyFloat (Fl 77741176)),
      (''Penghematan_Tahunan_Rp'', PyFloat (Fl 12000000)),
      (''BEP_Tahun'', PyFloat (Fl (13 / 2))),
      (''Jumlah_Panel'', PyInt 10),
      (''Estimasi_Area_m2'', PyFloat (Fl (3813985934429389 / 140737488355328))),
      (''LOSS_FACTOR'', PyFloat LOSS_FACTOR)]"
  using calculate_Normal[OF ex1_locals, of B]
  by (simp add: fne_def feq_def ex1_r_tdl ex1_r_pvout ex1_r_effective ex1_r_kebutuhan ex1_r_kapasitas ex1_r_produksi ex1_r_investasi ex1_r_penghematan ex1_r_area ex1_r_bep
        del: One_nat_def)
















text \<open>The smallest positive yield: the effective monthly yield underflows to zero.\<close>

lemma ex3_monthly: "fquot (Fl min_subnormal) (Fl 12) = Fl 0"
  by (rule fquot_eval, rule fl_tiny, simp add: min_subnormal_def)

lemma ex3_effective: "fmul (Fl 0) (Fl (7656119366529843 / 9007199254740992)) = Fl 0"
  by (rule fmul_eval, simp add: fl_zero)

lemma ex3_result:
  "calculate_solar_economics B (PyFloat (Fl min_subnormal)) (PyFloat (Fl 1000000)) (PyFloat (Fl 1500)) (PyFloat (Fl 100)) =
     [(''error'', PyStr ''PVOut tahunan tidak valid (0) atau LOSS_FACTOR=0.'')]"
  by (simp add: calculate_solar_economics_def compute_locals_def resolve_tdl_def fdiv_def
        feq_def fgt_def fne_def Let_def LOSS_FACTOR_value DEFAULT_TARIFF_value
        ex3_monthly ex3_effective
        del: fquot.simps fmul.simps)

text \<open>A bill of one sixteenth of a currency unit.\<close>

lemma ex4_kebutuhan: "fquot (Fl (1 / 16)) (Fl 1500) = Fl (6148914691236517 / 147573952589676412928)"
  by (rule fquot_eval, rule fl_near[where e = "-15" and m = "6148914691236517"]) simp_all

lemma ex4_desimal: "fquot (Fl 100) (Fl 100) = Fl 1"
  by (rule fquot_eval, rule fl_near[where e = "0" and m = "4503599627370496"]) simp_all

lemma ex4_target: "fmul (Fl (6148914691236517 / 147573952589676412928)) (Fl 1) = Fl (6148914691236517 / 147573952589676412928)"
  by (rule fmul_eval, rule fl_near[where e = "-15" and m = "6148914691236517"]) simp_all

lemma ex4_monthly: "fquot (Fl 1500) (Fl 12) = Fl 125"
  by (rule fquot_eval, rule fl_near[where e = "6" and m = "8796093022208000"]) simp_all

lemma ex4_effective: "fmul (Fl 125) (Fl (7656119366529843 / 9007199254740992)) = Fl (425 / 4)"
  by (rule fmul_eval, rule fl_near[where e = "6" and m = "7476679068876800"]) simp_all

lemma ex4_kapasitas: "fquot (Fl (6148914691236517 / 147573952589676412928)) (Fl (425 / 4)) = Fl (7407633698619051 / 18889465931478580854784)"
  by (rule fquot_eval, rule fl_near[where e = "-22" and m = "7407633698619051"]) simp_all

lemma ex4_investasi: "fmul (Fl (7407633698619051 / 18889465931478580854784)) (Fl 12390000) = Fl (5470548959129455 / 1125899906842624)"
  by (rule fmul_eval, rule fl_near[where e = "2" and m = "5470548959129455"]) simp_all

lemma ex4_target12: "fmul (Fl (6148914691236517 / 147573952589676412928)) (Fl 12) = Fl (1152921504606847 / 2305843009213693952)"
  by (rule fmul_eval, rule fl_near[where e = "-11" and m = "4611686018427388"]) simp_all

lemma ex4_penghematan: "fmul (Fl (1152921504606847 / 2305843009213693952)) (Fl 1500) = Fl (3 / 4)"
  by (rule fmul_eval, rule fl_near[where e = "-1" and m = "6755399441055744"]) simp_all

lemma ex4_bep: "fquot (Fl (5470548959129455 / 1125899906842624)) (Fl (3 / 4)) = Fl (7294065278839273 / 1125899906842624)"
  by (rule fquot_eval, rule fl_near[where e = "2" and m = "7294065278839273"]) simp_all

lemma ex4_kap1000: "fmul (Fl (7407633698619051 / 18889465931478580854784)) (Fl 1000) = Fl (7234017283807667 / 18446744073709551616)"
  by (rule fmul_eval, rule fl_near[where e = "-12" and m = "7234017283807667"]) simp_all

lemma ex4_kapwp: "fquot (Fl (7234017283807667 / 18446744073709551616)) (Fl 650) = Fl (5698179768168501 / 9444732965739290427392)"
  by (rule fquot_eval, rule fl_near[where e = "-21" and m = "5698179768168501"]) simp_all

lemma ex4_ceil: "\<lceil>(5698179768168501 / 9444732965739290427392) :: rat\<rceil> = 1"
  by (rule ceiling_unique) simp_all

lemma ex4_area: "fmul (Fl 1) (Fl (3051188747543511 / 1125899906842624)) = Fl (3051188747543511 / 1125899906842624)"
  by (rule fmul_eval, rule fl_near[where e = "1" and m = "6102377495087022"]) simp_all

lemma ex4_r_tdl: "py_round (Fl 1500) 2 = Fl 1500"
  by (rule py_round_eval[where m = "150000"], rule rhe_near, simp, rule fl_near[where e = "10" and m = "6597069766656000"]) simp_all

lemma ex4_r_pvout: "py_round (Fl 1500) 1 = Fl 1500"
  by (rule py_round_eval[where m = "15000"], rule rhe_near, simp, rule fl_near[where e = "10" and m = "6597069766656000"]) simp_all

lemma ex4_r_effective: "py_round (Fl (425 / 4)) 4 = Fl (425 / 4)"
  by (rule py_round_eval[where m = "1062500"], rule rhe_near, simp, rule fl_near[where e = "6" and m = "7476679068876800"]) simp_all

lemma ex4_r_kebutuhan: "py_round (Fl (6148914691236517 / 147573952589676412928)) 2 = Fl 0"
  by (rule py_round_eval[where m = "0"], rule rhe_near, simp, simp add: fl_zero)

lemma ex4_r_kapasitas: "py_round (Fl (7407633698619051 / 18889465931478580854784)) 2 = Fl 0"
  by (rule py_round_eval[where m = "0"], rule rhe_near, simp, simp add: fl_zero)

lemma ex4_r_produksi: "py_round (Fl (6148914691236517 / 147573952589676412928)) 4 = Fl 0"
  by (rule py_round_eval[where m = "0"], rule rhe_near, simp, simp add: fl_zero)

lemma ex4_r_investasi: "py_round (Fl (5470548959129455 / 1125899906842624)) 0 = Fl 5"
  by (rule py_round_eval[where m = "5"], rule rhe_near, simp, rule fl_near[where e = "2" and m = "5629499534213120"]) simp_all

lemma ex4_r_penghematan: "py_round (Fl (3 / 4)) 0 = Fl 1"
  by (rule py_round_eval[where m = "1"], rule rhe_near, simp, rule fl_near[where e = "0" and m = "4503599627370496"]) simp_all

lemma ex4_r_bep: "py_round (Fl (7294065278839273 / 1125899906842624)) 1 = Fl (13 / 2)"
  by (rule py_round_eval[where m = "65"], rule rhe_near, simp, rule fl_near[where e = "2" and m = "7318349394477056"]) simp_all

lemma ex4_r_area: "py_round (Fl (3051188747543511 / 1125899906842624)) 2 = Fl (3051188747543511 / 1125899906842624)"
  by (rule py_round_eval[where m = "271"], rule rhe_near, simp, rule fl_near[where e = "1" and m = "6102377495087022"]) simp_all

lemma ex4_locals:
  "compute_locals B (PyFloat (Fl 1500)) (PyFloat (Fl (1 / 16))) (PyFloat (Fl 1500)) (PyFloat (Fl 100)) =
     Normal \<lparr>tdl = Fl 1500, kebutuhan_energi_bulanan = Fl (6148914691236517 / 147573952589676412928), penghematan_desimal = Fl 1,
       target_produksi_bulanan = Fl (6148914691236517 / 147573952589676412928), pvout_monthly_effective = Fl (425 / 4),
       kapasitas_kwp = Fl (7407633698619051 / 18889465931478580854784), total_investasi = Fl (5470548959129455 / 1125899906842624),
       penghematan_tahunan_uang = Fl (3 / 4), bep_tahun = Fl (7294065278839273 / 1125899906842624),
       jumlah_panel = 1, estimasi_area = Fl (3051188747543511 / 1125899906842624),
       produksi_kwh_bulanan = Fl (6148914691236517 / 147573952589676412928)\<rparr>"
  by (simp add: compute_locals_def resolve_tdl_def fdiv_def feq_def fgt_def fne_def Let_def
        LOSS_FACTOR_value PANEL_AREA_SQM_value DEFAULT_TARIFF_value int_to_float_COST
        int_to_float_WATT
        int_to_float_small ex4_kebutuhan ex4_desimal ex4_target ex4_monthly ex4_effective ex4_kapasitas ex4_investasi ex4_target12 ex4_penghematan ex4_area ex4_bep ex4_kap1000 ex4_kapwp ex4_ceil
        del: fquot.simps fmul.simps)

lemma ex4_result:
  "calculate_solar_economics B (PyFloat (Fl 1500)) (PyFloat (Fl (1 / 16))) (PyFloat (Fl 1500)) (PyFloat (Fl 100)) =
     [(''status'', PyStr ''success''),
      (''TDL_Used'', PyFloat (Fl 1500)),
      (''PVOut_Annual'', PyFloat (Fl 1500)),
      (''PVOUT_Bulanan_Efektif'', PyFloat (Fl (425 / 4))),
      (''Kebutuhan_kWh_Bulanan'', PyFloat (Fl 0)),
      (''Kapasitas_kWp'', PyFloat (Fl 0)),
      (''Produksi_kWh_Bulanan'', PyFloat (Fl 0)),
      (''Total_Investasi'', PyFloat (Fl 5)),
      (''Penghematan_Tahunan_Rp'', PyFloat (Fl 1)),
      (''BEP_Tahun'', PyFloat (Fl (13 / 2))),
      (''Jumlah_Panel'', PyInt 1),
      (''Estimasi_Area_m2'', PyFloat (Fl (3051188747543511 / 1125899906842624))),
      (''LOSS_FACTOR'', PyFloat LOSS_FACTOR)]"
  using calculate_Normal[OF ex4_locals, of B]
  by (simp add: fne_def feq_def ex4_r_tdl ex4_r_pvout ex4_r_effective ex4_r_kebutuhan ex4_r_kapasitas ex4_r_produksi ex4_r_investasi ex4_r_penghematan ex4_r_area ex4_r_bep
        del: One_nat_def)

text \<open>A negative yield with a bill of 500.\<close>

lemma ex5_kebutuhan: "fquot (Fl 500) (Fl 1500) = Fl (6004799503160661 / 18014398509481984)"
  by (rule fquot_eval, rule fl_near[where e = "-2" and m = "6004799503160661"]) simp_all

lemma ex5_desimal: "fquot (Fl 100) (Fl 100) = Fl 1"
  by (rule fquot_eval, rule fl_near[where e = "0" and m = "4503599627370496"]) simp_all

lemma ex5_target: "fmul (Fl (6004799503160661 / 18014398509481984)) (Fl 1) = Fl (6004799503160661 / 18014398509481984)"
  by (rule fmul_eval, rule fl_near[where e = "-2" and m = "6004799503160661"]) simp_all

lemma ex5_monthly: "fquot (Fl (- 1500)) (Fl 12) = Fl (- 125)"
  by (rule fquot_eval, rule fl_near[where e = "6" and m = "-8796093022208000"]) simp_all

lemma ex5_effective: "fmul (Fl (- 125)) (Fl (7656119366529843 / 9007199254740992)) = Fl (- (425 / 4))"
  by (rule fmul_eval, rule fl_near[where e = "6" and m = "-7476679068876800"]) simp_all

lemma ex5_kapasitas: "fquot (Fl (6004799503160661 / 18014398509481984)) (Fl (- (425 / 4))) = Fl (- (7234017283807667 / 2305843009213693952))"
  by (rule fquot_eval, rule fl_near[where e = "-9" and m = "-7234017283807667"]) simp_all

lemma ex5_investasi: "fmul (Fl (- (7234017283807667 / 2305843009213693952))) (Fl 12390000) = Fl (- (5342332967899859 / 137438953472))"
  by (rule fmul_eval, rule fl_near[where e = "15" and m = "-5342332967899859"]) simp_all

lemma ex5_target12: "fmul (Fl (6004799503160661 / 18014398509481984)) (Fl 12) = Fl 4"
  by (rule fmul_eval, rule fl_tie[where e = "1" and f = "9007199254740991"]) simp_all

lemma ex5_penghematan: "fmul (Fl 4) (Fl 1500) = Fl 6000"
  by (rule fmul_eval, rule fl_near[where e = "12" and m = "6597069766656000"]) simp_all

lemma ex5_bep: "fquot (Fl (- (5342332967899859 / 137438953472))) (Fl 6000) = Fl (- (3647032639419637 / 562949953421312))"
  by (rule fquot_eval, rule fl_near[where e = "2" and m = "-7294065278839274"]) simp_all

lemma ex5_area: "fmul (Fl 0) (Fl (3051188747543511 / 1125899906842624)) = Fl 0"
  by (rule fmul_eval, simp add: fl_zero)

lemma ex5_r_tdl: "py_round (Fl 1500) 2 = Fl 1500"
  by (rule py_round_eval[where m = "150000"], rule rhe_near, simp, rule fl_near[where e = "10" and m = "6597069766656000"]) simp_all

lemma ex5_r_pvout: "py_round (Fl (- 1500)) 1 = Fl (- 1500)"
  by (rule py_round_eval[where m = "-15000"], rule rhe_near, simp, rule fl_near[where e = "10" and m = "-6597069766656000"]) simp_all

lemma ex5_r_effective: "py_round (Fl (- (425 / 4))) 4 = Fl (- (425 / 4))"
  by (rule py_round_eval[where m = "-1062500"], rule rhe_near, simp, rule fl_near[where e = "6" and m = "-7476679068876800"]) simp_all

lemma ex5_r_kebutuhan: "py_round (Fl (6004799503160661 / 18014398509481984)) 2 = Fl (5944751508129055 / 18014398509481984)"
  by (rule py_round_eval[where m = "33"], rule rhe_near, simp, rule fl_near[where e = "-2" and m = "5944751508129055"]) simp_all

lemma ex5_r_kapasitas: "py_round (Fl (- (7234017283807667 / 2305843009213693952))) 2 = Fl 0"
  by (rule py_round_eval[where m = "0"], rule rhe_near, simp, simp add: fl_zero)

lemma ex5_r_produksi: "py_round (Fl (6004799503160661 / 18014398509481984)) 4 = Fl (6004199023210345 / 18014398509481984)"
  by (rule py_round_eval[where m = "3333"], rule rhe_near, simp, rule fl_near[where e = "-2" and m = "6004199023210345"]) simp_all

lemma ex5_r_investasi: "py_round (Fl (- (5342332967899859 / 137438953472))) 0 = Fl (- 38871)"
  by (rule py_round_eval[where m = "-38871"], rule rhe_near, simp, rule fl_near[where e = "15" and m = "-5342389560410112"]) simp_all

lemma ex5_r_penghematan: "py_round (Fl 6000) 0 = Fl 6000"
  by (rule py_round_eval[where m = "6000"], rule rhe_near, simp, rule fl_near[where e = "12" and m = "6597069766656000"]) simp_all

lemma ex5_r_bep: "py_round (Fl (- (3647032639419637 / 562949953421312))) 1 = Fl (- (13 / 2))"
  by (rule py_round_eval[where m = "-65"], rule rhe_near, simp, rule fl_near[where e = "2" and m = "-7318349394477056"]) simp_all

lemma ex5_r_area: "py_round (Fl 0) 2 = Fl 0"
  by (rule py_round_eval[where m = "0"], rule rhe_near, simp, simp add: fl_zero)

lemma ex5_locals:
  "compute_locals B (PyFloat (Fl (- 1500))) (PyFloat (Fl 500)) (PyFloat (Fl 1500)) (PyFloat (Fl 100)) =
     Normal \<lparr>tdl = Fl 1500, kebutuhan_energi_bulanan = Fl (6004799503160661 / 18014398509481984), penghematan_desimal = Fl 1,
       target_produksi_bulanan = Fl (6004799503160661 / 18014398509481984), pvout_monthly_effective = Fl (- (425 / 4)),
       kapasitas_kwp = Fl (- (7234017283807667 / 2305843009213693952)), total_investasi = Fl (- (5342332967899859 / 137438953472)),
       penghematan_tahunan_uang = Fl 6000, bep_tahun = Fl (- (3647032639419637 / 562949953421312)),
       jumlah_panel = 0, estimasi_area = Fl 0,
       produksi_kwh_bulanan = Fl (6004799503160661 / 18014398509481984)\<rparr>"
  by (simp add: compute_locals_def resolve_tdl_def fdiv_def feq_def fgt_def fne_def Let_def
        LOSS_FACTOR_value PANEL_AREA_SQM_value DEFAULT_TARIFF_value int_to_float_COST
        int_to_float_WATT
        int_to_float_small ex5_kebutuhan ex5_desimal ex5_target ex5_monthly ex5_effective ex5_kapasitas ex5_investasi ex5_target12 ex5_penghematan ex5_area ex5_bep
        del: fquot.simps fmul.simps)

lemma ex5_result:
  "calculate_solar_economics B (PyFloat (Fl (- 1500))) (PyFloat (Fl 500)) (PyFloat (Fl 1500)) (PyFloat (Fl 100)) =
     [(''status'', PyStr ''success''),
      (''TDL_Used'', PyFloat (Fl 1500)),
      (''PVOut_Annual'', PyFloat (Fl (- 1500))),
      (''PVOUT_Bulanan_Efektif'', PyFloat (Fl (- (425 / 4)))),
      (''Kebutuhan_kWh_Bulanan'', PyFloat (Fl (5944751508129055 / 18014398509481984))),
      (''Kapasitas_kWp'', PyFloat (Fl 0)),
      (''Produksi_kWh_Bulanan'', PyFloat (Fl (6004199023210345 / 18014398509481984))),
      (''Total_Investasi'', PyFloat (Fl (- 38871))),
      (''Penghematan_Tahunan_Rp'', PyFloat (Fl 6000)),
      (''BEP_Tahun'', PyFloat (Fl (- (13 / 2)))),
      (''Jumlah_Panel'', PyInt 0),
      (''Estimasi_Area_m2'', PyFloat (Fl 0)),
      (''LOSS_FACTOR'', PyFloat LOSS_FACTOR)]"
  using calculate_Normal[OF ex5_locals, of B]
  by (simp add: fne_def feq_def ex5_r_tdl ex5_r_pvout ex5_r_effective ex5_r_kebutuhan ex5_r_kapasitas ex5_r_produksi ex5_r_investasi ex5_r_penghematan ex5_r_area ex5_r_bep
        del: One_nat_def)

text \<open>A bill of 207251.25, for which the capacity is a little over 1.3 kWp.\<close>

lemma ex6_kebutuhan: "fquot (Fl (829005 / 4)) (Fl 1500) = Fl (4861336730583695 / 35184372088832)"
  by (rule fquot_eval, rule fl_near[where e = "7" and m = "4861336730583695"]) simp_all

lemma ex6_desimal: "fquot (Fl 100) (Fl 100) = Fl 1"
  by (rule fquot_eval, rule fl_near[where e = "0" and m = "4503599627370496"]) simp_all

lemma ex6_target: "fmul (Fl (4861336730583695 / 35184372088832)) (Fl 1) = Fl (4861336730583695 / 35184372088832)"
  by (rule fmul_eval, rule fl_near[where e = "7" and m = "4861336730583695"]) simp_all

lemma ex6_monthly: "fquot (Fl 1500) (Fl 12) = Fl 125"
  by (rule fquot_eval, rule fl_near[where e = "6" and m = "8796093022208000"]) simp_all

lemma ex6_effective: "fmul (Fl 125) (Fl (7656119366529843 / 9007199254740992)) = Fl (425 / 4)"
  by (rule fmul_eval, rule fl_near[where e = "6" and m = "7476679068876800"]) simp_all

lemma ex6_kapasitas: "fquot (Fl (4861336730583695 / 35184372088832)) (Fl (425 / 4)) = Fl (5856480955432593 / 4503599627370496)"
  by (rule fquot_eval, rule fl_near[where e = "0" and m = "5856480955432593"]) simp_all

lemma ex6_investasi: "fmul (Fl (5856480955432593 / 4503599627370496)) (Fl 12390000) = Fl 16111956"
  by (rule fmul_eval, rule fl_near[where e = "23" and m = "8650040511823872"]) simp_all

lemma ex6_target12: "fmul (Fl (4861336730583695 / 35184372088832)) (Fl 12) = Fl (3646002547937771 / 2199023255552)"
  by (rule fmul_eval, rule fl_tie[where e = "10" and f = "7292005095875542"]) simp_all

lemma ex6_penghematan: "fmul (Fl (3646002547937771 / 2199023255552)) (Fl 1500) = Fl (5340824044830719 / 2147483648)"
  by (rule fmul_eval, rule fl_near[where e = "21" and m = "5340824044830719"]) simp_all

lemma ex6_bep: "fquot (Fl 16111956) (Fl (5340824044830719 / 2147483648)) = Fl (7294065278839275 / 1125899906842624)"
  by (rule fquot_eval, rule fl_near[where e = "2" and m = "7294065278839275"]) simp_all

lemma ex6_kap1000: "fmul (Fl (5856480955432593 / 4503599627370496)) (Fl 1000) = Fl (2859609841519821 / 2199023255552)"
  by (rule fmul_eval, rule fl_near[where e = "10" and m = "5719219683039642"]) simp_all

lemma ex6_kapwp: "fquot (Fl (2859609841519821 / 2199023255552)) (Fl 650) = Fl (1126246337583191 / 562949953421312)"
  by (rule fquot_eval, rule fl_near[where e = "1" and m = "4504985350332764"]) simp_all

lemma ex6_ceil: "\<lceil>(1126246337583191 / 562949953421312) :: rat\<rceil> = 3"
  by (rule ceiling_unique) simp_all

lemma ex6_area: "fmul (Fl 3) (Fl (3051188747543511 / 1125899906842624)) = Fl (2288391560657633 / 281474976710656)"
  by (rule fmul_eval, rule fl_tie[where e = "3" and f = "4576783121315266"]) simp_all

lemma ex6_r_tdl: "py_round (Fl 1500) 2 = Fl 1500"
  by (rule py_round_eval[where m = "150000"], rule rhe_near, simp, rule fl_near[where e = "10" and m = "6597069766656000"]) simp_all

lemma ex6_r_pvout: "py_round (Fl 1500) 1 = Fl 1500"
  by (rule py_round_eval[where m = "15000"], rule rhe_near, simp, rule fl_near[where e = "10" and m = "6597069766656000"]) simp_all

lemma ex6_r_effective: "py_round (Fl (425 / 4)) 4 = Fl (425 / 4)"
  by (rule py_round_eval[where m = "1062500"], rule rhe_near, simp, rule fl_near[where e = "6" and m = "7476679068876800"]) simp_all

lemma ex6_r_kebutuhan: "py_round (Fl (4861336730583695 / 35184372088832)) 2 = Fl (4861424691513917 / 35184372088832)"
  by (rule py_round_eval[where m = "13817"], rule rhe_near, simp, rule fl_near[where e = "7" and m = "4861424691513917"]) simp_all

lemma ex6_r_kapasitas: "py_round (Fl (5856480955432593 / 4503599627370496)) 2 = Fl (5854679515581645 / 4503599627370496)"
  by (rule py_round_eval[where m = "130"], rule rhe_near, simp, rule fl_near[where e = "0" and m = "5854679515581645"]) simp_all

lemma ex6_r_produksi: "py_round (Fl (4861336730583695 / 35184372088832)) 4 = Fl (4861336730583695 / 35184372088832)"
  by (rule py_round_eval[where m = "1381675"], rule rhe_near, simp, rule fl_near[where e = "7" and m = "4861336730583695"]) simp_all

lemma ex6_r_investasi: "py_round (Fl 16111956) 0 = Fl 16111956"
  by (rule py_round_eval[where m = "16111956"], rule rhe_near, simp, rule fl_near[where e = "23" and m = "8650040511823872"]) simp_all

lemma ex6_r_penghematan: "py_round (Fl (5340824044830719 / 2147483648)) 0 = Fl 2487015"
  by (rule py_round_eval[where m = "2487015"], rule rhe_near, simp, rule fl_near[where e = "21" and m = "5340824044830720"]) simp_all

lemma ex6_r_bep: "py_round (Fl (7294065278839275 / 1125899906842624)) 1 = Fl (13 / 2)"
  by (rule py_round_eval[where m = "65"], rule rhe_near, simp, rule fl_near[where e = "2" and m = "7318349394477056"]) simp_all

lemma ex6_r_area: "py_round (Fl (2288391560657633 / 281474976710656)) 2 = Fl (4576783121315267 / 562949953421312)"
  by (rule py_round_eval[where m = "813"], rule rhe_near, simp, rule fl_near[where e = "3" and m = "4576783121315267"]) simp_all

lemma ex6_locals:
  "compute_locals B (PyFloat (Fl 1500)) (PyFloat (Fl (829005 / 4))) (PyFloat (Fl 1500)) (PyFloat (Fl 100)) =
     Normal \<lparr>tdl = Fl 1500, kebutuhan_energi_bulanan = Fl (4861336730583695 / 35184372088832), penghematan_desimal = Fl 1,
       target_produksi_bulanan = Fl (4861336730583695 / 35184372088832), pvout_monthly_effective = Fl (425 / 4),
       kapasitas_kwp = Fl (5856480955432593 / 4503599627370496), total_investasi = Fl 16111956,
       penghematan_tahunan_uang = Fl (5340824044830719 / 2147483648), bep_tahun = Fl (7294065278839275 / 1125899906842624),
       jumlah_panel = 3, estimasi_area = Fl (2288391560657633 / 281474976710656),
       produksi_kwh_bulanan = Fl (4861336730583695 / 35184372088832)\<rparr>"
  by (simp add: compute_locals_def resolve_tdl_def fdiv_def feq_def fgt_def fne_def Let_def
        LOSS_FACTOR_value PANEL_AREA_SQM_value DEFAULT_TARIFF_value int_to_float_COST
        int_to_float_WATT
        int_to_float_small ex6_kebutuhan ex6_desimal ex6_target ex6_monthly ex6_effective ex6_kapasitas ex6_investasi ex6_target12 ex6_penghematan ex6_area ex6_bep ex6_kap1000 ex6_kapwp ex6_ceil
        del: fquot.simps fmul.simps)

lemma ex6_result:
  "calculate_solar_economics B (PyFloat (Fl 1500)) (PyFloat (Fl (829005 / 4))) (PyFloat (Fl 1500)) (PyFloat (Fl 100)) =
     [(''status'', PyStr ''success''),
      (''TDL_Used'', PyFloat (Fl 1500)),
      (''PVOut_Annual'', PyFloat (Fl 1500)),
      (''PVOUT_Bulanan_Efektif'', PyFloat (Fl (425 / 4))),
      (''Kebutuhan_kWh_Bulanan'', PyFloat (Fl (4861424691513917 / 35184372088832))),
      (''Kapasitas_kWp'', PyFloat (Fl (5854679515581645 / 4503599627370496))),
      (''Produksi_kWh_Bulanan'', PyFloat (Fl (4861336730583695 / 35184372088832))),
      (''Total_Investasi'', PyFloat (Fl 16111956)),
      (''Penghematan_Tahunan_Rp'', PyFloat (Fl 2487015)),
      (''BEP_Tahun'', PyFloat (Fl (13 / 2))),
      (''Jumlah_Panel'', PyInt 3),
      (''Estimasi_Area_m2'', PyFloat (Fl (4576783121315267 / 562949953421312))),
      (''LOSS_FACTOR'', PyFloat LOSS_FACTOR)]"
  using calculate_Normal[OF ex6_locals, of B]
  by (simp add: fne_def feq_def ex6_r_tdl ex6_r_pvout ex6_r_effective ex6_r_kebutuhan ex6_r_kapasitas ex6_r_produksi ex6_r_investasi ex6_r_penghematan ex6_r_area ex6_r_bep
        del: One_nat_def)

text \<open>The example of the specification with the yield negated.\<close>

lemma ex7_kebutuhan: "fquot (Fl 1000000) (Fl 1500) = Fl (5864062014805333 / 8796093022208)"
  by (rule fquot_eval, rule fl_near[where e = "9" and m = "5864062014805333"]) simp_all

lemma ex7_desimal: "fquot (Fl 100) (Fl 100) = Fl 1"
  by (rule fquot_eval, rule fl_near[where e = "0" and m = "4503599627370496"]) simp_all

lemma ex7_target: "fmul (Fl (5864062014805333 / 8796093022208)) (Fl 1) = Fl (5864062014805333 / 8796093022208)"
  by (rule fmul_eval, rule fl_near[where e = "9" and m = "5864062014805333"]) simp_all

lemma ex7_monthly: "fquot (Fl (- 1500)) (Fl 12) = Fl (- 125)"
  by (rule fquot_eval, rule fl_near[where e = "6" and m = "-8796093022208000"]) simp_all

lemma ex7_effective: "fmul (Fl (- 125)) (Fl (7656119366529843 / 9007199254740992)) = Fl (- (425 / 4))"
  by (rule fmul_eval, rule fl_near[where e = "6" and m = "-7476679068876800"]) simp_all

lemma ex7_kapasitas: "fquot (Fl (5864062014805333 / 8796093022208)) (Fl (- (425 / 4))) = Fl (- (7064470003718425 / 1125899906842624))"
  by (rule fquot_eval, rule fl_near[where e = "2" and m = "-7064470003718425"]) simp_all

lemma ex7_investasi: "fmul (Fl (- (7064470003718425 / 1125899906842624))) (Fl 12390000) = Fl (- (2608561019482353 / 33554432))"
  by (rule fmul_eval, rule fl_near[where e = "26" and m = "-5217122038964706"]) simp_all

lemma ex7_target12: "fmul (Fl (5864062014805333 / 8796093022208)) (Fl 12) = Fl 8000"
  by (rule fmul_eval, rule fl_tie[where e = "12" and f = "8796093022207999"]) simp_all

lemma ex7_penghematan: "fmul (Fl 8000) (Fl 1500) = Fl 12000000"
  by (rule fmul_eval, rule fl_near[where e = "23" and m = "6442450944000000"]) simp_all

lemma ex7_bep: "fquot (Fl (- (2608561019482353 / 33554432))) (Fl 12000000) = Fl (- (3647032639419637 / 562949953421312))"
  by (rule fquot_eval, rule fl_near[where e = "2" and m = "-7294065278839274"]) simp_all

lemma ex7_area: "fmul (Fl 0) (Fl (3051188747543511 / 1125899906842624)) = Fl 0"
  by (rule fmul_eval, simp add: fl_zero)

lemma ex7_r_tdl: "py_round (Fl 1500) 2 = Fl 1500"
  by (rule py_round_eval[where m = "150000"], rule rhe_near, simp, rule fl_near[where e = "10" and m = "6597069766656000"]) simp_all

lemma ex7_r_pvout: "py_round (Fl (- 1500)) 1 = Fl (- 1500)"
  by (rule py_round_eval[where m = "-15000"], rule rhe_near, simp, rule fl_near[where e = "10" and m = "-6597069766656000"]) simp_all

lemma ex7_r_effective: "py_round (Fl (- (425 / 4))) 4 = Fl (- (425 / 4))"
  by (rule py_round_eval[where m = "-1062500"], rule rhe_near, simp, rule fl_near[where e = "6" and m = "-7476679068876800"]) simp_all

lemma ex7_r_kebutuhan: "py_round (Fl (5864062014805333 / 8796093022208)) 2 = Fl (5864091335115407 / 8796093022208)"
  by (rule py_round_eval[where m = "66667"], rule rhe_near, simp, rule fl_near[where e = "9" and m = "5864091335115407"]) simp_all

lemma ex7_r_kapasitas: "py_round (Fl (- (7064470003718425 / 1125899906842624))) 2 = Fl (- (1764848103975813 / 281474976710656))"
  by (rule py_round_eval[where m = "-627"], rule rhe_near, simp, rule fl_near[where e = "2" and m = "-7059392415903252"]) simp_all

lemma ex7_r_produksi: "py_round (Fl (5864062014805333 / 8796093022208)) 4 = Fl (2932031154004217 / 4398046511104)"
  by (rule py_round_eval[where m = "6666667"], rule rhe_near, simp, rule fl_near[where e = "9" and m = "5864062308008434"]) simp_all

lemma ex7_r_investasi: "py_round (Fl (- (2608561019482353 / 33554432))) 0 = Fl (- 77741176)"
  by (rule py_round_eval[where m = "-77741176"], rule rhe_near, simp, rule fl_near[where e = "26" and m = "-5217122007384064"]) simp_all

lemma ex7_r_penghematan: "py_round (Fl 12000000) 0 = Fl 12000000"
  by (rule py_round_eval[where m = "12000000"], rule rhe_near, simp, rule fl_near[where e = "23" and m = "6442450944000000"]) simp_all

lemma ex7_r_bep: "py_round (Fl (- (3647032639419637 / 562949953421312))) 1 = Fl (- (13 / 2))"
  by (rule py_round_eval[where m = "-65"], rule rhe_near, simp, rule fl_near[where e = "2" and m = "-7318349394477056"]) simp_all

lemma ex7_r_area: "py_round (Fl 0) 2 = Fl 0"
  by (rule py_round_eval[where m = "0"], rule rhe_near, simp, simp add: fl_zero)

lemma ex7_locals:
  "compute_locals B (PyFloat (Fl (- 1500))) (PyFloat (Fl 1000000)) (PyFloat (Fl 1500)) (PyFloat (Fl 100)) =
     Normal \<lparr>tdl = Fl 1500, kebutuhan_energi_bulanan = Fl (5864062014805333 / 8796093022208), penghematan_desimal = Fl 1,
       target_produksi_bulanan = Fl (5864062014805333 / 8796093022208), pvout_monthly_effective = Fl (- (425 / 4)),
       kapasitas_kwp = Fl (- (7064470003718425 / 1125899906842624)), total_investasi = Fl (- (2608561019482353 / 33554432)),
       penghematan_tahunan_uang = Fl 12000000, bep_tahun = Fl (- (3647032639419637 / 562949953421312)),
       jumlah_panel = 0, estimasi_area = Fl 0,
       produksi_kwh_bulanan = Fl (5864062014805333 / 8796093022208)\<rparr>"
  by (simp add: compute_locals_def resolve_tdl_def fdiv_def feq_def fgt_def fne_def Let_def
        LOSS_FACTOR_value PANEL_AREA_SQM_value DEFAULT_TARIFF_value int_to_float_COST
        int_to_float_WATT
        int_to_float_small ex7_kebutuhan ex7_desimal ex7_target ex7_monthly ex7_effective ex7_kapasitas ex7_investasi ex7_target12 ex7_penghematan ex7_area ex7_bep
        del: fquot.simps fmul.simps)

lemma ex7_result:
  "calculate_solar_economics B (PyFloat (Fl (- 1500))) (PyFloat (Fl 1000000)) (PyFloat (Fl 1500)) (PyFloat (Fl 100)) =
     [(''status'', PyStr ''success''),
      (''TDL_Used'', PyFloat (Fl 1500)),
      (''PVOut_Annual'', PyFloat (Fl (- 1500))),
      (''PVOUT_Bulanan_Efektif'', PyFloat (Fl (- (425 / 4)))),
      (''Kebutuhan_kWh_Bulanan'', PyFloat (Fl (5864091335115407 / 8796093022208))),
      (''Kapasitas_kWp'', PyFloat (Fl (- (1764848103975813 / 281474976710656)))),
      (''Produksi_kWh_Bulanan'', PyFloat (Fl (2932031154004217 / 4398046511104))),
      (''Total_Investasi'', PyFloat (Fl (- 77741176))),
      (''Penghematan_Tahunan_Rp'', PyFloat (Fl 12000000)),
      (''BEP_Tahun'', PyFloat (Fl (- (13 / 2)))),
      (''Jumlah_Panel'', PyInt 0),
      (''Estimasi_Area_m2'', PyFloat (Fl 0)),
      (''LOSS_FACTOR'', PyFloat LOSS_FACTOR)]"
  using calculate_Normal[OF ex7_locals, of B]
  by (simp add: fne_def feq_def ex7_r_tdl ex7_r_pvout ex7_r_effective ex7_r_kebutuhan ex7_r_kapasitas ex7_r_produksi ex7_r_investasi ex7_r_penghematan ex7_r_area ex7_r_bep
        del: One_nat_def)

text \<open>The negative yield nearest to zero.\<close>

lemma ex8_monthly: "fquot (Fl (- min_subnormal)) (Fl 12) = Fl 0"
  by (rule fquot_eval, rule fl_tiny, simp add: min_subnormal_def)

lemma ex8_effective: "fmul (Fl 0) (Fl (7656119366529843 / 9007199254740992)) = Fl 0"
  by (rule fmul_eval, simp add: fl_zero)

lemma ex8_result:
  "calculate_solar_economics B (PyFloat (Fl (- min_subnormal))) (PyFloat (Fl 1000000)) (PyFloat (Fl 1500)) (PyFloat (Fl 100)) =
     [(''error'', PyStr ''PVOut tahunan tidak valid (0) atau LOSS_FACTOR=0.'')]"
  by (simp add: calculate_solar_economics_def compute_locals_def resolve_tdl_def fdiv_def
        feq_def fgt_def fne_def Let_def LOSS_FACTOR_value DEFAULT_TARIFF_value
        ex8_monthly ex8_effective
        del: fquot.simps fmul.simps)

section \<open>The claims\<close>

subsection \<open>Auxiliary facts\<close>

lemma zero_yield: "fmul (fquot (Fl 0) (Fl 12)) LOSS_FACTOR = Fl 0"
  by (simp add: LOSS_FACTOR_value fl_zero)



lemma subscript_json_path:
  "subscript v k =
     (case json_path v [k] of
        None \<Rightarrow> Raised (case v of PyDict kvs \<Rightarrow> KeyError k | _ \<Rightarrow> TypeError v)
      | Some w \<Rightarrow> Normal w)"
  by (cases v) (auto split: option.splits)

lemma json_path_Cons2:
  "json_path v (k # k' # ks) = (case json_path v [k] of None \<Rightarrow> None | Some w \<Rightarrow> json_path w (k' # ks))"
  by (cases v) (auto split: option.splits)

lemma extract_E_y_json_path:
  "extract_E_y data =
     (case json_path data [''outputs'', ''totals'', ''fixed'', ''E_y''] of
        None \<Rightarrow> Returned [(''error'', PyStr ''PVGIS response missing E_y value.'')]
      | Some v \<Rightarrow> Normal v)"
  unfolding extract_E_y_def json_path_Cons2 subscript_json_path
  by (simp split: option.splits)

lemma py_round_finite:
  assumes k: "in_range a b (Fl k)" and b: "0 \<le> b" "b < 1023"
  shows "\<exists>c. py_round (Fl k) 2 = Fl c \<and> 0 \<le> c"
proof -
  from in_rangeD[OF k] have kp: "0 < k" "k \<le> 2 powi b" by auto
  define m where "m = rhe (k * 100)"
  have pr: "py_round (Fl k) 2 = fl (of_int m / 100)" by (simp add: py_round_def m_def)
  have m0: "0 \<le> m" unfolding m_def using kp by (intro rhe_nonneg) simp
  show ?thesis
  proof (cases "m = 0")
    case True
    then show ?thesis by (simp add: pr fl_zero)
  next
    case False
    with m0 have "1 \<le> m" by simp
    then have "(of_int 1 :: rat) \<le> of_int m" unfolding of_int_le_iff .
    then have "(1::rat) / 100 \<le> of_int m / 100" by simp
    then have lo: "2 powi (- 7) \<le> (of_int m :: rat) / 100" by simp
    have "(of_int m :: rat) \<le> k * 100 + 1 / 2"
      using rhe_bounds[of "k * 100"] unfolding m_def by linarith
    then have "(of_int m :: rat) / 100 \<le> k + 1" by simp
    also have "\<dots> \<le> 2 powi b + 2 powi b"
    proof -
      have "(1::rat) \<le> 2 powi b" using b(1) by (intro one_le_power_int) auto
      with kp(2) show ?thesis by linarith
    qed
    also have "\<dots> = 2 powi (b + 1)" by (simp add: power_int_add)
    finally have hi: "(of_int m :: rat) / 100 \<le> 2 powi (b + 1)" .
    from fl_range[OF _ _ lo hi] b(2) have "in_range (- 7) (b + 1) (fl (of_int m / 100))" by simp
    from in_rangeD[OF this] show ?thesis unfolding pr by auto
  qed
qed

lemma calculate_success_locals:
  assumes "dict_get (calculate_solar_economics B pvout_annual tagihan_listrik tarif_listrik penghematan_persen)
      ''status'' = Some (PyStr ''success'')"
  obtains L where
    "compute_locals B pvout_annual tagihan_listrik tarif_listrik penghematan_persen = Normal L"
  using assms calculate_success_iff by blast

lemma fl_five: "fl 5 = Fl 5"
  using fl_int_exact[of 5] by simp

lemma fl_small_ints: "fl 1300 = Fl 1300" "fl 2 = Fl 2"
  using fl_int_exact[of 1300] fl_int_exact[of 2] by simp_all

lemma fquot_nn_pos: "\<not> flt x (Fl 0) \<Longrightarrow> fgt y (Fl 0) \<Longrightarrow> \<not> flt (fquot x y) (Fl 0)"
  by (cases x; cases y) (auto simp: fgt_def not_less intro!: fl_nonneg)

lemma jumlah_panel_nonneg:
  assumes "compute_locals B pvout_annual tagihan_listrik tarif_listrik penghematan_persen = Normal L"
  shows "0 \<le> jumlah_panel L"
proof (cases "fgt (kapasitas_kwp L) (Fl 0)")
  case True
  with compute_locals_Normal[OF assms] obtain q where
    q: "fquot (fmul (kapasitas_kwp L) (Fl 1000)) (Fl 650) = Fl q" "jumlah_panel L = \<lceil>q\<rceil>"
    by (auto simp: math_ceil_Normal_iff)
  have "\<not> flt (fquot (fmul (kapasitas_kwp L) (Fl 1000)) (Fl 650)) (Fl 0)"
    by (intro fquot_nn_pos fmul_nn_nn fgt_not_flt[OF True]) (simp_all add: fgt_def)
  with q have "0 \<le> q" by simp
  with q show ?thesis by simp
next
  case False
  with compute_locals_Normal[OF assms] show ?thesis by auto
qed

lemma compute_locals_zero_yield:
  assumes tr: "fgt tarif (Fl 0)"
    and z: "feq (fmul (fquot pvout (Fl 12)) LOSS_FACTOR) (Fl 0)"
  shows "calculate_solar_economics B (PyFloat pvout) (PyFloat tagihan) (PyFloat tarif) (PyFloat persen) =
     [(''error'', PyStr ''PVOut tahunan tidak valid (0) atau LOSS_FACTOR=0.'')]"
proof -
  have c: "\<not> feq (Fl 100) (Fl 0)" "\<not> feq (Fl 12) (Fl 0)" by (simp_all add: feq_def)
  have "compute_locals B (PyFloat pvout) (PyFloat tagihan) (PyFloat tarif) (PyFloat persen) =
    Returned [(''error'', PyStr ''PVOut tahunan tidak valid (0) atau LOSS_FACTOR=0.'')]"
    unfolding compute_locals_def resolve_tdl_def Let_def
    using fgt_zero_props[OF tr] tr z c
    by (simp add: fdiv_def)
  then show ?thesis by (rule calculate_Returned)
qed

subsection \<open>The claims, one by one\<close>

text \<open>
  C1, as amended.  The claim speaks of every positive input; that fails at the ends of the
  float range (see the counterexample below).  For a yield, a bill and a tariff between
  \<open>2 powi - 100\<close> and \<open>2 powi 100\<close> and a savings percentage between \<open>2 powi - 100\<close> and
  \<open>2 powi 7\<close> (so in particular up to 100), the call returns the success record with
  status "success" and all twelve fields, and its \<^verbatim>\<open>Kapasitas_kWp\<close> is a finite float
  \<open>\<ge> 0\<close>.
\<close>

theorem positive_inputs_in_range_succeed:
  assumes "in_range (- 100) 100 pvout" and "in_range (- 100) 100 tagihan"
    and "in_range (- 100) 100 tarif" and "in_range (- 100) 7 persen"
  shows "keys (calculate_solar_economics B (PyFloat pvout) (PyFloat tagihan) (PyFloat tarif) (PyFloat persen)) =
      success_keys \<and>
    dict_get (calculate_solar_economics B (PyFloat pvout) (PyFloat tagihan) (PyFloat tarif) (PyFloat persen))
      ''status'' = Some (PyStr ''success'') \<and>
    (\<exists>c. dict_get (calculate_solar_economics B (PyFloat pvout) (PyFloat tagihan) (PyFloat tarif) (PyFloat persen))
      ''Kapasitas_kWp'' = Some (PyFloat (Fl c)) \<and> 0 \<le> c)"
proof -
  from compute_locals_in_range[OF assms] obtain L where
    L: "compute_locals B (PyFloat pvout) (PyFloat tagihan) (PyFloat tarif) (PyFloat persen) = Normal L"
    and kap: "in_range (- 404) 306 (kapasitas_kwp L)" by blast
  from in_rangeD[OF kap] obtain k where k: "kapasitas_kwp L = Fl k" by blast
  from py_round_finite[of "- 404" 306 k] kap k obtain c where
    c: "py_round (kapasitas_kwp L) 2 = Fl c" "0 \<le> c" by auto
  from calculate_Normal[OF L] c show ?thesis
    by (auto simp: keys_def success_keys_def dict_get_def)
qed

text \<open>The witness is the example of the specification: 6.27 kWp.\<close>

theorem positive_inputs_in_range_succeed_witness:
  "in_range (- 100) 100 (Fl 1500) \<and> in_range (- 100) 100 (Fl 1000000) \<and> in_range (- 100) 7 (Fl 100) \<and>
   keys (calculate_solar_economics bare_builtins (PyFloat (Fl 1500)) (PyFloat (Fl 1000000))
     (PyFloat (Fl 1500)) (PyFloat (Fl 100))) = success_keys \<and>
   dict_get (calculate_solar_economics bare_builtins (PyFloat (Fl 1500)) (PyFloat (Fl 1000000))
     (PyFloat (Fl 1500)) (PyFloat (Fl 100))) ''Kapasitas_kWp'' =
     Some (PyFloat (Fl (1764848103975813 / 281474976710656)))"
proof -
  have h: "in_range (- 100) 100 (Fl 1500)" "in_range (- 100) 100 (Fl 1000000)"
    "in_range (- 100) 7 (Fl 100)"
    by (simp_all add: in_range_def)
  from positive_inputs_in_range_succeed[OF h(1) h(2) h(1) h(3), of bare_builtins]
  have "keys (calculate_solar_economics bare_builtins (PyFloat (Fl 1500)) (PyFloat (Fl 1000000))
     (PyFloat (Fl 1500)) (PyFloat (Fl 100))) = success_keys" by blast
  moreover have "dict_get (calculate_solar_economics bare_builtins (PyFloat (Fl 1500)) (PyFloat (Fl 1000000))
     (PyFloat (Fl 1500)) (PyFloat (Fl 100))) ''Kapasitas_kWp'' =
     Some (PyFloat (Fl (1764848103975813 / 281474976710656)))"
    by (simp add: ex1_result dict_get_def)
  ultimately show ?thesis using h by blast
qed

text \<open>
  C1, counterexample.  All four arguments are positive and the percentage is 100, yet the
  call returns the error dictionary: for the smallest positive float \<^verbatim>\<open>5e-324\<close> the
  quotient \<^verbatim>\<open>pvout_annual / 12.0\<close> rounds to zero, and so does the effective yield.
\<close>

theorem smallest_positive_yield_fails:
  "fgt (Fl min_subnormal) (Fl 0) \<and> fgt (Fl 1000000) (Fl 0) \<and> fgt (Fl 1500) (Fl 0) \<and>
   fgt (Fl 100) (Fl 0) \<and> fle (Fl 100) (Fl 100) \<and>
   fmul (fquot (Fl min_subnormal) (Fl 12)) LOSS_FACTOR = Fl 0 \<and>
   calculate_solar_economics bare_builtins (PyFloat (Fl min_subnormal)) (PyFloat (Fl 1000000))
     (PyFloat (Fl 1500)) (PyFloat (Fl 100)) =
     [(''error'', PyStr ''PVOut tahunan tidak valid (0) atau LOSS_FACTOR=0.'')]"
proof -
  have "fgt (Fl min_subnormal) (Fl 0)" by (simp add: fgt_def min_subnormal_def)
  moreover have "fmul (fquot (Fl min_subnormal) (Fl 12)) LOSS_FACTOR = Fl 0"
    unfolding ex3_monthly LOSS_FACTOR_value by (rule ex3_effective)
  ultimately show ?thesis by (simp add: ex3_result fgt_def fle_def feq_def del: fquot.simps fmul.simps)
qed

text \<open>
  C2, as amended.  In every success result the break-even field is computed from the
  unrounded local values, not from the rounded output fields: with the annual savings
  \<^verbatim>\<open>target_produksi_bulanan * 12.0 * tdl\<close>, \<^verbatim>\<open>BEP_Tahun\<close> is the string "Inf" when the savings
  are not \<open>> 0\<close> (or the quotient is the float infinity), and otherwise
  \<^verbatim>\<open>round(total_investasi / penghematan_tahunan_uang, 1)\<close>.  The fields
  \<^verbatim>\<open>Total_Investasi\<close>, \<^verbatim>\<open>Penghematan_Tahunan_Rp\<close> and \<^verbatim>\<open>Produksi_kWh_Bulanan\<close> are roundings
  of the same local values.
\<close>

theorem bep_from_unrounded_values:
  assumes "dict_get (calculate_solar_economics B pvout_annual tagihan_listrik tarif_listrik penghematan_persen)
      ''status'' = Some (PyStr ''success'')"
  shows "\<exists>L. compute_locals B pvout_annual tagihan_listrik tarif_listrik penghematan_persen = Normal L \<and>
     penghematan_tahunan_uang L = fmul (fmul (produksi_kwh_bulanan L) (Fl 12)) (tdl L) \<and>
     dict_get (calculate_solar_economics B pvout_annual tagihan_listrik tarif_listrik penghematan_persen)
       ''BEP_Tahun'' =
       Some (if fgt (penghematan_tahunan_uang L) (Fl 0) \<and>
                fne (fquot (total_investasi L) (penghematan_tahunan_uang L)) PInf
             then PyFloat (py_round (fquot (total_investasi L) (penghematan_tahunan_uang L)) 1)
             else PyStr ''Inf'') \<and>
     dict_get (calculate_solar_economics B pvout_annual tagihan_listrik tarif_listrik penghematan_persen)
       ''Total_Investasi'' = Some (PyFloat (py_round (total_investasi L) 0)) \<and>
     dict_get (calculate_solar_economics B pvout_annual tagihan_listrik tarif_listrik penghematan_persen)
       ''Penghematan_Tahunan_Rp'' = Some (PyFloat (py_round (penghematan_tahunan_uang L) 0)) \<and>
     dict_get (calculate_solar_economics B pvout_annual tagihan_listrik tarif_listrik penghematan_persen)
       ''Produksi_kWh_Bulanan'' = Some (PyFloat (py_round (produksi_kwh_bulanan L) 4))"
proof -
  from assms obtain L where
    L: "compute_locals B pvout_annual tagihan_listrik tarif_listrik penghematan_persen = Normal L"
    by (rule calculate_success_locals)
  from compute_locals_Normal[OF L] have
    p: "penghematan_tahunan_uang L = fmul (fmul (produksi_kwh_bulanan L) (Fl 12)) (tdl L)" and
    b: "bep_tahun L = (if fgt (penghematan_tahunan_uang L) (Fl 0)
                    then fquot (total_investasi L) (penghematan_tahunan_uang L) else PInf)"
    by auto
  from calculate_Normal[OF L] show ?thesis
    using L p b by (auto simp: dict_get_def fne_def feq_def)
qed

theorem bep_from_unrounded_values_witness:
  "dict_get (calculate_solar_economics bare_builtins (PyFloat (Fl 1500)) (PyFloat (Fl 1000000))
      (PyFloat (Fl 1500)) (PyFloat (Fl 100))) ''status'' = Some (PyStr ''success'') \<and>
   (\<exists>L. compute_locals bare_builtins (PyFloat (Fl 1500)) (PyFloat (Fl 1000000))
      (PyFloat (Fl 1500)) (PyFloat (Fl 100)) = Normal L \<and>
      fgt (penghematan_tahunan_uang L) (Fl 0) \<and>
      dict_get (calculate_solar_economics bare_builtins (PyFloat (Fl 1500)) (PyFloat (Fl 1000000))
        (PyFloat (Fl 1500)) (PyFloat (Fl 100))) ''BEP_Tahun'' =
        Some (PyFloat (py_round (fquot (total_investasi L) (penghematan_tahunan_uang L)) 1))) \<and>
   dict_get (calculate_solar_economics bare_builtins (PyFloat (Fl 1500)) (PyFloat (Fl 1000000))
      (PyFloat (Fl 1500)) (PyFloat (Fl 100))) ''BEP_Tahun'' = Some (PyFloat (Fl (13 / 2)))"
proof -
  have s: "dict_get (calculate_solar_economics bare_builtins (PyFloat (Fl 1500)) (PyFloat (Fl 1000000))
      (PyFloat (Fl 1500)) (PyFloat (Fl 100))) ''status'' = Some (PyStr ''success'')"
    by (simp add: ex1_result dict_get_def)
  have v: "dict_get (calculate_solar_economics bare_builtins (PyFloat (Fl 1500)) (PyFloat (Fl 1000000))
      (PyFloat (Fl 1500)) (PyFloat (Fl 100))) ''BEP_Tahun'' = Some (PyFloat (Fl (13 / 2)))"
    by (simp add: ex1_result dict_get_def)
  from bep_from_unrounded_values[OF s] obtain L where
    L: "compute_locals bare_builtins (PyFloat (Fl 1500)) (PyFloat (Fl 1000000))
      (PyFloat (Fl 1500)) (PyFloat (Fl 100)) = Normal L" and
    b: "dict_get (calculate_solar_economics bare_builtins (PyFloat (Fl 1500)) (PyFloat (Fl 1000000))
       (PyFloat (Fl 1500)) (PyFloat (Fl 100))) ''BEP_Tahun'' =
       Some (if fgt (penghematan_tahunan_uang L) (Fl 0) \<and>
                fne (fquot (total_investasi L) (penghematan_tahunan_uang L)) PInf
             then PyFloat (py_round (fquot (total_investasi L) (penghematan_tahunan_uang L)) 1)
             else PyStr ''Inf'')"
    by blast
  from b v have "fgt (penghematan_tahunan_uang L) (Fl 0) \<and>
      dict_get (calculate_solar_economics bare_builtins (PyFloat (Fl 1500)) (PyFloat (Fl 1000000))
        (PyFloat (Fl 1500)) (PyFloat (Fl 100))) ''BEP_Tahun'' =
        Some (PyFloat (py_round (fquot (total_investasi L) (penghematan_tahunan_uang L)) 1))"
    by (auto split: if_splits)
  with s v L show ?thesis by blast
qed

text \<open>
  C2, counterexample.  For a bill of 0.0625 the field \<^verbatim>\<open>Produksi_kWh_Bulanan\<close> is 0.0, so
  \<^verbatim>\<open>Produksi_kWh_Bulanan * 12 * tariff \<le> 0\<close>, and yet \<^verbatim>\<open>BEP_Tahun\<close> is 6.5 and not "Inf";
  and the ratio of the rounded fields, \<^verbatim>\<open>round(5.0 / 1.0, 1)\<close>, is 5.0 and not 6.5.
\<close>

theorem bep_not_from_rounded_fields:
  "calculate_solar_economics bare_builtins (PyFloat (Fl 1500)) (PyFloat (Fl (1 / 16))) (PyFloat (Fl 1500))
     (PyFloat (Fl 100)) =
     [(''status'', PyStr ''success''),
      (''TDL_Used'', PyFloat (Fl 1500)),
      (''PVOut_Annual'', PyFloat (Fl 1500)),
      (''PVOUT_Bulanan_Efektif'', PyFloat (Fl (425 / 4))),
      (''Kebutuhan_kWh_Bulanan'', PyFloat (Fl 0)),
      (''Kapasitas_kWp'', PyFloat (Fl 0)),
      (''Produksi_kWh_Bulanan'', PyFloat (Fl 0)),
      (''Total_Investasi'', PyFloat (Fl 5)),
      (''Penghematan_Tahunan_Rp'', PyFloat (Fl 1)),
      (''BEP_Tahun'', PyFloat (Fl (13 / 2))),
      (''Jumlah_Panel'', PyInt 1),
      (''Estimasi_Area_m2'', PyFloat (Fl (3051188747543511 / 1125899906842624))),
      (''LOSS_FACTOR'', PyFloat LOSS_FACTOR)] \<and>
   fle (fmul (fmul (Fl 0) (Fl 12)) (Fl 1500)) (Fl 0) \<and>
   py_round (fquot (Fl 5) (Fl 1)) 1 = Fl 5"
proof -
  have "fle (fmul (fmul (Fl 0) (Fl 12)) (Fl 1500)) (Fl 0)"
    by (simp add: fl_zero fle_def feq_def)
  moreover have "py_round (fquot (Fl 5) (Fl 1)) 1 = Fl 5"
    by (simp add: fl_five py_round_def rhe_def)
  ultimately show ?thesis using ex4_result[of bare_builtins] by blast
qed

text \<open>
  C3, as amended.  In every success result \<^verbatim>\<open>Jumlah_Panel\<close> is computed from the
  unrounded capacity, not from the rounded field \<^verbatim>\<open>Kapasitas_kWp\<close>: it is the ceiling of
  \<^verbatim>\<open>kapasitas_kwp * 1000.0 / 650\<close> when the unrounded capacity is \<open>> 0\<close>, and 0 otherwise.
\<close>

theorem panels_from_unrounded_capacity:
  assumes "dict_get (calculate_solar_economics B pvout_annual tagihan_listrik tarif_listrik penghematan_persen)
      ''status'' = Some (PyStr ''success'')"
  shows "\<exists>L. compute_locals B pvout_annual tagihan_listrik tarif_listrik penghematan_persen = Normal L \<and>
     dict_get (calculate_solar_economics B pvout_annual tagihan_listrik tarif_listrik penghematan_persen)
       ''Kapasitas_kWp'' = Some (PyFloat (py_round (kapasitas_kwp L) 2)) \<and>
     dict_get (calculate_solar_economics B pvout_annual tagihan_listrik tarif_listrik penghematan_persen)
       ''Jumlah_Panel'' = Some (PyInt (jumlah_panel L)) \<and>
     (if fgt (kapasitas_kwp L) (Fl 0)
      then \<exists>q. fquot (fmul (kapasitas_kwp L) (Fl 1000)) (Fl 650) = Fl q \<and> jumlah_panel L = \<lceil>q\<rceil>
      else jumlah_panel L = 0)"
proof -
  from assms obtain L where
    L: "compute_locals B pvout_annual tagihan_listrik tarif_listrik penghematan_persen = Normal L"
    by (rule calculate_success_locals)
  from compute_locals_Normal[OF L] have
    "if fgt (kapasitas_kwp L) (Fl 0)
      then math_ceil (fquot (fmul (kapasitas_kwp L) (Fl 1000)) (Fl 650)) = Normal (jumlah_panel L)
      else jumlah_panel L = 0"
    by auto
  then have j: "if fgt (kapasitas_kwp L) (Fl 0)
      then \<exists>q. fquot (fmul (kapasitas_kwp L) (Fl 1000)) (Fl 650) = Fl q \<and> jumlah_panel L = \<lceil>q\<rceil>
      else jumlah_panel L = 0"
    by (simp add: math_ceil_Normal_iff split: if_splits)
  from calculate_Normal[OF L] have
    "dict_get (calculate_solar_economics B pvout_annual tagihan_listrik tarif_listrik penghematan_persen)
       ''Kapasitas_kWp'' = Some (PyFloat (py_round (kapasitas_kwp L) 2))"
    "dict_get (calculate_solar_economics B pvout_annual tagihan_listrik tarif_listrik penghematan_persen)
       ''Jumlah_Panel'' = Some (PyInt (jumlah_panel L))"
    by (auto simp: dict_get_def)
  with L j show ?thesis by blast
qed

theorem panels_from_unrounded_capacity_witness:
  "dict_get (calculate_solar_economics bare_builtins (PyFloat (Fl 1500)) (PyFloat (Fl (829005 / 4)))
      (PyFloat (Fl 1500)) (PyFloat (Fl 100))) ''status'' = Some (PyStr ''success'') \<and>
   (\<exists>L. compute_locals bare_builtins (PyFloat (Fl 1500)) (PyFloat (Fl (829005 / 4)))
      (PyFloat (Fl 1500)) (PyFloat (Fl 100)) = Normal L \<and>
      kapasitas_kwp L = Fl (5856480955432593 / 4503599627370496) \<and>
      fquot (fmul (kapasitas_kwp L) (Fl 1000)) (Fl 650) = Fl (1126246337583191 / 562949953421312) \<and>
      jumlah_panel L = 3)"
proof -
  have s: "dict_get (calculate_solar_economics bare_builtins (PyFloat (Fl 1500)) (PyFloat (Fl (829005 / 4)))
      (PyFloat (Fl 1500)) (PyFloat (Fl 100))) ''status'' = Some (PyStr ''success'')"
    by (simp add: ex6_result dict_get_def)
  from panels_from_unrounded_capacity[OF s] obtain L where
    L: "compute_locals bare_builtins (PyFloat (Fl 1500)) (PyFloat (Fl (829005 / 4)))
      (PyFloat (Fl 1500)) (PyFloat (Fl 100)) = Normal L"
    by blast
  from L have "kapasitas_kwp L = Fl (5856480955432593 / 4503599627370496)" "jumlah_panel L = 3"
    unfolding ex6_locals by auto
  moreover from this have
    "fquot (fmul (kapasitas_kwp L) (Fl 1000)) (Fl 650) = Fl (1126246337583191 / 562949953421312)"
    by (simp add: ex6_kap1000 ex6_kapwp del: fquot.simps fmul.simps)
  ultimately show ?thesis using s L by blast
qed

text \<open>
  C3, counterexample.  For a bill of 207251.25 the field \<^verbatim>\<open>Kapasitas_kWp\<close> is 1.3, for
  which \<^verbatim>\<open>ceil(1.3 * 1000.0 / 650)\<close> is 2, but \<^verbatim>\<open>Jumlah_Panel\<close> is 3 (the unrounded
  capacity is 1.3004).  For a bill of 0.0625 the field \<^verbatim>\<open>Kapasitas_kWp\<close> is 0.0, which is
  \<open>\<le> 0\<close>, but \<^verbatim>\<open>Jumlah_Panel\<close> is 1.
\<close>

theorem panels_not_from_rounded_capacity:
  "dict_get (calculate_solar_economics bare_builtins (PyFloat (Fl 1500)) (PyFloat (Fl (829005 / 4)))
      (PyFloat (Fl 1500)) (PyFloat (Fl 100))) ''status'' = Some (PyStr ''success'') \<and>
   dict_get (calculate_solar_economics bare_builtins (PyFloat (Fl 1500)) (PyFloat (Fl (829005 / 4)))
      (PyFloat (Fl 1500)) (PyFloat (Fl 100))) ''Kapasitas_kWp'' = Some (PyFloat (fl (13 / 10))) \<and>
   math_ceil (fquot (fmul (fl (13 / 10)) (Fl 1000)) (Fl 650)) = Normal 2 \<and>
   dict_get (calculate_solar_economics bare_builtins (PyFloat (Fl 1500)) (PyFloat (Fl (829005 / 4)))
      (PyFloat (Fl 1500)) (PyFloat (Fl 100))) ''Jumlah_Panel'' = Some (PyInt 3) \<and>
   dict_get (calculate_solar_economics bare_builtins (PyFloat (Fl 1500)) (PyFloat (Fl (1 / 16)))
      (PyFloat (Fl 1500)) (PyFloat (Fl 100))) ''Kapasitas_kWp'' = Some (PyFloat (Fl 0)) \<and>
   fle (Fl 0) (Fl 0) \<and>
   dict_get (calculate_solar_economics bare_builtins (PyFloat (Fl 1500)) (PyFloat (Fl (1 / 16)))
      (PyFloat (Fl 1500)) (PyFloat (Fl 100))) ''Jumlah_Panel'' = Some (PyInt 1)"
proof -
  have m: "rhe ((13 / 10) / 2 powi (0 - 52)) = 5854679515581645"
    by (rule rhe_near) simp
  have "fl (13 / 10) = Fl (of_int 5854679515581645 * 2 powi (0 - 52))"
    by (rule fl_normal[OF _ _ _ _ m]) simp_all
  also have "of_int 5854679515581645 * 2 powi (0 - 52) = (5854679515581645 / 4503599627370496 :: rat)"
    by simp
  finally have f: "fl (13 / 10) = Fl (5854679515581645 / 4503599627370496)" .
  have t: "rhe ((5854679515581645 / 4503599627370496 * 1000) / 2 powi (10 - 52)) = 5717460464435200"
    by (rule rhe_near) simp
  have "fl (5854679515581645 / 4503599627370496 * 1000) = Fl (of_int 5717460464435200 * 2 powi (10 - 52))"
    by (rule fl_normal[OF _ _ _ _ t]) simp_all
  also have "of_int 5717460464435200 * 2 powi (10 - 52) = (1300 :: rat)" by simp
  finally have k: "fmul (Fl (5854679515581645 / 4503599627370496)) (Fl 1000) = Fl 1300"
    by (rule fmul_eval)
  have c: "math_ceil (fquot (fmul (fl (13 / 10)) (Fl 1000)) (Fl 650)) = Normal 2"
    unfolding f k by (simp add: fl_small_ints)
  show ?thesis
    unfolding f using c[unfolded f]
    by (simp add: ex6_result ex4_result dict_get_def fle_def feq_def del: fquot.simps fmul.simps)
qed



text \<open>
  C5.  For every input, also one that \<^verbatim>\<open>float\<close> rejects, the call returns a dictionary
  and raises nothing: either the complete success record (exactly the key \<^verbatim>\<open>status\<close>
  and the twelve fields, with status "success"), or a dictionary whose only key is
  \<^verbatim>\<open>error\<close>, holding the zero-yield message or the message of the caught exception.
\<close>

theorem never_raises_complete_or_failure:
  "(\<exists>L. compute_locals B pvout_annual tagihan_listrik tarif_listrik penghematan_persen = Normal L \<and>
      keys (calculate_solar_economics B pvout_annual tagihan_listrik tarif_listrik penghematan_persen) =
        success_keys \<and>
      dict_get (calculate_solar_economics B pvout_annual tagihan_listrik tarif_listrik penghematan_persen)
        ''status'' = Some (PyStr ''success'')) \<or>
   calculate_solar_economics B pvout_annual tagihan_listrik tarif_listrik penghematan_persen =
     [(''error'', PyStr ''PVOut tahunan tidak valid (0) atau LOSS_FACTOR=0.'')] \<or>
   (\<exists>e. calculate_solar_economics B pvout_annual tagihan_listrik tarif_listrik penghematan_persen =
     [(''error'', PyStr (''Kesalahan perhitungan finansial: '' @ exn_str B e))])"
proof (cases "compute_locals B pvout_annual tagihan_listrik tarif_listrik penghematan_persen")
  case (Raised e)
  from calculate_Raised[OF Raised] show ?thesis by blast
next
  case (Returned d)
  from calculate_Returned[OF Returned] show ?thesis by blast
next
  case (Normal L)
  from calculate_Normal[OF Normal] have
    "keys (calculate_solar_economics B pvout_annual tagihan_listrik tarif_listrik penghematan_persen) =
        success_keys"
    "dict_get (calculate_solar_economics B pvout_annual tagihan_listrik tarif_listrik penghematan_persen)
        ''status'' = Some (PyStr ''success'')"
    by (auto simp: keys_def success_keys_def dict_get_def)
  with Normal show ?thesis by blast
qed

theorem never_raises_complete_or_failure_witness:
  "calculate_solar_economics bare_builtins (PyStr ''abc'') (PyFloat (Fl 1000000)) (PyFloat (Fl 1500))
     (PyFloat (Fl 100)) =
     [(''error'', PyStr (''Kesalahan perhitungan finansial: '' @ exn_str bare_builtins (ValueError (PyStr ''abc''))))] \<and>
   calculate_solar_economics bare_builtins (PyFloat (Fl 1500)) PyNone (PyFloat (Fl 1500)) (PyFloat (Fl 100)) =
     [(''error'', PyStr (''Kesalahan perhitungan finansial: '' @ exn_str bare_builtins (TypeError PyNone)))] \<and>
   keys (calculate_solar_economics bare_builtins (PyFloat (Fl 1500)) (PyFloat (Fl 1000000)) (PyFloat (Fl 1500))
     (PyFloat (Fl 100))) = success_keys"
proof -
  have 1: "calculate_solar_economics bare_builtins (PyStr ''abc'') (PyFloat (Fl 1000000)) (PyFloat (Fl 1500))
     (PyFloat (Fl 100)) =
     [(''error'', PyStr (''Kesalahan perhitungan finansial: '' @ exn_str bare_builtins (ValueError (PyStr ''abc''))))]"
    by (simp add: calculate_solar_economics_def compute_locals_def resolve_tdl_def fdiv_def
          feq_def fgt_def fne_def bare_builtins_def)
  have 2: "calculate_solar_economics bare_builtins (PyFloat (Fl 1500)) PyNone (PyFloat (Fl 1500)) (PyFloat (Fl 100)) =
     [(''error'', PyStr (''Kesalahan perhitungan finansial: '' @ exn_str bare_builtins (TypeError PyNone)))]"
    by (simp add: calculate_solar_economics_def compute_locals_def resolve_tdl_def fdiv_def
          feq_def fgt_def fne_def bare_builtins_def)
  from never_raises_complete_or_failure[where B = bare_builtins and pvout_annual = "PyFloat (Fl 1500)"
      and tagihan_listrik = "PyFloat (Fl 1000000)" and tarif_listrik = "PyFloat (Fl 1500)"
      and penghematan_persen = "PyFloat (Fl 100)"]
  have 3: "keys (calculate_solar_economics bare_builtins (PyFloat (Fl 1500)) (PyFloat (Fl 1000000))
     (PyFloat (Fl 1500)) (PyFloat (Fl 100))) = success_keys"
    by (simp add: ex1_result[of bare_builtins])
  from 1 2 3 show ?thesis by blast
qed

text \<open>
  C6.  With \<^verbatim>\<open>pvout_annual = 0\<close> (any argument that reads as the float zero) and any other
  arguments, the effective monthly yield \<^verbatim>\<open>(0 / 12) * 0.85\<close> is zero and the result is an
  error dictionary: the zero-yield message, or the message of an exception raised while
  an earlier argument was read.
\<close>

theorem zero_pvout_is_failure:
  assumes "to_float B pvout_annual = Normal (Fl 0)"
  shows "fmul (fquot (Fl 0) (Fl 12)) LOSS_FACTOR = Fl 0 \<and>
    (calculate_solar_economics B pvout_annual tagihan_listrik tarif_listrik penghematan_persen =
       [(''error'', PyStr ''PVOut tahunan tidak valid (0) atau LOSS_FACTOR=0.'')] \<or>
     (\<exists>e. calculate_solar_economics B pvout_annual tagihan_listrik tarif_listrik penghematan_persen =
       [(''error'', PyStr (''Kesalahan perhitungan finansial: '' @ exn_str B e))]))"
proof (cases "compute_locals B pvout_annual tagihan_listrik tarif_listrik penghematan_persen")
  case (Raised e)
  from calculate_Raised[OF Raised] zero_yield show ?thesis by blast
next
  case (Returned d)
  from calculate_Returned[OF Returned] zero_yield show ?thesis by blast
next
  case (Normal L)
  from compute_locals_Normal[OF Normal] assms
  have "pvout_monthly_effective L = fmul (fquot (Fl 0) (Fl 12)) LOSS_FACTOR"
    and "\<not> feq (pvout_monthly_effective L) (Fl 0)" by auto
  then have False by (simp add: feq_def fl_zero LOSS_FACTOR_value)
  then show ?thesis ..
qed

theorem zero_pvout_is_failure_witness:
  "to_float bare_builtins (PyFloat (Fl 0)) = Normal (Fl 0) \<and>
   calculate_solar_economics bare_builtins (PyFloat (Fl 0)) (PyFloat (Fl 1000000)) (PyFloat (Fl 1500))
       (PyFloat (Fl 100)) =
     [(''error'', PyStr ''PVOut tahunan tidak valid (0) atau LOSS_FACTOR=0.'')]"
proof -
  have h: "to_float bare_builtins (PyFloat (Fl 0)) = Normal (Fl 0)" by simp
  have "calculate_solar_economics bare_builtins (PyFloat (Fl 0)) (PyFloat (Fl 1000000))
      (PyFloat (Fl 1500)) (PyFloat (Fl 100)) =
     [(''error'', PyStr ''PVOut tahunan tidak valid (0) atau LOSS_FACTOR=0.'')]"
    by (simp add: calculate_solar_economics_def compute_locals_def resolve_tdl_def fdiv_def
          feq_def fgt_def fne_def LOSS_FACTOR_value fl_zero)
  with h zero_pvout_is_failure[OF h, where tagihan_listrik = "PyFloat (Fl 1000000)"
      and tarif_listrik = "PyFloat (Fl 1500)" and penghematan_persen = "PyFloat (Fl 100)"]
  show ?thesis by simp
qed

text \<open>
  C7.  When the transport fails with an exception of the HTTP library (time-out, host
  not reached, a status that is not 2xx), \<^verbatim>\<open>get_pvout_annual\<close> returns an error
  dictionary whose message contains "request error".  When the transport succeeds and
  the decoded body has no value at the path outputs, totals, fixed, E_y, it returns the
  error dictionary whose message contains "missing".  In both cases the call returns; no
  exception leaves it.
\<close>

theorem lookup_failures_are_reported:
  "(http (pvgis_url B latitude longitude loss slope azimuth) = Inl (RequestException cause) \<longrightarrow>
      get_pvout_annual B http latitude longitude loss slope azimuth =
        [(''error'', PyStr (''PVGIS request error: '' @ exn_str B (RequestException cause)))] \<and>
      sublist ''request error'' (''PVGIS request error: '' @ exn_str B (RequestException cause))) \<and>
   (http (pvgis_url B latitude longitude loss slope azimuth) = Inr data \<and>
    json_path data [''outputs'', ''totals'', ''fixed'', ''E_y''] = None \<longrightarrow>
      get_pvout_annual B http latitude longitude loss slope azimuth =
        [(''error'', PyStr ''PVGIS response missing E_y value.'')] \<and>
      sublist ''missing'' ''PVGIS response missing E_y value.'')"
proof (intro conjI impI)
  assume "http (pvgis_url B latitude longitude loss slope azimuth) = Inl (RequestException cause)"
  then show "get_pvout_annual B http latitude longitude loss slope azimuth =
        [(''error'', PyStr (''PVGIS request error: '' @ exn_str B (RequestException cause)))]"
    by (simp add: get_pvout_annual_def request_def is_request_exception_def)
  have "''PVGIS request error: '' @ exn_str B (RequestException cause) =
      ''PVGIS '' @ ''request error'' @ ('': '' @ exn_str B (RequestException cause))" by simp
  then show "sublist ''request error'' (''PVGIS request error: '' @ exn_str B (RequestException cause))"
    unfolding sublist_def by blast
next
  assume "http (pvgis_url B latitude longitude loss slope azimuth) = Inr data \<and>
    json_path data [''outputs'', ''totals'', ''fixed'', ''E_y''] = None"
  then show "get_pvout_annual B http latitude longitude loss slope azimuth =
        [(''error'', PyStr ''PVGIS response missing E_y value.'')]"
    by (simp add: get_pvout_annual_def request_def extract_E_y_json_path)
  have "''PVGIS response missing E_y value.'' = ''PVGIS response '' @ ''missing'' @ '' E_y value.''"
    by simp
  then show "sublist ''missing'' ''PVGIS response missing E_y value.''"
    unfolding sublist_def by blast
qed

theorem lookup_failures_are_reported_witness:
  "unreachable_host (pvgis_url bare_builtins (PyFloat (Fl 2)) (PyFloat (Fl 99)) (PyInt 14) (PyInt 0) (PyInt 0)) =
     Inl (RequestException ''Connection refused'') \<and>
   get_pvout_annual bare_builtins unreachable_host (PyFloat (Fl 2)) (PyFloat (Fl 99)) (PyInt 14) (PyInt 0) (PyInt 0) =
     [(''error'', PyStr ''PVGIS request error: Connection refused'')] \<and>
   sublist ''request error'' ''PVGIS request error: Connection refused'' \<and>
   json_path (PyDict [(''inputs'', PyDict []), (''outputs'', PyDict [])])
     [''outputs'', ''totals'', ''fixed'', ''E_y''] = None \<and>
   get_pvout_annual bare_builtins body_without_totals (PyFloat (Fl 2)) (PyFloat (Fl 99)) (PyInt 14) (PyInt 0)
     (PyInt 0) = [(''error'', PyStr ''PVGIS response missing E_y value.'')] \<and>
   sublist ''missing'' ''PVGIS response missing E_y value.''"
proof -
  have 1: "unreachable_host (pvgis_url bare_builtins (PyFloat (Fl 2)) (PyFloat (Fl 99)) (PyInt 14) (PyInt 0) (PyInt 0)) =
     Inl (RequestException ''Connection refused'')"
    by (simp add: unreachable_host_def)
  have 2: "body_without_totals (pvgis_url bare_builtins (PyFloat (Fl 2)) (PyFloat (Fl 99)) (PyInt 14) (PyInt 0) (PyInt 0)) =
     Inr (PyDict [(''inputs'', PyDict []), (''outputs'', PyDict [])]) \<and>
     json_path (PyDict [(''inputs'', PyDict []), (''outputs'', PyDict [])])
       [''outputs'', ''totals'', ''fixed'', ''E_y''] = None"
    by (simp add: body_without_totals_def)
  have e: "exn_str bare_builtins (RequestException ''Connection refused'') = ''Connection refused''"
    by (simp add: bare_builtins_def)
  from 1 lookup_failures_are_reported[where http = unreachable_host and B = bare_builtins
      and latitude = "PyFloat (Fl 2)" and longitude = "PyFloat (Fl 99)" and loss = "PyInt 14"
      and slope = "PyInt 0" and azimuth = "PyInt 0" and cause = "''Connection refused''"]
  have a: "get_pvout_annual bare_builtins unreachable_host (PyFloat (Fl 2)) (PyFloat (Fl 99)) (PyInt 14) (PyInt 0) (PyInt 0) =
     [(''error'', PyStr ''PVGIS request error: Connection refused'')]"
    "sublist ''request error'' ''PVGIS request error: Connection refused''"
    by (simp_all add: e)
  from 2 lookup_failures_are_reported[where http = body_without_totals and B = bare_builtins
      and latitude = "PyFloat (Fl 2)" and longitude = "PyFloat (Fl 99)" and loss = "PyInt 14"
      and slope = "PyInt 0" and azimuth = "PyInt 0"
      and data = "PyDict [(''inputs'', PyDict []), (''outputs'', PyDict [])]"]
  have b: "get_pvout_annual bare_builtins body_without_totals (PyFloat (Fl 2)) (PyFloat (Fl 99)) (PyInt 14) (PyInt 0)
     (PyInt 0) = [(''error'', PyStr ''PVGIS response missing E_y value.'')]"
    "sublist ''missing'' ''PVGIS response missing E_y value.''"
    by blast+
  from 1 2 a b show ?thesis by blast
qed

text \<open>
  C8.  In every success result \<^verbatim>\<open>Estimasi_Area_m2\<close> is \<^verbatim>\<open>Jumlah_Panel * 2.71\<close> rounded to two
  decimals, where \<^verbatim>\<open>Jumlah_Panel\<close> is the (non-negative) panel count of the same result.
  For a panel count below \<open>2 ^ 42\<close> this rounded area is exactly the float nearest to the
  decimal number \<open>Jumlah_Panel * 2.71\<close>: the rounding removes the error of the float
  product.
\<close>

theorem area_is_panels_times_panel_area:
  assumes "dict_get (calculate_solar_economics B pvout_annual tagihan_listrik tarif_listrik penghematan_persen)
      ''status'' = Some (PyStr ''success'')"
  shows "\<exists>n f.
     dict_get (calculate_solar_economics B pvout_annual tagihan_listrik tarif_listrik penghematan_persen)
       ''Jumlah_Panel'' = Some (PyInt n) \<and> 0 \<le> n \<and>
     int_to_float n = Normal f \<and>
     dict_get (calculate_solar_economics B pvout_annual tagihan_listrik tarif_listrik penghematan_persen)
       ''Estimasi_Area_m2'' = Some (PyFloat (py_round (fmul f PANEL_AREA_SQM) 2)) \<and>
     (n < 2 ^ 42 \<longrightarrow>
        dict_get (calculate_solar_economics B pvout_annual tagihan_listrik tarif_listrik penghematan_persen)
          ''Estimasi_Area_m2'' = Some (PyFloat (fl (of_int n * 271 / 100))))"
proof -
  from assms obtain L where
    L: "compute_locals B pvout_annual tagihan_listrik tarif_listrik penghematan_persen = Normal L"
    by (rule calculate_success_locals)
  from compute_locals_Normal[OF L] obtain f where
    f: "int_to_float (jumlah_panel L) = Normal f" "estimasi_area L = fmul f PANEL_AREA_SQM"
    by blast
  note nn = jumlah_panel_nonneg[OF L]
  from calculate_Normal[OF L] have d:
    "dict_get (calculate_solar_economics B pvout_annual tagihan_listrik tarif_listrik penghematan_persen)
       ''Jumlah_Panel'' = Some (PyInt (jumlah_panel L))"
    "dict_get (calculate_solar_economics B pvout_annual tagihan_listrik tarif_listrik penghematan_persen)
       ''Estimasi_Area_m2'' = Some (PyFloat (py_round (fmul f PANEL_AREA_SQM) 2))"
    by (auto simp: dict_get_def f)
  have "dict_get (calculate_solar_economics B pvout_annual tagihan_listrik tarif_listrik penghematan_persen)
          ''Estimasi_Area_m2'' = Some (PyFloat (fl (of_int (jumlah_panel L) * 271 / 100)))"
    if small: "jumlah_panel L < 2 ^ 42"
  proof -
    from nn small have "\<bar>jumlah_panel L\<bar> < 2 ^ 53" by simp
    from int_to_float_small[OF this] f have "f = Fl (of_int (jumlah_panel L))" by simp
    with d(2) area_exact[OF nn small] show ?thesis by simp
  qed
  with d f nn show ?thesis by blast
qed

theorem area_is_panels_times_panel_area_witness:
  "dict_get (calculate_solar_economics bare_builtins (PyFloat (Fl 1500)) (PyFloat (Fl (829005 / 4)))
      (PyFloat (Fl 1500)) (PyFloat (Fl 100))) ''status'' = Some (PyStr ''success'') \<and>
   dict_get (calculate_solar_economics bare_builtins (PyFloat (Fl 1500)) (PyFloat (Fl (829005 / 4)))
      (PyFloat (Fl 1500)) (PyFloat (Fl 100))) ''Jumlah_Panel'' = Some (PyInt 3) \<and>
   (3::int) < 2 ^ 42 \<and>
   dict_get (calculate_solar_economics bare_builtins (PyFloat (Fl 1500)) (PyFloat (Fl (829005 / 4)))
      (PyFloat (Fl 1500)) (PyFloat (Fl 100))) ''Estimasi_Area_m2'' =
      Some (PyFloat (fl (of_int 3 * 271 / 100))) \<and>
   fl (of_int 3 * 271 / 100) = Fl (4576783121315267 / 562949953421312)"
proof -
  have s: "dict_get (calculate_solar_economics bare_builtins (PyFloat (Fl 1500)) (PyFloat (Fl (829005 / 4)))
      (PyFloat (Fl 1500)) (PyFloat (Fl 100))) ''status'' = Some (PyStr ''success'')"
    and j: "dict_get (calculate_solar_economics bare_builtins (PyFloat (Fl 1500)) (PyFloat (Fl (829005 / 4)))
      (PyFloat (Fl 1500)) (PyFloat (Fl 100))) ''Jumlah_Panel'' = Some (PyInt 3)"
    and a: "dict_get (calculate_solar_economics bare_builtins (PyFloat (Fl 1500)) (PyFloat (Fl (829005 / 4)))
      (PyFloat (Fl 1500)) (PyFloat (Fl 100))) ''Estimasi_Area_m2'' =
      Some (PyFloat (Fl (4576783121315267 / 562949953421312)))"
    by (simp_all add: ex6_result dict_get_def)
  from area_is_panels_times_panel_area[OF s] j
  have e: "dict_get (calculate_solar_economics bare_builtins (PyFloat (Fl 1500)) (PyFloat (Fl (829005 / 4)))
      (PyFloat (Fl 1500)) (PyFloat (Fl 100))) ''Estimasi_Area_m2'' =
      Some (PyFloat (fl (of_int 3 * 271 / 100)))"
    by auto
  with a have "fl (of_int 3 * 271 / 100) = Fl (4576783121315267 / 562949953421312)" by simp
  with s j e show ?thesis by simp
qed

text \<open>
  C9.  Whatever the tariff argument, an effective tariff that is resolved is strictly
  positive (the caller's positive tariff or the default), hence not zero: the guard
  \<^verbatim>\<open>if float(tdl) != 0\<close> always takes its first branch, and the monthly energy need is
  the bill divided by the effective tariff whenever it is computed.
\<close>

theorem tariff_positive_guard_dead:
  "(resolve_tdl B tarif_listrik = Normal t \<longrightarrow>
      fgt t (Fl 0) \<and> fne t (Fl 0) \<and> (t = DEFAULT_TARIFF \<or> to_float B tarif_listrik = Normal t) \<and>
      (if fne t (Fl 0) then flow_bind (to_float B tagihan_listrik) (\<lambda>tagihan. fdiv tagihan t)
       else Normal (Fl 0)) =
      flow_bind (to_float B tagihan_listrik) (\<lambda>tagihan. Normal (fquot tagihan t))) \<and>
   (compute_locals B pvout_annual tagihan_listrik tarif_listrik penghematan_persen = Normal L \<longrightarrow>
      fgt (tdl L) (Fl 0) \<and>
      (\<exists>tagihan. to_float B tagihan_listrik = Normal tagihan \<and>
         kebutuhan_energi_bulanan L = fquot tagihan (tdl L)))"
proof (intro conjI impI)
  assume t: "resolve_tdl B tarif_listrik = Normal t"
  from resolve_tdl_cases[OF t] show pos: "fgt t (Fl 0)"
    and "t = DEFAULT_TARIFF \<or> to_float B tarif_listrik = Normal t" by auto
  from fgt_zero_fne[OF pos] show ne: "fne t (Fl 0)" .
  then show "(if fne t (Fl 0) then flow_bind (to_float B tagihan_listrik) (\<lambda>tagihan. fdiv tagihan t)
       else Normal (Fl 0)) =
      flow_bind (to_float B tagihan_listrik) (\<lambda>tagihan. Normal (fquot tagihan t))"
    by (simp add: fdiv_def fne_def)
next
  assume L: "compute_locals B pvout_annual tagihan_listrik tarif_listrik penghematan_persen = Normal L"
  from compute_locals_Normal[OF L] obtain tagihan where
    t: "resolve_tdl B tarif_listrik = Normal (tdl L)" and
    g: "to_float B tagihan_listrik = Normal tagihan"
       "kebutuhan_energi_bulanan L = fquot tagihan (tdl L)" by blast
  from resolve_tdl_cases[OF t] show "fgt (tdl L) (Fl 0)" by simp
  from g show "\<exists>tagihan. to_float B tagihan_listrik = Normal tagihan \<and>
         kebutuhan_energi_bulanan L = fquot tagihan (tdl L)" by blast
qed

theorem tariff_positive_guard_dead_witness:
  "resolve_tdl bare_builtins (PyInt 0) = Normal DEFAULT_TARIFF \<and> fgt DEFAULT_TARIFF (Fl 0) \<and>
   fne DEFAULT_TARIFF (Fl 0) \<and>
   (\<exists>L. compute_locals bare_builtins (PyFloat (Fl 1500)) (PyFloat (Fl 1000000)) (PyFloat (Fl 1500))
          (PyFloat (Fl 100)) = Normal L \<and>
        fgt (tdl L) (Fl 0) \<and> kebutuhan_energi_bulanan L = fquot (Fl 1000000) (tdl L))"
proof -
  have 1: "resolve_tdl bare_builtins (PyInt 0) = Normal DEFAULT_TARIFF" by (simp add: resolve_tdl_def)
  from 1 tariff_positive_guard_dead[where B = bare_builtins and tarif_listrik = "PyInt 0"
      and t = DEFAULT_TARIFF]
  have a: "fgt DEFAULT_TARIFF (Fl 0)" "fne DEFAULT_TARIFF (Fl 0)" by blast+
  obtain L where L: "compute_locals bare_builtins (PyFloat (Fl 1500)) (PyFloat (Fl 1000000))
      (PyFloat (Fl 1500)) (PyFloat (Fl 100)) = Normal L"
    using ex1_locals by blast
  from L tariff_positive_guard_dead[where B = bare_builtins and pvout_annual = "PyFloat (Fl 1500)"
      and tagihan_listrik = "PyFloat (Fl 1000000)" and tarif_listrik = "PyFloat (Fl 1500)"
      and penghematan_persen = "PyFloat (Fl 100)" and L = L]
  have "fgt (tdl L) (Fl 0) \<and>
    (\<exists>tagihan. to_float bare_builtins (PyFloat (Fl 1000000)) = Normal tagihan \<and>
       kebutuhan_energi_bulanan L = fquot tagihan (tdl L))"
    by blast
  then have "fgt (tdl L) (Fl 0) \<and> kebutuhan_energi_bulanan L = fquot (Fl 1000000) (tdl L)"
    by auto
  with L have "\<exists>L. compute_locals bare_builtins (PyFloat (Fl 1500)) (PyFloat (Fl 1000000)) (PyFloat (Fl 1500))
          (PyFloat (Fl 100)) = Normal L \<and>
        fgt (tdl L) (Fl 0) \<and> kebutuhan_energi_bulanan L = fquot (Fl 1000000) (tdl L)"
    by blast
  with 1 a show ?thesis by blast
qed

text \<open>
  C10, as amended.  For a strictly negative yield and a positive bill, tariff and
  percentage, the only check on the yield is the one for a zero effective monthly yield.
  When \<^verbatim>\<open>(pvout_annual / 12.0) * 0.85\<close> is zero (it underflows) the call returns the
  zero-yield error.  Otherwise it returns status "success" with \<^verbatim>\<open>Jumlah_Panel\<close> equal to 0,
  with \<^verbatim>\<open>Kapasitas_kWp\<close> the capacity rounded to 2 decimals, neither of them \<open>> 0\<close>, and with
  \<^verbatim>\<open>BEP_Tahun\<close> the break-even time rounded to 1 decimal and not \<open>> 0\<close> when the annual
  savings are \<open>> 0\<close>, and "Inf" when they are not.

  When the magnitude of the yield, the bill and the tariff lie between \<open>2 powi - 100\<close> and
  \<open>2 powi 100\<close> and the percentage between \<open>2 powi - 100\<close> and 128, nothing underflows or
  overflows: the call succeeds, the unrounded capacity and the unrounded break-even time
  are strictly negative, \<^verbatim>\<open>Jumlah_Panel\<close> is 0 and \<^verbatim>\<open>BEP_Tahun\<close> is a float.  The field
  \<^verbatim>\<open>Kapasitas_kWp\<close> is strictly negative exactly when the capacity is below \<open>- 0.005\<close>, and is
  the (negative) zero otherwise; the field \<^verbatim>\<open>BEP_Tahun\<close> is strictly negative exactly when
  the break-even time is below \<open>- 0.05\<close>, and is the zero otherwise.
\<close>

theorem negative_yield_only_zero_check:
  "(flt pvout (Fl 0) \<and> fgt tagihan (Fl 0) \<and> fgt tarif (Fl 0) \<and> fgt persen (Fl 0) \<longrightarrow>
     (if feq (fmul (fquot pvout (Fl 12)) LOSS_FACTOR) (Fl 0)
      then calculate_solar_economics B (PyFloat pvout) (PyFloat tagihan) (PyFloat tarif) (PyFloat persen) =
        [(''error'', PyStr ''PVOut tahunan tidak valid (0) atau LOSS_FACTOR=0.'')]
      else (\<exists>L. compute_locals B (PyFloat pvout) (PyFloat tagihan) (PyFloat tarif) (PyFloat persen) = Normal L \<and>
        dict_get (calculate_solar_economics B (PyFloat pvout) (PyFloat tagihan) (PyFloat tarif) (PyFloat persen))
          ''status'' = Some (PyStr ''success'') \<and>
        \<not> fgt (kapasitas_kwp L) (Fl 0) \<and>
        dict_get (calculate_solar_economics B (PyFloat pvout) (PyFloat tagihan) (PyFloat tarif) (PyFloat persen))
          ''Kapasitas_kWp'' = Some (PyFloat (py_round (kapasitas_kwp L) 2)) \<and>
        \<not> fgt (py_round (kapasitas_kwp L) 2) (Fl 0) \<and>
        dict_get (calculate_solar_economics B (PyFloat pvout) (PyFloat tagihan) (PyFloat tarif) (PyFloat persen))
          ''Jumlah_Panel'' = Some (PyInt 0) \<and>
        (if fgt (penghematan_tahunan_uang L) (Fl 0)
         then dict_get (calculate_solar_economics B (PyFloat pvout) (PyFloat tagihan) (PyFloat tarif)
                 (PyFloat persen)) ''BEP_Tahun'' = Some (PyFloat (py_round (bep_tahun L) 1)) \<and>
              \<not> fgt (bep_tahun L) (Fl 0) \<and> \<not> fgt (py_round (bep_tahun L) 1) (Fl 0)
         else dict_get (calculate_solar_economics B (PyFloat pvout) (PyFloat tagihan) (PyFloat tarif)
                 (PyFloat persen)) ''BEP_Tahun'' = Some (PyStr ''Inf''))))) \<and>
   (in_range (- 100) 100 (Fl p) \<and> in_range (- 100) 100 tagihan \<and> in_range (- 100) 100 tarif \<and>
    in_range (- 100) 7 persen \<longrightarrow>
     (\<exists>L k b c d.
        compute_locals B (PyFloat (Fl (- p))) (PyFloat tagihan) (PyFloat tarif) (PyFloat persen) = Normal L \<and>
        kapasitas_kwp L = Fl k \<and> k < 0 \<and> bep_tahun L = Fl b \<and> b < 0 \<and>
        py_round (Fl k) 2 = Fl c \<and> c \<le> 0 \<and> (c < 0 \<longleftrightarrow> k < - (1 / 200)) \<and>
        py_round (Fl b) 1 = Fl d \<and> d \<le> 0 \<and> (d < 0 \<longleftrightarrow> b < - (1 / 20)) \<and>
        dict_get (calculate_solar_economics B (PyFloat (Fl (- p))) (PyFloat tagihan) (PyFloat tarif)
          (PyFloat persen)) ''status'' = Some (PyStr ''success'') \<and>
        dict_get (calculate_solar_economics B (PyFloat (Fl (- p))) (PyFloat tagihan) (PyFloat tarif)
          (PyFloat persen)) ''Kapasitas_kWp'' = Some (PyFloat (Fl c)) \<and>
        dict_get (calculate_solar_economics B (PyFloat (Fl (- p))) (PyFloat tagihan) (PyFloat tarif)
          (PyFloat persen)) ''BEP_Tahun'' = Some (PyFloat (Fl d)) \<and>
        dict_get (calculate_solar_economics B (PyFloat (Fl (- p))) (PyFloat tagihan) (PyFloat tarif)
          (PyFloat persen)) ''Jumlah_Panel'' = Some (PyInt 0)))"
proof (intro conjI impI)
  assume h: "flt pvout (Fl 0) \<and> fgt tagihan (Fl 0) \<and> fgt tarif (Fl 0) \<and> fgt persen (Fl 0)"
  then have assms: "flt pvout (Fl 0)" "fgt tagihan (Fl 0)" "fgt tarif (Fl 0)" "fgt persen (Fl 0)"
    by simp_all
  let ?R = "calculate_solar_economics B (PyFloat pvout) (PyFloat tagihan) (PyFloat tarif) (PyFloat persen)"
  show "if feq (fmul (fquot pvout (Fl 12)) LOSS_FACTOR) (Fl 0)
      then ?R = [(''error'', PyStr ''PVOut tahunan tidak valid (0) atau LOSS_FACTOR=0.'')]
      else (\<exists>L. compute_locals B (PyFloat pvout) (PyFloat tagihan) (PyFloat tarif) (PyFloat persen) = Normal L \<and>
        dict_get ?R ''status'' = Some (PyStr ''success'') \<and>
        \<not> fgt (kapasitas_kwp L) (Fl 0) \<and>
        dict_get ?R ''Kapasitas_kWp'' = Some (PyFloat (py_round (kapasitas_kwp L) 2)) \<and>
        \<not> fgt (py_round (kapasitas_kwp L) 2) (Fl 0) \<and>
        dict_get ?R ''Jumlah_Panel'' = Some (PyInt 0) \<and>
        (if fgt (penghematan_tahunan_uang L) (Fl 0)
         then dict_get ?R ''BEP_Tahun'' = Some (PyFloat (py_round (bep_tahun L) 1)) \<and>
              \<not> fgt (bep_tahun L) (Fl 0) \<and> \<not> fgt (py_round (bep_tahun L) 1) (Fl 0)
         else dict_get ?R ''BEP_Tahun'' = Some (PyStr ''Inf'')))"
  proof (cases "feq (fmul (fquot pvout (Fl 12)) LOSS_FACTOR) (Fl 0)")
    case True
    with compute_locals_zero_yield[OF assms(3) True] show ?thesis by simp
  next
    case False
    from compute_locals_negative[OF assms False] obtain L where
      L: "compute_locals B (PyFloat pvout) (PyFloat tagihan) (PyFloat tarif) (PyFloat persen) = Normal L"
      and k: "\<not> fgt (kapasitas_kwp L) (Fl 0)" and j: "jumlah_panel L = 0"
      and b: "if fgt (penghematan_tahunan_uang L) (Fl 0) then \<not> fgt (bep_tahun L) (Fl 0)
        else bep_tahun L = PInf"
      by blast
    note d = calculate_Normal[OF L]
    have 1: "dict_get ?R ''status'' = Some (PyStr ''success'')"
      using d by (simp add: dict_get_def)
    have 2: "dict_get ?R ''Kapasitas_kWp'' = Some (PyFloat (py_round (kapasitas_kwp L) 2))"
      using d by (simp add: dict_get_def)
    have 3: "dict_get ?R ''Jumlah_Panel'' = Some (PyInt 0)"
      using d j by (simp add: dict_get_def)
    have 4: "if fgt (penghematan_tahunan_uang L) (Fl 0)
         then dict_get ?R ''BEP_Tahun'' = Some (PyFloat (py_round (bep_tahun L) 1)) \<and>
              \<not> fgt (bep_tahun L) (Fl 0) \<and> \<not> fgt (py_round (bep_tahun L) 1) (Fl 0)
         else dict_get ?R ''BEP_Tahun'' = Some (PyStr ''Inf'')"
    proof (cases "fgt (penghematan_tahunan_uang L) (Fl 0)")
      case True
      with b have nb: "\<not> fgt (bep_tahun L) (Fl 0)" by simp
      then have "fne (bep_tahun L) PInf" by (auto simp: fne_def feq_def fgt_def)
      then have "dict_get ?R ''BEP_Tahun'' = Some (PyFloat (py_round (bep_tahun L) 1))"
        using d by (simp add: dict_get_def del: One_nat_def)
      with nb py_round_np[OF nb, of 1] True show ?thesis by simp
    next
      case False
      with b have "bep_tahun L = PInf" by simp
      with d False show ?thesis by (simp add: dict_get_def fne_def feq_def)
    qed
    from False L 1 k 2 py_round_np[OF k, of 2] 3 4 show ?thesis by auto
  qed
next
  assume h: "in_range (- 100) 100 (Fl p) \<and> in_range (- 100) 100 tagihan \<and> in_range (- 100) 100 tarif \<and>
    in_range (- 100) 7 persen"
  let ?R = "calculate_solar_economics B (PyFloat (Fl (- p))) (PyFloat tagihan) (PyFloat tarif) (PyFloat persen)"
  from h compute_locals_mirror[of p tagihan tarif persen B] obtain L k0 b0 where
    L: "compute_locals B (PyFloat (Fl (- p))) (PyFloat tagihan) (PyFloat tarif) (PyFloat persen) = Normal L"
    and k: "kapasitas_kwp L = Fl (- k0)" "in_range (- 404) 306 (Fl k0)"
    and b: "bep_tahun L = Fl (- b0)" "in_range (- 686) 735 (Fl b0)"
    and j: "jumlah_panel L = 0"
    by blast
  from in_rangeD[OF k(2)] have k0: "0 < k0" by simp
  from in_rangeD[OF b(2)] have b0: "0 < b0" by simp
  from py_round_sign[OF k(2), of 2] obtain c0 where
    c0: "py_round (Fl k0) 2 = Fl c0" "0 \<le> c0" "0 < c0 \<longleftrightarrow> 1 / 2 < k0 * 10 ^ 2"
    by auto
  from py_round_sign[OF b(2), of 1] obtain d0 where
    d0: "py_round (Fl b0) 1 = Fl d0" "0 \<le> d0" "0 < d0 \<longleftrightarrow> 1 / 2 < b0 * 10 ^ 1"
    by auto
  have c: "py_round (Fl (- k0)) 2 = Fl (- c0)" using c0(1) by (rule py_round_uminus)
  have d: "py_round (Fl (- b0)) 1 = Fl (- d0)" using d0(1) by (rule py_round_uminus)
  have ci: "- c0 < 0 \<longleftrightarrow> - k0 < - (1 / 200)" using c0(3) by auto
  have di: "- d0 < 0 \<longleftrightarrow> - b0 < - (1 / 20)" using d0(3) by auto
  note r = calculate_Normal[OF L]
  have "fne (bep_tahun L) PInf" by (simp add: b(1) fne_def feq_def)
  with r have f: "dict_get ?R ''status'' = Some (PyStr ''success'')"
    "dict_get ?R ''Kapasitas_kWp'' = Some (PyFloat (Fl (- c0)))"
    "dict_get ?R ''BEP_Tahun'' = Some (PyFloat (Fl (- d0)))"
    "dict_get ?R ''Jumlah_Panel'' = Some (PyInt 0)"
    by (simp_all add: dict_get_def k(1) b(1) c d j del: One_nat_def)
  have "kapasitas_kwp L = Fl (- k0) \<and> - k0 < 0 \<and> bep_tahun L = Fl (- b0) \<and> - b0 < 0 \<and>
        py_round (Fl (- k0)) 2 = Fl (- c0) \<and> - c0 \<le> 0 \<and> (- c0 < 0 \<longleftrightarrow> - k0 < - (1 / 200)) \<and>
        py_round (Fl (- b0)) 1 = Fl (- d0) \<and> - d0 \<le> 0 \<and> (- d0 < 0 \<longleftrightarrow> - b0 < - (1 / 20))"
    using k(1) b(1) k0 b0 c d c0(2) d0(2) ci di by simp
  with L f show "\<exists>L k b c d.
        compute_locals B (PyFloat (Fl (- p))) (PyFloat tagihan) (PyFloat tarif) (PyFloat persen) = Normal L \<and>
        kapasitas_kwp L = Fl k \<and> k < 0 \<and> bep_tahun L = Fl b \<and> b < 0 \<and>
        py_round (Fl k) 2 = Fl c \<and> c \<le> 0 \<and> (c < 0 \<longleftrightarrow> k < - (1 / 200)) \<and>
        py_round (Fl b) 1 = Fl d \<and> d \<le> 0 \<and> (d < 0 \<longleftrightarrow> b < - (1 / 20)) \<and>
        dict_get ?R ''status'' = Some (PyStr ''success'') \<and>
        dict_get ?R ''Kapasitas_kWp'' = Some (PyFloat (Fl c)) \<and>
        dict_get ?R ''BEP_Tahun'' = Some (PyFloat (Fl d)) \<and>
        dict_get ?R ''Jumlah_Panel'' = Some (PyInt 0)"
    by blast
qed

text \<open>
  The witness is the example of the specification with the yield negated: the capacity
  is about \<open>- 6.27\<close> and the break-even time about \<open>- 6.48\<close>, and the fields are \<open>- 6.27\<close>
  and \<open>- 6.5\<close>.
\<close>

theorem negative_yield_only_zero_check_witness:
  "flt (Fl (- 1500)) (Fl 0) \<and> fgt (Fl 1000000) (Fl 0) \<and> fgt (Fl 1500) (Fl 0) \<and> fgt (Fl 100) (Fl 0) \<and>
   in_range (- 100) 100 (Fl 1500) \<and> in_range (- 100) 100 (Fl 1000000) \<and> in_range (- 100) 7 (Fl 100) \<and>
   \<not> feq (fmul (fquot (Fl (- 1500)) (Fl 12)) LOSS_FACTOR) (Fl 0) \<and>
   (\<exists>L k b. compute_locals bare_builtins (PyFloat (Fl (- 1500))) (PyFloat (Fl 1000000)) (PyFloat (Fl 1500))
      (PyFloat (Fl 100)) = Normal L \<and>
      kapasitas_kwp L = Fl k \<and> k < - (1 / 200) \<and> bep_tahun L = Fl b \<and> b < - (1 / 20) \<and>
      fgt (penghematan_tahunan_uang L) (Fl 0)) \<and>
   calculate_solar_economics bare_builtins (PyFloat (Fl (- 1500))) (PyFloat (Fl 1000000)) (PyFloat (Fl 1500))
      (PyFloat (Fl 100)) =
     [(''status'', PyStr ''success''),
      (''TDL_Used'', PyFloat (Fl 1500)),
      (''PVOut_Annual'', PyFloat (Fl (- 1500))),
      (''PVOUT_Bulanan_Efektif'', PyFloat (Fl (- (425 / 4)))),
      (''Kebutuhan_kWh_Bulanan'', PyFloat (Fl (5864091335115407 / 8796093022208))),
      (''Kapasitas_kWp'', PyFloat (Fl (- (1764848103975813 / 281474976710656)))),
      (''Produksi_kWh_Bulanan'', PyFloat (Fl (2932031154004217 / 4398046511104))),
      (''Total_Investasi'', PyFloat (Fl (- 77741176))),
      (''Penghematan_Tahunan_Rp'', PyFloat (Fl 12000000)),
      (''BEP_Tahun'', PyFloat (Fl (- (13 / 2)))),
      (''Jumlah_Panel'', PyInt 0),
      (''Estimasi_Area_m2'', PyFloat (Fl 0)),
      (''LOSS_FACTOR'', PyFloat LOSS_FACTOR)]"
proof -
  have h: "flt (Fl (- 1500)) (Fl 0) \<and> fgt (Fl 1000000) (Fl 0) \<and> fgt (Fl 1500) (Fl 0) \<and> fgt (Fl 100) (Fl 0)"
    by (simp add: fgt_def)
  have g: "in_range (- 100) 100 (Fl 1500) \<and> in_range (- 100) 100 (Fl 1000000) \<and>
      in_range (- 100) 100 (Fl 1500) \<and> in_range (- 100) 7 (Fl 100)"
    by (simp add: in_range_def)
  have "fmul (fquot (Fl (- 1500)) (Fl 12)) LOSS_FACTOR = Fl (- (425 / 4))"
    unfolding ex7_monthly LOSS_FACTOR_value by (rule ex7_effective)
  then have z: "\<not> feq (fmul (fquot (Fl (- 1500)) (Fl 12)) LOSS_FACTOR) (Fl 0)"
    by (simp add: feq_def del: fquot.simps fmul.simps)
  note t = negative_yield_only_zero_check[where B = bare_builtins and pvout = "Fl (- 1500)"
      and p = 1500 and tagihan = "Fl 1000000" and tarif = "Fl 1500" and persen = "Fl 100"]
  note res = ex7_result[of bare_builtins]
  from t g obtain L k b c d where
    L: "compute_locals bare_builtins (PyFloat (Fl (- 1500))) (PyFloat (Fl 1000000)) (PyFloat (Fl 1500))
      (PyFloat (Fl 100)) = Normal L"
    and k: "kapasitas_kwp L = Fl k" "c < 0 \<longleftrightarrow> k < - (1 / 200)"
    and b: "bep_tahun L = Fl b" "d < 0 \<longleftrightarrow> b < - (1 / 20)"
    and c: "dict_get (calculate_solar_economics bare_builtins (PyFloat (Fl (- 1500))) (PyFloat (Fl 1000000))
      (PyFloat (Fl 1500)) (PyFloat (Fl 100))) ''Kapasitas_kWp'' = Some (PyFloat (Fl c))"
    and d: "dict_get (calculate_solar_economics bare_builtins (PyFloat (Fl (- 1500))) (PyFloat (Fl 1000000))
      (PyFloat (Fl 1500)) (PyFloat (Fl 100))) ''BEP_Tahun'' = Some (PyFloat (Fl d))"
    by blast
  from c have "c < 0" unfolding res by (simp add: dict_get_def)
  with k(2) have k': "k < - (1 / 200)" by simp
  from d have "d < 0" unfolding res by (simp add: dict_get_def)
  with b(2) have b': "b < - (1 / 20)" by simp
  from L have "fgt (penghematan_tahunan_uang L) (Fl 0)"
    unfolding ex7_locals by (auto simp: fgt_def)
  with L k(1) k' b(1) b' have "\<exists>L k b. compute_locals bare_builtins (PyFloat (Fl (- 1500)))
      (PyFloat (Fl 1000000)) (PyFloat (Fl 1500)) (PyFloat (Fl 100)) = Normal L \<and>
      kapasitas_kwp L = Fl k \<and> k < - (1 / 200) \<and> bep_tahun L = Fl b \<and> b < - (1 / 20) \<and>
      fgt (penghematan_tahunan_uang L) (Fl 0)"
    by blast
  with h g z res show ?thesis by blast
qed

theorem negative_yield_capacity_not_negative:
  "flt (Fl (- 1500)) (Fl 0) \<and> fgt (Fl 500) (Fl 0) \<and> fgt (Fl 1500) (Fl 0) \<and> fgt (Fl 100) (Fl 0) \<and>
   fle (Fl 100) (Fl 100) \<and>
   calculate_solar_economics bare_builtins (PyFloat (Fl (- 1500))) (PyFloat (Fl 500)) (PyFloat (Fl 1500))
      (PyFloat (Fl 100)) =
     [(''status'', PyStr ''success''),
      (''TDL_Used'', PyFloat (Fl 1500)),
      (''PVOut_Annual'', PyFloat (Fl (- 1500))),
      (''PVOUT_Bulanan_Efektif'', PyFloat (Fl (- (425 / 4)))),
      (''Kebutuhan_kWh_Bulanan'', PyFloat (Fl (5944751508129055 / 18014398509481984))),
      (''Kapasitas_kWp'', PyFloat (Fl 0)),
      (''Produksi_kWh_Bulanan'', PyFloat (Fl (6004199023210345 / 18014398509481984))),
      (''Total_Investasi'', PyFloat (Fl (- 38871))),
      (''Penghematan_Tahunan_Rp'', PyFloat (Fl 6000)),
      (''BEP_Tahun'', PyFloat (Fl (- (13 / 2)))),
      (''Jumlah_Panel'', PyInt 0),
      (''Estimasi_Area_m2'', PyFloat (Fl 0)),
      (''LOSS_FACTOR'', PyFloat LOSS_FACTOR)] \<and>
   \<not> flt (Fl 0) (Fl 0) \<and>
   flt (Fl (- min_subnormal)) (Fl 0) \<and> fgt (Fl 1000000) (Fl 0) \<and>
   calculate_solar_economics bare_builtins (PyFloat (Fl (- min_subnormal))) (PyFloat (Fl 1000000))
      (PyFloat (Fl 1500)) (PyFloat (Fl 100)) =
     [(''error'', PyStr ''PVOut tahunan tidak valid (0) atau LOSS_FACTOR=0.'')]"
proof -
  have "flt (Fl (- 1500)) (Fl 0)" "fgt (Fl 500) (Fl 0)" "fgt (Fl 1500) (Fl 0)" "fgt (Fl 100) (Fl 0)"
    "fle (Fl 100) (Fl 100)" "\<not> flt (Fl 0) (Fl 0)" "fgt (Fl 1000000) (Fl 0)"
    by (simp_all add: fgt_def fle_def feq_def)
  moreover have "flt (Fl (- min_subnormal)) (Fl 0)" by (simp add: min_subnormal_def)
  ultimately show ?thesis using ex5_result[of bare_builtins] ex8_result[of bare_builtins] by blast
qed

end
